theory Spec2Isabelle
  imports Main
begin

chapter \<open>tornet\_scraper: scan orchestration, batching and enrichment\<close>

text \<open>
  A shallow embedding of the scan orchestration code of the repository
  (\<^verbatim>\<open>app/routes/marketplace.py\<close>, \<^verbatim>\<open>app/routes/posts.py\<close>,
  \<^verbatim>\<open>app/scrapers/marketplace_scraper.py\<close>, \<^verbatim>\<open>app/database/models.py\<close>,
  \<^verbatim>\<open>app/services/tornet_forum_login.py\<close>).  Python exceptions are values of the
  type \<open>error\<close>; a function that can raise returns \<open>error + 'a\<close>.  What the code
  obtains from the network or from a third-party library (HTTP responses, the
  language detector, the translation and classification services, the JSON
  reader) is an argument of the model.  Strings are lists of \<open>char\<close>, read as
  code points below 256.
\<close>

section \<open>The model\<close>

subsection \<open>Exceptions and strings\<close>

datatype error =
    ValueError | KeyError | IndexError | TypeError | AttributeError
  | RequestException | JSONDecodeError | IntegrityError | OtherError

text \<open>\<^verbatim>\<open>str.isspace\<close> on the code points below 256.\<close>

definition is_space :: "char \<Rightarrow> bool" where
  "is_space c =
     (let n = (of_char c :: nat)
      in (9 \<le> n \<and> n \<le> 13) \<or> (28 \<le> n \<and> n \<le> 32) \<or> n = 133 \<or> n = 160)"

text \<open>\<^verbatim>\<open>str.strip()\<close>: whitespace is removed at both ends.\<close>

definition strip :: "string \<Rightarrow> string" where
  "strip s = rev (dropWhile is_space (rev (dropWhile is_space s)))"

text \<open>\<^verbatim>\<open>str.lower()\<close> on the code points below 256.\<close>

definition lower_char :: "char \<Rightarrow> char" where
  "lower_char c =
     (let n = (of_char c :: nat)
      in if (65 \<le> n \<and> n \<le> 90) \<or> (192 \<le> n \<and> n \<le> 222 \<and> n \<noteq> 215)
         then char_of (n + 32) else c)"

definition lower :: "string \<Rightarrow> string" where
  "lower s = map lower_char s"

text \<open>\<^verbatim>\<open>sub in s\<close> for strings.\<close>

fun contains :: "string \<Rightarrow> string \<Rightarrow> bool" where
  "contains [] sub = (sub = [])"
| "contains (c # cs) sub = (take (length sub) (c # cs) = sub \<or> contains cs sub)"

text \<open>\<^verbatim>\<open>str(n)\<close> for a natural number and for an integer.\<close>

definition digit_char :: "nat \<Rightarrow> char" where
  "digit_char d = char_of (48 + d)"

fun str_nat :: "nat \<Rightarrow> string" where
  "str_nat n = (if n < 10 then [digit_char n] else str_nat (n div 10) @ [digit_char (n mod 10)])"

declare str_nat.simps [simp del]

definition str_int :: "int \<Rightarrow> string" where
  "str_int i = (if i < 0 then CHR ''-'' # str_nat (nat (- i)) else str_nat (nat i))"

text \<open>
  A Python \<^verbatim>\<open>dict\<close> keeps its keys in insertion order, and storing under a key
  that is present replaces the value in place: an association list with
  \<open>dict_set\<close>.
\<close>

type_synonym ('k, 'v) dict = "('k \<times> 'v) list"

fun dict_set :: "('k, 'v) dict \<Rightarrow> 'k \<Rightarrow> 'v \<Rightarrow> ('k, 'v) dict" where
  "dict_set [] k v = [(k, v)]"
| "dict_set ((k', v') # d) k v = (if k' = k then (k, v) # d else (k', v') # dict_set d k v)"

subsection \<open>The credential activator (\<^verbatim>\<open>app/services/tornet_forum_login.py\<close>)\<close>

text \<open>The character class \<^verbatim>\<open>[A-Z0-9]\<close>.\<close>

definition is_code_char :: "char \<Rightarrow> bool" where
  "is_code_char c =
     (let n = (of_char c :: nat) in (65 \<le> n \<and> n \<le> 90) \<or> (48 \<le> n \<and> n \<le> 57))"

text \<open>
  \<^verbatim>\<open>re.search(r'[A-Z0-9]{6}', captcha_text)\<close>: the positions are tried from the
  left, and the first one where six characters of the class follow gives the match.
\<close>

fun re_search_code :: "string \<Rightarrow> string option" where
  "re_search_code [] = None"
| "re_search_code (c # cs) =
     (if 6 \<le> length (c # cs) \<and> list_all is_code_char (take 6 (c # cs))
      then Some (take 6 (c # cs)) else re_search_code cs)"

definition clean_captcha_text :: "string \<Rightarrow> string option" where
  "clean_captcha_text captcha_text =
     (case re_search_code captcha_text of
        Some cleaned_text \<Rightarrow> Some cleaned_text
      | None \<Rightarrow> None)"

text \<open>
  What \<^verbatim>\<open>solve_captcha\<close> gets from outside: whether the image could be resized,
  the base64 text of the resized image, and the answer of the vision service
  (\<open>Inl\<close> when the call raised).
\<close>

record captcha_env =
  resize_image_ok :: bool
  image_to_base64_result :: "string option"
  vision_answer :: "error + string"

definition solve_captcha :: "captcha_env \<Rightarrow> string option" where
  "solve_captcha env =
     (if \<not> resize_image_ok env then None
      else case image_to_base64_result env of
        None \<Rightarrow> None
      | Some base64_image \<Rightarrow>
          if base64_image = [] then None
          else case vision_answer env of
            Inl e \<Rightarrow> None
          | Inr content \<Rightarrow>
              (case clean_captcha_text (strip content) of
                 None \<Rightarrow> None
               | Some cleaned_captcha \<Rightarrow> Some cleaned_captcha))"

text \<open>
  One pass of the \<^verbatim>\<open>while True\<close> loop of \<^verbatim>\<open>login_to_tor_website\<close>.  The
  environment of a pass: the login page (\<open>Inl\<close> when the request raised; else the
  CAPTCHA image tag, if any, with its \<^verbatim>\<open>src\<close> attribute, if any), the download of
  the image, the solver's environment, and the server's response to the
  submitted challenge code (its text and its session cookie).
\<close>

record login_response =
  response_text :: string
  session_cookie :: "string option"

record attempt_env =
  login_page :: "error + string option option"
  captcha_download :: "error + unit"
  captcha :: captcha_env
  post_login :: "string \<Rightarrow> error + login_response"

datatype attempt_outcome =
    Return "login_response option"
  | Continue nat bool

definition max_attempts :: nat where
  "max_attempts = 9"

text \<open>
  A failed pass: the counter goes up; at \<open>max_attempts\<close> the activator sleeps
  five minutes (the flag) and the counter starts again at zero.  The loop goes on.
\<close>

definition count_failure :: "nat \<Rightarrow> attempt_outcome" where
  "count_failure attempt_count =
     (if max_attempts \<le> attempt_count + 1 then Continue 0 True
      else Continue (attempt_count + 1) False)"

definition login_attempt :: "nat \<Rightarrow> attempt_env \<Rightarrow> attempt_outcome" where
  "login_attempt attempt_count env =
     (case login_page env of
        Inl e \<Rightarrow> count_failure attempt_count
      | Inr None \<Rightarrow> count_failure attempt_count
      | Inr (Some None) \<Rightarrow> count_failure attempt_count
      | Inr (Some (Some src)) \<Rightarrow>
          (case captcha_download env of
             Inl e \<Rightarrow> count_failure attempt_count
           | Inr u \<Rightarrow>
               (case solve_captcha (captcha env) of
                  None \<Rightarrow> count_failure attempt_count
                | Some captcha_text \<Rightarrow>
                    (case post_login env captcha_text of
                       Inl e \<Rightarrow> count_failure attempt_count
                     | Inr response \<Rightarrow>
                         (let text = lower (response_text response)
                          in if contains text ''invalid username or password'' then Return None
                             else if contains text ''invalid captcha''
                               then count_failure attempt_count
                             else if contains text ''profile'' \<and> contains text ''logout''
                               then Return (Some response)
                             else count_failure attempt_count)))))"

text \<open>
  The loop has no bound of its own.  It is run here on a finite list of pass
  environments; \<open>None\<close> says that the list is used up and the loop is still running.
\<close>

fun login_loop :: "nat \<Rightarrow> attempt_env list \<Rightarrow> login_response option option" where
  "login_loop attempt_count [] = None"
| "login_loop attempt_count (env # envs) =
     (case login_attempt attempt_count env of
        Return r \<Rightarrow> Some r
      | Continue attempt_count' slept \<Rightarrow> login_loop attempt_count' envs)"

definition login_to_tor_website :: "attempt_env list \<Rightarrow> login_response option option" where
  "login_to_tor_website envs = login_loop 0 envs"

text \<open>
  The spec's reading of the extraction rule speaks of the runs of the answer:
  \<open>code_runs\<close> lists the maximal runs of characters of the class, from the left.
\<close>

fun runs_from :: "string \<Rightarrow> string \<Rightarrow> string list" where
  "runs_from cur [] = (if cur = [] then [] else [cur])"
| "runs_from cur (c # cs) =
     (if is_code_char c then runs_from (cur @ [c]) cs
      else (if cur = [] then [] else [cur]) @ runs_from [] cs)"

definition code_runs :: "string \<Rightarrow> string list" where
  "code_runs s = runs_from [] s"

text \<open>A window: six characters of the class starting at position \<open>i\<close>.\<close>

definition code_window :: "string \<Rightarrow> nat \<Rightarrow> bool" where
  "code_window s i = (i + 6 \<le> length s \<and> list_all is_code_char (take 6 (drop i s)))"

subsection \<open>Pagination batches (\<^verbatim>\<open>app/scrapers/marketplace_scraper.py\<close>)\<close>

text \<open>
  \<^verbatim>\<open>url_template.format(page=page)\<close> is Python's \<^verbatim>\<open>str.format\<close>, which raises
  on a template it cannot fill.  The batching function takes the formatter as an
  argument \<open>format\<close>: \<open>format url_template page\<close> is the URL for the page, or
  the exception.
\<close>

text \<open>\<^verbatim>\<open>range(max_page, 0, -1)\<close>, for \<open>max_page\<close> at least 1.\<close>

definition range_down :: "int \<Rightarrow> int list" where
  "range_down max_page = rev [1..max_page]"

text \<open>\<^verbatim>\<open>range(0, n, step)\<close>: the multiples of \<open>step\<close> below \<open>n\<close>.\<close>

definition range_step :: "nat \<Rightarrow> nat \<Rightarrow> nat list" where
  "range_step n step = map (\<lambda>k. k * step) [0..<(n + step - 1) div step]"

text \<open>A list comprehension over a function that can raise stops at the first error.\<close>

fun format_all :: "(int \<Rightarrow> error + string) \<Rightarrow> int list \<Rightarrow> error + string list" where
  "format_all f [] = Inr []"
| "format_all f (p # ps) =
     (case f p of
        Inl e \<Rightarrow> Inl e
      | Inr u \<Rightarrow> (case format_all f ps of Inl e \<Rightarrow> Inl e | Inr us \<Rightarrow> Inr (u # us)))"

text \<open>A dict comprehension stores its items one after the other.\<close>

definition dict_of :: "('k \<times> 'v) list \<Rightarrow> ('k, 'v) dict" where
  "dict_of kvs = foldl (\<lambda>d (k, v). dict_set d k v) [] kvs"

definition batch_size :: nat where
  "batch_size = 10"

text \<open>
  \<^verbatim>\<open>create_pagination_batches\<close> returns \<^verbatim>\<open>json.dumps(batches)\<close>; the model
  returns the dict \<^verbatim>\<open>batches\<close> itself, which the callers get back with
  \<^verbatim>\<open>json.loads\<close>.
\<close>

definition create_pagination_batches ::
  "(string \<Rightarrow> int \<Rightarrow> error + string) \<Rightarrow> string \<Rightarrow> int \<Rightarrow> error + (string, string list) dict" where
  "create_pagination_batches format url_template max_page =
     (if max_page < 1 then Inr []
      else case format_all (format url_template) (range_down max_page) of
        Inl e \<Rightarrow> Inl e
      | Inr all_urls \<Rightarrow>
          Inr (dict_of (map (\<lambda>i. (str_nat (i div batch_size + 1), take batch_size (drop i all_urls)))
                 (range_step (length all_urls) batch_size))))"

subsection \<open>The data model (\<^verbatim>\<open>app/database/models.py\<close>)\<close>

text \<open>
  Tables are lists of rows in insertion order.  The primary key \<^verbatim>\<open>id\<close> of the
  item tables, which the database assigns, is left out of their rows; dates are
  readings of a clock.
\<close>

datatype ScanStatus = RUNNING | COMPLETED | STOPPED

datatype BotPurpose = SCRAPE_MARKETPLACE | SCRAPE_POST | SCRAPE_PROFILE

type_synonym datetime = nat

record BotProfile =
  bot_id :: int
  username :: string
  purpose :: BotPurpose
  tor_proxy :: "string option"
  user_agent :: "string option"
  session :: "string option"

record APIs =
  api_name :: string
  api_type :: string
  api_key :: string
  api_model :: string
  api_prompt :: string
  api_max_tokens :: int
  is_active :: bool

text \<open>
  The column \<^verbatim>\<open>batches\<close> holds the JSON text that \<^verbatim>\<open>create_pagination_batches\<close>
  returned; the row holds the dict that \<^verbatim>\<open>json.loads\<close> reads back from it.
\<close>

record MarketplacePaginationScan =
  pagination_scan_id :: int
  pagination_scan_scan_name :: string
  pagination_url :: string
  stored_max_page :: int
  stored_batches :: "(string, string list) dict option"

record MarketplacePostScan =
  post_scan_id :: int
  post_scan_name :: string
  pagination_scan_name :: string
  post_scan_start_date :: "datetime option"
  post_scan_completion_date :: "datetime option"
  post_scan_status :: ScanStatus

record MarketplacePost =
  post_scan_ref :: int
  post_timestamp :: string
  post_title :: string
  post_author :: string
  post_link :: string

record PostDetailScan =
  detail_scan_id :: int
  detail_scan_name :: string
  source_scan_name :: string
  detail_start_date :: "datetime option"
  detail_completion_date :: "datetime option"
  detail_status :: ScanStatus
  detail_batch_size :: int
  site_url :: string

text \<open>A JSON number is kept as the service wrote it.\<close>

type_synonym json_number = string

record MarketplacePostDetails =
  details_scan_ref :: int
  details_batch_name :: string
  details_title :: string
  details_content :: string
  details_timestamp :: string
  details_author :: string
  details_link :: string
  original_language :: "string option"
  original_text :: "string option"
  translated_language :: "string option"
  translated_text :: "string option"
  is_translated :: bool
  sentiment :: "string option"
  positive_score :: "json_number option"
  negative_score :: "json_number option"
  neutral_score :: "json_number option"

record database =
  bot_profiles :: "BotProfile list"
  apis :: "APIs list"
  marketplace_pagination_scans :: "MarketplacePaginationScan list"
  marketplace_post_scans :: "MarketplacePostScan list"
  marketplace_posts :: "MarketplacePost list"
  post_detail_scans :: "PostDetailScan list"
  marketplace_post_details :: "MarketplacePostDetails list"

text \<open>\<^verbatim>\<open>query(...).filter(...).first()\<close>: the first row that passes the filter.\<close>

definition first :: "('a \<Rightarrow> bool) \<Rightarrow> 'a list \<Rightarrow> 'a option" where
  "first p rows = (case filter p rows of [] \<Rightarrow> None | r # rs \<Rightarrow> Some r)"

text \<open>
  The unique constraints \<^verbatim>\<open>uix_scan_timestamp\<close> of \<^verbatim>\<open>marketplace_posts\<close> and
  \<^verbatim>\<open>uix_scan_timestamp_batch\<close> of \<^verbatim>\<open>marketplace_post_details\<close>.
\<close>

definition uix_scan_timestamp :: "MarketplacePost list \<Rightarrow> bool" where
  "uix_scan_timestamp rows = distinct (map (\<lambda>r. (post_scan_ref r, post_timestamp r)) rows)"

definition uix_scan_timestamp_batch :: "MarketplacePostDetails list \<Rightarrow> bool" where
  "uix_scan_timestamp_batch rows =
     distinct (map (\<lambda>r. (details_scan_ref r, details_timestamp r, details_batch_name r)) rows)"

text \<open>
  A commit writes the rows added in the session; the database refuses the
  transaction when a unique constraint would be broken.
\<close>

definition commit_posts :: "MarketplacePost list \<Rightarrow> MarketplacePost list \<Rightarrow> error + MarketplacePost list" where
  "commit_posts table pending =
     (if uix_scan_timestamp (table @ pending) then Inr (table @ pending) else Inl IntegrityError)"

definition commit_details ::
  "MarketplacePostDetails list \<Rightarrow> MarketplacePostDetails list \<Rightarrow> error + MarketplacePostDetails list" where
  "commit_details table pending =
     (if uix_scan_timestamp_batch (table @ pending) then Inr (table @ pending)
      else Inl IntegrityError)"

text \<open>An HTTP error response: status code and detail.\<close>

datatype http_error = HTTPException nat string

subsection \<open>Scraping a listing page (\<^verbatim>\<open>scrape_posts\<close>)\<close>

text \<open>
  A row of the listing table, as the four selectors of \<^verbatim>\<open>scrape_posts\<close> see it:
  the text of the first cell, of the link in the second cell and of the third
  cell (\<open>None\<close> when the selector finds nothing), and the link of the fifth cell
  (\<open>None\<close> when there is no link, \<open>Some None\<close> for a link without \<^verbatim>\<open>href\<close>).
\<close>

record table_row =
  td1_text :: "string option"
  td2_a_text :: "string option"
  td3_text :: "string option"
  td5_a_href :: "string option option"

record post_fields =
  title :: string
  author :: string
  link :: string

type_synonym posts_dict = "(string, post_fields) dict"

text \<open>
  What \<^verbatim>\<open>session.get\<close> and the parser give for a page: a request error, a page
  without the table, or the rows of the table.
\<close>

datatype page_fetch = RequestFailed | NoTable | Table "table_row list"

definition parse_row :: "table_row \<Rightarrow> error + string \<times> post_fields" where
  "parse_row row =
     (case td1_text row of
        None \<Rightarrow> Inl AttributeError
      | Some t \<Rightarrow>
          (case td2_a_text row of
             None \<Rightarrow> Inl AttributeError
           | Some a \<Rightarrow>
               (case td3_text row of
                  None \<Rightarrow> Inl AttributeError
                | Some ts \<Rightarrow>
                    (case td5_a_href row of
                       None \<Rightarrow> Inl TypeError
                     | Some None \<Rightarrow> Inl KeyError
                     | Some (Some href) \<Rightarrow>
                         Inr (strip ts, \<lparr>title = strip t, author = strip a, link = href\<rparr>)))))"

text \<open>
  The loop over the rows: an \<^verbatim>\<open>AttributeError\<close> skips the row, any other
  exception leaves \<^verbatim>\<open>scrape_posts\<close>; a parsed row is stored under its timestamp.
\<close>

fun scrape_rows :: "posts_dict \<Rightarrow> table_row list \<Rightarrow> error + posts_dict" where
  "scrape_rows posts [] = Inr posts"
| "scrape_rows posts (row # rows) =
     (case parse_row row of
        Inl e \<Rightarrow> if e = AttributeError then scrape_rows posts rows else Inl e
      | Inr (timestamp, post) \<Rightarrow> scrape_rows (dict_set posts timestamp post) rows)"

fun scrape_pages :: "posts_dict \<Rightarrow> page_fetch list \<Rightarrow> error + posts_dict" where
  "scrape_pages posts [] = Inr posts"
| "scrape_pages posts (RequestFailed # pages) = scrape_pages posts pages"
| "scrape_pages posts (NoTable # pages) = scrape_pages posts pages"
| "scrape_pages posts (Table table_rows # pages) =
     (case scrape_rows posts (take 10 table_rows) of
        Inl e \<Rightarrow> Inl e
      | Inr posts' \<Rightarrow> scrape_pages posts' pages)"

text \<open>
  \<^verbatim>\<open>scrape_posts\<close> returns \<^verbatim>\<open>json.dumps(posts)\<close>; \<open>scrape_posts\<close> is the dict
  before it is written out, and \<open>fetch\<close> gives the page behind a URL.
\<close>

definition scrape_posts :: "(string \<Rightarrow> page_fetch) \<Rightarrow> string list \<Rightarrow> error + posts_dict" where
  "scrape_posts fetch pagination_range = scrape_pages [] (map fetch pagination_range)"

text \<open>The rows that are stored, in the order of scraping.\<close>

definition parsed_rows :: "table_row list \<Rightarrow> (string \<times> post_fields) list" where
  "parsed_rows table_rows =
     concat (map (\<lambda>row. case parse_row row of Inl e \<Rightarrow> [] | Inr kv \<Rightarrow> [kv]) (take 10 table_rows))"

definition scraped_rows :: "page_fetch list \<Rightarrow> (string \<times> post_fields) list" where
  "scraped_rows pages =
     concat (map (\<lambda>page. case page of Table table_rows \<Rightarrow> parsed_rows table_rows | _ \<Rightarrow> []) pages)"

subsection \<open>The listing scan (\<^verbatim>\<open>app/routes/marketplace.py\<close>)\<close>

text \<open>
  The third-party functions that a batch uses: the JSON writer and reader,
  \<^verbatim>\<open>eval\<close>, and the Unicode normalisation \<^verbatim>\<open>NFKC\<close>.
\<close>

record library =
  json_dumps :: "posts_dict \<Rightarrow> string"
  json_loads :: "string \<Rightarrow> error + posts_dict"
  eval :: "string \<Rightarrow> error + posts_dict"
  nfkc :: "string \<Rightarrow> string"

text \<open>\<^verbatim>\<open>.encode('ascii', 'ignore').decode('ascii')\<close>.\<close>

definition ascii_ignore :: "string \<Rightarrow> string" where
  "ascii_ignore s = filter (\<lambda>c. (of_char c :: nat) < 128) s"

definition sanitize_post :: "library \<Rightarrow> post_fields \<Rightarrow> post_fields" where
  "sanitize_post lib post =
     \<lparr>title = ascii_ignore (nfkc lib (title post)), author = author post, link = link post\<rparr>"

text \<open>
  Reading the raw output of the scraper (lines 282 to 303): \<^verbatim>\<open>json.loads\<close>, and
  when it raises \<^verbatim>\<open>JSONDecodeError\<close>, \<^verbatim>\<open>eval\<close> of the same text (of a text that
  is not empty) with the titles sanitised; an exception of the second reading
  leaves the batch.
\<close>

definition read_posts_data :: "library \<Rightarrow> string \<Rightarrow> error + posts_dict" where
  "read_posts_data lib posts_data_raw =
     (case json_loads lib posts_data_raw of
        Inr posts_data \<Rightarrow> Inr posts_data
      | Inl e \<Rightarrow>
          if e \<noteq> JSONDecodeError then Inl e
          else case (if posts_data_raw \<noteq> [] then eval lib posts_data_raw else Inr []) of
            Inl se \<Rightarrow> Inl se
          | Inr raw_dict \<Rightarrow>
              Inr (dict_of (map (\<lambda>(timestamp, post). (timestamp, sanitize_post lib post)) raw_dict)))"

text \<open>
  Saving the posts of a batch (lines 307 to 326).  The session does not flush
  before a query (\<^verbatim>\<open>autoflush=False\<close>), so the check for an existing row reads
  the committed table; the rows are added to the session and written by the one
  commit at the end.
\<close>

definition post_exists :: "MarketplacePost list \<Rightarrow> int \<Rightarrow> string \<Rightarrow> post_fields \<Rightarrow> bool" where
  "post_exists table scan_id timestamp post =
     (first (\<lambda>r. post_scan_ref r = scan_id \<and> post_timestamp r = timestamp \<and>
                 post_title r = title post \<and> post_link r = link post) table \<noteq> None)"

fun add_posts :: "MarketplacePost list \<Rightarrow> int \<Rightarrow> (string \<times> post_fields) list \<Rightarrow> MarketplacePost list" where
  "add_posts table scan_id [] = []"
| "add_posts table scan_id ((timestamp, post) # items) =
     (if \<not> post_exists table scan_id timestamp post
      then \<lparr>post_scan_ref = scan_id, post_timestamp = timestamp, post_title = title post,
            post_author = author post, post_link = link post\<rparr> # add_posts table scan_id items
      else add_posts table scan_id items)"

text \<open>
  \<^verbatim>\<open>sync_scrape_batch\<close> for one batch, on the table of the stored posts.  \<open>Inl\<close>
  is the exception that leaves the function; the transaction is then rolled
  back, so the table stays as it was.
\<close>

definition sync_scrape_batch ::
  "library \<Rightarrow> (string \<Rightarrow> page_fetch) \<Rightarrow> MarketplacePost list \<Rightarrow> string list \<Rightarrow> int
     \<Rightarrow> error + MarketplacePost list" where
  "sync_scrape_batch lib fetch table urls scan_id =
     (case scrape_posts fetch urls of
        Inl e \<Rightarrow> Inl e
      | Inr posts \<Rightarrow>
          (case read_posts_data lib (json_dumps lib posts) of
             Inl e \<Rightarrow> Inl e
           | Inr posts_data \<Rightarrow> commit_posts table (add_posts table scan_id posts_data)))"

text \<open>
  The tasks of a scan: batch \<open>i\<close> goes to the bot \<open>i mod len(available_bots)\<close>, and
  every bot has its own view of the site.  \<^verbatim>\<open>asyncio.gather\<close> with
  \<^verbatim>\<open>return_exceptions=True\<close> collects the outcome of every task, an exception
  as a value.  The batches run here one after the other in the order of the queue.
\<close>

fun run_batches ::
  "library \<Rightarrow> (BotProfile \<Rightarrow> string \<Rightarrow> page_fetch) \<Rightarrow> BotProfile list \<Rightarrow> int \<Rightarrow> nat
     \<Rightarrow> (string \<times> string list) list \<Rightarrow> MarketplacePost list
     \<Rightarrow> MarketplacePost list \<times> (error + unit) list" where
  "run_batches lib site available_bots scan_id i [] table = (table, [])"
| "run_batches lib site available_bots scan_id i ((batch_key, urls) # batch_queue) table =
     (let worker = available_bots ! (i mod length available_bots) in
      case sync_scrape_batch lib (site worker) table urls scan_id of
        Inl e \<Rightarrow>
          (let (table', results) = run_batches lib site available_bots scan_id (i + 1) batch_queue table
           in (table', Inl e # results))
      | Inr saved \<Rightarrow>
          (let (table', results) = run_batches lib site available_bots scan_id (i + 1) batch_queue saved
           in (table', Inr () # results)))"

definition set_post_scan ::
  "int \<Rightarrow> (MarketplacePostScan \<Rightarrow> MarketplacePostScan) \<Rightarrow> database \<Rightarrow> database" where
  "set_post_scan scan_id f db =
     db\<lparr>marketplace_post_scans :=
          map (\<lambda>s. if post_scan_id s = scan_id then f s else s) (marketplace_post_scans db)\<rparr>"

text \<open>
  \<^verbatim>\<open>scrape_batches\<close>, the background task of a started listing scan (lines 266
  to 364).  With no bot the thread pool cannot be made and the handler of the
  task marks the scan \<open>STOPPED\<close>; otherwise the results of \<^verbatim>\<open>gather\<close> are not
  read and the scan is marked \<open>COMPLETED\<close>.  It returns the database and the
  results that \<^verbatim>\<open>gather\<close> collected.
\<close>

definition scrape_batches ::
  "library \<Rightarrow> (BotProfile \<Rightarrow> string \<Rightarrow> page_fetch) \<Rightarrow> datetime \<Rightarrow> int \<Rightarrow> BotProfile list
     \<Rightarrow> (string, string list) dict \<Rightarrow> database \<Rightarrow> database \<times> (error + unit) list" where
  "scrape_batches lib site now scan_id active_bots batches_dict db =
     (if active_bots = [] then
        (set_post_scan scan_id
           (\<lambda>s. s\<lparr>post_scan_status := STOPPED, post_scan_completion_date := Some now\<rparr>) db, [])
      else
        (let (table, results) =
               run_batches lib site active_bots scan_id 0 batches_dict (marketplace_posts db);
             db' = db\<lparr>marketplace_posts := table\<rparr>
         in (set_post_scan scan_id
               (\<lambda>s. s\<lparr>post_scan_status := COMPLETED, post_scan_completion_date := Some now\<rparr>) db',
             results)))"

text \<open>
  \<^verbatim>\<open>start_post_scan\<close> of \<^verbatim>\<open>marketplace.py\<close> (lines 215 to 379), up to the point
  where the background task is created: the error response, or the database
  after the commit together with the bots and batches that the task works on.
\<close>

definition marketplace_start_post_scan ::
  "datetime \<Rightarrow> int \<Rightarrow> database
     \<Rightarrow> http_error + database \<times> BotProfile list \<times> (string, string list) dict" where
  "marketplace_start_post_scan now scan_id db =
     (case first (\<lambda>s. post_scan_id s = scan_id) (marketplace_post_scans db) of
        None \<Rightarrow> Inl (HTTPException 404 ''Post scan not found'')
      | Some db_scan \<Rightarrow>
          if post_scan_status db_scan = RUNNING
          then Inl (HTTPException 400 ''Scan is already running'')
          else
            (let active_bots =
                   filter (\<lambda>b. purpose b = SCRAPE_MARKETPLACE \<and> session b \<noteq> None) (bot_profiles db)
             in if active_bots = [] then Inl (HTTPException 400 ''No active bots available'')
                else
                  (case first (\<lambda>p. pagination_scan_scan_name p = pagination_scan_name db_scan)
                          (marketplace_pagination_scans db) of
                     None \<Rightarrow> Inl (HTTPException 404 ''Pagination scan not found'')
                   | Some pagination_scan \<Rightarrow>
                       (let batches_dict = (case stored_batches pagination_scan of None \<Rightarrow> [] | Some d \<Rightarrow> d)
                        in if batches_dict = [] then Inl (HTTPException 400 ''No batches available'')
                           else
                             Inr (set_post_scan scan_id
                                    (\<lambda>s. s\<lparr>post_scan_status := RUNNING,
                                           post_scan_start_date := Some now,
                                           post_scan_completion_date := None\<rparr>) db,
                                  active_bots, batches_dict)))))"

text \<open>The row of a listing scan, by its id.\<close>

definition post_scan_of :: "database \<Rightarrow> int \<Rightarrow> MarketplacePostScan option" where
  "post_scan_of db scan_id = first (\<lambda>s. post_scan_id s = scan_id) (marketplace_post_scans db)"

subsection \<open>The post-detail scan (\<^verbatim>\<open>app/routes/posts.py\<close>)\<close>

text \<open>
  The parsed answer of the translation service, as \<^verbatim>\<open>translate_string\<close> writes
  it and \<^verbatim>\<open>json.loads\<close> reads it, and the parsed answer of the classification
  service.
\<close>

record translation =
  original_text_of :: string
  original_language_of :: "string option"
  translated_text_of :: "string option"
  translated_language_of :: "string option"
  translated_flag :: bool

record iab_result =
  iab_classification :: "string option"
  iab_sentiment :: "string option"
  iab_positive :: "json_number option"
  iab_negative :: "json_number option"
  iab_neutral :: "json_number option"

text \<open>
  What \<^verbatim>\<open>translate_string\<close> of \<^verbatim>\<open>app/scrapers/post_scraper.py\<close> returns,
  read back by \<^verbatim>\<open>json.loads\<close>, for the outcome of the call of the translation
  service: the detected source language and the translated text, or the
  exception that the call raised.  An exception is caught and gives an answer
  without language and without translated text.
\<close>

definition translate_string_answer :: "string \<Rightarrow> string \<Rightarrow> error + string \<times> string \<Rightarrow> translation" where
  "translate_string_answer input_string target_lang outcome =
     (case outcome of
        Inl e \<Rightarrow>
          \<lparr>original_text_of = input_string, original_language_of = None,
           translated_text_of = None, translated_language_of = None, translated_flag = False\<rparr>
      | Inr (source_lang, translated) \<Rightarrow>
          \<lparr>original_text_of = input_string, original_language_of = Some source_lang,
           translated_text_of = (if source_lang \<noteq> ''EN'' then Some translated else None),
           translated_language_of = (if source_lang \<noteq> ''EN'' then Some target_lang else None),
           translated_flag = (source_lang \<noteq> ''EN'')\<rparr>)"

text \<open>
  What a batch of the post-detail scan gets from outside.  \<open>open_session\<close> is
  \<^verbatim>\<open>SessionLocal()\<close> for the batch of that name (\<open>Some e\<close> when it raises);
  \<open>scrape_post_details\<close> gives the raw text for a bot and a URL;
  \<open>loads_scraped\<close> is \<^verbatim>\<open>json.loads\<close> on that text, whose result is an object
  of strings; \<open>detect\<close> is the language detector; \<open>translate_string\<close> and
  \<open>iab_classify\<close> are the two services followed by \<^verbatim>\<open>json.loads\<close> of their
  answers (\<open>Inl JSONDecodeError\<close> when the answer cannot be read).
\<close>

record services =
  open_session :: "string \<Rightarrow> error option"
  scrape_post_details :: "BotProfile \<Rightarrow> string \<Rightarrow> string"
  loads_scraped :: "string \<Rightarrow> error + (string \<times> string) list"
  normalize_nfkc :: "string \<Rightarrow> string"
  detect :: "string \<Rightarrow> error + string"
  translate_string :: "string \<Rightarrow> error + translation"
  iab_classify :: "string \<Rightarrow> error + iab_result"

text \<open>The entries of \<^verbatim>\<open>scan_errors\<close>, by the place that appends them.\<close>

datatype scan_error =
    NoData string
  | JSONParseError string
  | ScrapingError string string
  | IncompleteData string
  | TimestampMismatch string string string
  | TranslationJSONError string string
  | IABJSONError string
  | ProcessingError string error
  | BatchFailed string error

text \<open>\<^verbatim>\<open>site_url.rstrip('/')\<close>, \<^verbatim>\<open>post_link.lstrip('/')\<close> and the URL of a post.\<close>

definition rstrip_slash :: "string \<Rightarrow> string" where
  "rstrip_slash s = rev (dropWhile (\<lambda>c. c = CHR ''/'') (rev s))"

definition lstrip_slash :: "string \<Rightarrow> string" where
  "lstrip_slash s = dropWhile (\<lambda>c. c = CHR ''/'') s"

definition full_url_of :: "string \<Rightarrow> string \<Rightarrow> string" where
  "full_url_of url path = rstrip_slash url @ ''/'' @ lstrip_slash path"

text \<open>
  Language detection (lines 300 to 307).  A blank text is taken as \<^verbatim>\<open>'en'\<close>
  without a call of the detector; when the detector raises, for the title or for
  the content, both languages are \<^verbatim>\<open>'unknown'\<close>.
\<close>

definition detect_languages :: "(string \<Rightarrow> error + string) \<Rightarrow> string \<Rightarrow> string \<Rightarrow> string \<times> string" where
  "detect_languages detector title_text content_text =
     (case (if strip title_text \<noteq> [] then detector title_text else Inr ''en'') of
        Inl e \<Rightarrow> (''unknown'', ''unknown'')
      | Inr title_lang \<Rightarrow>
          (case (if strip content_text \<noteq> [] then detector content_text else Inr ''en'') of
             Inl e \<Rightarrow> (''unknown'', ''unknown'')
           | Inr content_lang \<Rightarrow> (title_lang, content_lang)))"

definition untranslated :: "string \<Rightarrow> translation" where
  "untranslated text =
     \<lparr>original_text_of = text, original_language_of = Some ''en'',
      translated_text_of = Some text, translated_language_of = Some ''en'',
      translated_flag = False\<rparr>"

text \<open>
  Translation (lines 309 to 345): skipped when both languages are \<^verbatim>\<open>'en'\<close>;
  otherwise the title is translated, then the content.  The result is the pair
  of the two translations, or the entry for \<^verbatim>\<open>scan_errors\<close>.
\<close>

definition translate_post ::
  "services \<Rightarrow> string \<Rightarrow> string \<times> string \<Rightarrow> string \<Rightarrow> string
     \<Rightarrow> scan_error + translation \<times> translation" where
  "translate_post srv full_url langs title_text content_text =
     (if fst langs = ''en'' \<and> snd langs = ''en''
      then Inr (untranslated title_text, untranslated content_text)
      else case translate_string srv title_text of
        Inl e \<Rightarrow>
          Inl (if e = JSONDecodeError then TranslationJSONError full_url ''title''
               else ProcessingError full_url e)
      | Inr title_trans \<Rightarrow>
          (case translate_string srv content_text of
             Inl e \<Rightarrow>
               Inl (if e = JSONDecodeError then TranslationJSONError full_url ''content''
                    else ProcessingError full_url e)
           | Inr content_trans \<Rightarrow> Inr (title_trans, content_trans)))"

text \<open>\<^verbatim>\<open>prompt.replace("TARGET-POST-PLACEHOLDER", text)\<close>.\<close>

definition placeholder :: string where
  "placeholder = ''TARGET-POST-PLACEHOLDER''"

function replace_placeholder :: "string \<Rightarrow> string \<Rightarrow> string" where
  "replace_placeholder [] text = []"
| "replace_placeholder (c # cs) text =
     (if take (length placeholder) (c # cs) = placeholder
      then text @ replace_placeholder (drop (length placeholder) (c # cs)) text
      else c # replace_placeholder cs text)"
  by pat_completeness auto
termination
  by (relation "measure (\<lambda>(s, text). length s)") (auto simp: placeholder_def)

text \<open>\<^verbatim>\<open>translated_text or original_text\<close>.\<close>

definition prompt_text :: "translation \<Rightarrow> string" where
  "prompt_text content_trans =
     (case translated_text_of content_trans of
        None \<Rightarrow> original_text_of content_trans
      | Some t \<Rightarrow> if t = [] then original_text_of content_trans else t)"

text \<open>
  The constructor of a mapped class takes a keyword only when the class has an
  attribute of that name, and raises \<^verbatim>\<open>TypeError\<close> otherwise.  The columns are
  those of \<^verbatim>\<open>MarketplacePostDetails\<close> in \<^verbatim>\<open>models.py\<close>; the keywords are
  those of the call in \<^verbatim>\<open>posts.py\<close> (lines 378 to 396).
\<close>

definition MarketplacePostDetails_columns :: "string list" where
  "MarketplacePostDetails_columns =
     [''id'', ''scan_id'', ''batch_name'', ''title'', ''content'', ''timestamp'', ''author'',
      ''link'', ''original_language'', ''original_text'', ''translated_language'',
      ''translated_text'', ''is_translated'', ''sentiment'', ''positive_score'',
      ''negative_score'', ''neutral_score'', ''timestamp_added'']"

definition details_keywords :: "string list" where
  "details_keywords =
     [''scan_id'', ''batch_name'', ''title'', ''content'', ''timestamp'', ''author'', ''link'',
      ''original_language'', ''original_text'', ''translated_language'', ''translated_text'',
      ''is_translated'', ''classification'', ''sentiment'', ''positive_score'',
      ''negative_score'', ''neutral_score'']"

definition declarative_constructor :: "string list \<Rightarrow> string list \<Rightarrow> 'a \<Rightarrow> error + 'a" where
  "declarative_constructor columns keywords row =
     (if list_all (\<lambda>k. k \<in> set columns) keywords then Inr row else Inl TypeError)"

datatype post_outcome = Saved MarketplacePostDetails | Duplicate | Failed scan_error

text \<open>
  The end of the loop body (lines 367 to 399): the check for an existing row
  with the same scan, timestamp and batch name, then the constructor, the add
  and the commit.  An exception goes to the handler of the loop body, which
  appends to \<^verbatim>\<open>scan_errors\<close> and rolls back.
\<close>

definition insert_details :: "MarketplacePostDetails list \<Rightarrow> string \<Rightarrow> MarketplacePostDetails \<Rightarrow> post_outcome" where
  "insert_details table full_url row =
     (if first (\<lambda>r. details_scan_ref r = details_scan_ref row \<and>
                    details_timestamp r = details_timestamp row \<and>
                    details_batch_name r = details_batch_name row) table \<noteq> None
      then Duplicate
      else case declarative_constructor MarketplacePostDetails_columns details_keywords row of
        Inl e \<Rightarrow> Failed (ProcessingError full_url e)
      | Inr db_post_details \<Rightarrow>
          (case commit_details table [db_post_details] of
             Inl e \<Rightarrow> Failed (ProcessingError full_url e)
           | Inr table' \<Rightarrow> Saved db_post_details))"

text \<open>
  The enrichment of a scraped post whose timestamp agrees with the listing
  (lines 296 to 399): normalisation, language detection, translation,
  classification, and the insertion.
\<close>

definition enrich_post ::
  "services \<Rightarrow> string \<Rightarrow> MarketplacePostDetails list \<Rightarrow> string \<Rightarrow> int \<Rightarrow> string
     \<Rightarrow> string \<Rightarrow> string \<Rightarrow> string \<Rightarrow> string \<Rightarrow> post_outcome" where
  "enrich_post srv iab_prompt_template table batch_name scan_id full_url
       raw_title raw_content scraped_author scraped_timestamp =
     (let title_text = ascii_ignore (normalize_nfkc srv raw_title);
          content_text = ascii_ignore (normalize_nfkc srv raw_content);
          langs = detect_languages (detect srv) title_text content_text
      in case translate_post srv full_url langs title_text content_text of
           Inl err \<Rightarrow> Failed err
         | Inr (title_trans, content_trans) \<Rightarrow>
             (case iab_classify srv
                     (replace_placeholder iab_prompt_template (prompt_text content_trans)) of
                Inl e \<Rightarrow>
                  Failed (if e = JSONDecodeError then IABJSONError full_url
                          else ProcessingError full_url e)
              | Inr iab \<Rightarrow>
                  insert_details table full_url
                    \<lparr>details_scan_ref = scan_id,
                     details_batch_name = batch_name,
                     details_title = title_text,
                     details_content = content_text,
                     details_timestamp = scraped_timestamp,
                     details_author = scraped_author,
                     details_link = full_url,
                     original_language = original_language_of content_trans,
                     original_text = Some (original_text_of content_trans),
                     translated_language = translated_language_of content_trans,
                     translated_text = translated_text_of content_trans,
                     is_translated = translated_flag content_trans,
                     sentiment = iab_sentiment iab,
                     positive_score = iab_positive iab,
                     negative_score = iab_negative iab,
                     neutral_score = iab_neutral iab\<rparr>))"

text \<open>
  The body of the loop of \<^verbatim>\<open>sync_scrape_post\<close> for one post of the batch (lines
  255 to 405): the row that is committed, or the silent skip of a duplicate, or
  the entry appended to \<^verbatim>\<open>scan_errors\<close> before the loop goes to the next post.
\<close>

definition scrape_one_post ::
  "services \<Rightarrow> string \<Rightarrow> MarketplacePostDetails list \<Rightarrow> BotProfile \<Rightarrow> string \<Rightarrow> int \<Rightarrow> string
     \<Rightarrow> string \<times> string \<Rightarrow> post_outcome" where
  "scrape_one_post srv iab_prompt_template table worker batch_name scan_id url post =
     (let listed_link = fst post; listed_timestamp = snd post;
          full_url = full_url_of url listed_link;
          scraped_data_raw = scrape_post_details srv worker full_url
      in if scraped_data_raw = [] then Failed (NoData full_url)
         else case loads_scraped srv scraped_data_raw of
           Inl e \<Rightarrow>
             Failed (if e = JSONDecodeError then JSONParseError full_url
                     else ProcessingError full_url e)
         | Inr scraped_data \<Rightarrow>
             (case map_of scraped_data ''error'' of
                Some msg \<Rightarrow> Failed (ScrapingError full_url msg)
              | None \<Rightarrow>
                  (case (map_of scraped_data ''title'', map_of scraped_data ''content'',
                         map_of scraped_data ''author'', map_of scraped_data ''timestamp'') of
                     (Some raw_title, Some raw_content, Some scraped_author, Some scraped_timestamp) \<Rightarrow>
                       if scraped_timestamp \<noteq> listed_timestamp
                       then Failed (TimestampMismatch full_url listed_timestamp scraped_timestamp)
                       else enrich_post srv iab_prompt_template table batch_name scan_id full_url
                              raw_title raw_content scraped_author scraped_timestamp
                   | _ \<Rightarrow> Failed (IncompleteData full_url))))"

text \<open>
  \<^verbatim>\<open>sync_scrape_post\<close>: the loop over the posts of a batch, on the table of the
  stored details and the list \<^verbatim>\<open>scan_errors\<close>.  A failed post changes nothing
  in the table (the rollback) and the loop goes on.
\<close>

fun sync_scrape_post ::
  "services \<Rightarrow> string \<Rightarrow> BotProfile \<Rightarrow> string \<Rightarrow> int \<Rightarrow> string \<Rightarrow> (string \<times> string) list
     \<Rightarrow> MarketplacePostDetails list \<times> scan_error list
     \<Rightarrow> MarketplacePostDetails list \<times> scan_error list" where
  "sync_scrape_post srv tmpl worker batch_name scan_id url [] state = state"
| "sync_scrape_post srv tmpl worker batch_name scan_id url (post # batch_posts) (table, scan_errors) =
     (case scrape_one_post srv tmpl table worker batch_name scan_id url post of
        Saved row \<Rightarrow>
          sync_scrape_post srv tmpl worker batch_name scan_id url batch_posts (table @ [row], scan_errors)
      | Duplicate \<Rightarrow>
          sync_scrape_post srv tmpl worker batch_name scan_id url batch_posts (table, scan_errors)
      | Failed err \<Rightarrow>
          sync_scrape_post srv tmpl worker batch_name scan_id url batch_posts (table, scan_errors @ [err]))"

text \<open>
  The tasks of the scan and the reading of their results (lines 407 to 434): an
  exception of a task is appended to \<^verbatim>\<open>scan_errors\<close> after all tasks are done.
  The batches run here one after the other; \<open>failed\<close> collects the batches whose
  task raised.
\<close>

fun run_post_batches ::
  "services \<Rightarrow> string \<Rightarrow> BotProfile list \<Rightarrow> int \<Rightarrow> string \<Rightarrow> nat
     \<Rightarrow> (string \<times> (string \<times> string) list) list
     \<Rightarrow> MarketplacePostDetails list \<times> scan_error list \<Rightarrow> scan_error list
     \<Rightarrow> MarketplacePostDetails list \<times> scan_error list" where
  "run_post_batches srv tmpl active_bots scan_id url i [] (table, scan_errors) failed =
     (table, scan_errors @ failed)"
| "run_post_batches srv tmpl active_bots scan_id url i ((batch_name, batch_posts) # rest) state failed =
     (let worker = active_bots ! (i mod length active_bots) in
      case open_session srv batch_name of
        Some e \<Rightarrow>
          run_post_batches srv tmpl active_bots scan_id url (i + 1) rest state
            (failed @ [BatchFailed batch_name e])
      | None \<Rightarrow>
          run_post_batches srv tmpl active_bots scan_id url (i + 1) rest
            (sync_scrape_post srv tmpl worker batch_name scan_id url batch_posts state) failed)"

definition set_detail_scan :: "int \<Rightarrow> (PostDetailScan \<Rightarrow> PostDetailScan) \<Rightarrow> database \<Rightarrow> database" where
  "set_detail_scan scan_id f db =
     db\<lparr>post_detail_scans :=
          map (\<lambda>s. if detail_scan_id s = scan_id then f s else s) (post_detail_scans db)\<rparr>"

text \<open>
  \<^verbatim>\<open>scrape_post_batches\<close>, the background task of a started post-detail scan
  (lines 248 to 458), with the finalisation of lines 436 to 449.
\<close>

definition scrape_post_batches ::
  "services \<Rightarrow> string \<Rightarrow> datetime \<Rightarrow> int \<Rightarrow> string \<Rightarrow> BotProfile list
     \<Rightarrow> (string \<times> (string \<times> string) list) list \<Rightarrow> database \<Rightarrow> database \<times> scan_error list" where
  "scrape_post_batches srv tmpl now scan_id url active_bots post_batches db =
     (if active_bots = [] then
        (set_detail_scan scan_id
           (\<lambda>s. s\<lparr>detail_status := STOPPED, detail_completion_date := Some now\<rparr>) db, [])
      else
        (let (table, scan_errors) =
               run_post_batches srv tmpl active_bots scan_id url 0 post_batches
                 (marketplace_post_details db, []) [];
             db' = db\<lparr>marketplace_post_details := table\<rparr>
         in if scan_errors \<noteq> [] then
              (set_detail_scan scan_id
                 (\<lambda>s. s\<lparr>detail_status := STOPPED, detail_completion_date := Some now\<rparr>) db',
               scan_errors)
            else
              (set_detail_scan scan_id
                 (\<lambda>s. s\<lparr>detail_status := COMPLETED, detail_completion_date := Some now\<rparr>) db',
               scan_errors)))"

text \<open>
  The batches of a post-detail scan (lines 232 to 236):
  \<^verbatim>\<open>range(0, len(post_data), batch_size)\<close> raises for the step 0 and is empty
  for a negative step; the name of batch \<open>k\<close> is \<^verbatim>\<open>batch_\<close> and \<open>k\<close> padded
  with zeros to three digits.
\<close>

definition batch_name_of :: "nat \<Rightarrow> string" where
  "batch_name_of k = ''batch_'' @ replicate (3 - length (str_nat k)) CHR ''0'' @ str_nat k"

definition make_post_batches ::
  "(string \<times> string) list \<Rightarrow> int \<Rightarrow> error + (string \<times> (string \<times> string) list) list" where
  "make_post_batches post_data bsize =
     (if bsize = 0 then Inl ValueError
      else if bsize < 0 then Inr []
      else Inr (map (\<lambda>i. (batch_name_of (i div nat bsize + 1), take (nat bsize) (drop i post_data)))
                  (range_step (length post_data) (nat bsize))))"

record started_detail_scan =
  started_db :: database
  started_bots :: "BotProfile list"
  started_batches :: "(string \<times> (string \<times> string) list) list"
  started_translation_key :: string
  started_iab_prompt :: string
  started_site_url :: string

text \<open>
  \<^verbatim>\<open>start_post_scan\<close> of \<^verbatim>\<open>posts.py\<close> (lines 149 to 473), up to the point where
  the background task is created.
\<close>

definition posts_start_post_scan :: "datetime \<Rightarrow> int \<Rightarrow> database \<Rightarrow> http_error + started_detail_scan" where
  "posts_start_post_scan now scan_id db =
     (case first (\<lambda>s. detail_scan_id s = scan_id) (post_detail_scans db) of
        None \<Rightarrow> Inl (HTTPException 404 ''Post detail scan not found'')
      | Some db_scan \<Rightarrow>
          if detail_status db_scan = RUNNING
          then Inl (HTTPException 400 ''Scan is already running'')
          else
            (case (first (\<lambda>a. api_type a = ''translation_api'' \<and> is_active a) (apis db),
                   first (\<lambda>a. api_type a = ''iab_api'' \<and> is_active a) (apis db)) of
               (Some translation_api, Some iab_api) \<Rightarrow>
                 (let active_bots =
                        filter (\<lambda>b. purpose b = SCRAPE_POST \<and> session b \<noteq> None \<and> session b \<noteq> Some [])
                          (bot_profiles db)
                  in if active_bots = [] then Inl (HTTPException 400 ''No active bots available'')
                     else
                       (case first (\<lambda>s. post_scan_name s = source_scan_name db_scan \<and>
                                        post_scan_completion_date s \<noteq> None \<and>
                                        post_scan_status s = COMPLETED)
                               (marketplace_post_scans db) of
                          None \<Rightarrow> Inl (HTTPException 404 ''Source post scan not found or not completed'')
                        | Some source_scan \<Rightarrow>
                            (let posts = filter (\<lambda>p. post_scan_ref p = post_scan_id source_scan)
                                           (marketplace_posts db)
                             in if posts = [] then Inl (HTTPException 404 ''No posts found'')
                                else if site_url db_scan = []
                                  then Inl (HTTPException 400 ''Site URL is required'')
                                else
                                  (case make_post_batches
                                          (map (\<lambda>p. (post_link p, post_timestamp p)) posts)
                                          (detail_batch_size db_scan) of
                                     Inl e \<Rightarrow> Inl (HTTPException 500 ''Internal server error'')
                                   | Inr post_batches \<Rightarrow>
                                       Inr \<lparr>started_db =
                                              set_detail_scan scan_id
                                                (\<lambda>s. s\<lparr>detail_status := RUNNING,
                                                       detail_start_date := Some now,
                                                       detail_completion_date := None\<rparr>) db,
                                            started_bots = active_bots,
                                            started_batches = post_batches,
                                            started_translation_key = api_key translation_api,
                                            started_iab_prompt = api_prompt iab_api,
                                            started_site_url = site_url db_scan\<rparr>))))
             | _ \<Rightarrow> Inl (HTTPException 400 ''Required APIs not found'')))"

text \<open>The row of a post-detail scan, by its id.\<close>

definition detail_scan_of :: "database \<Rightarrow> int \<Rightarrow> PostDetailScan option" where
  "detail_scan_of db scan_id = first (\<lambda>s. detail_scan_id s = scan_id) (post_detail_scans db)"

subsection \<open>Concrete inputs\<close>

text \<open>Bots, scans and pages for the worked runs below.\<close>

definition listing_bot :: "string option \<Rightarrow> BotProfile" where
  "listing_bot cookie =
     \<lparr>bot_id = 1, username = ''lister'', purpose = SCRAPE_MARKETPLACE,
      tor_proxy = Some ''socks5h://127.0.0.1:9050'', user_agent = Some ''Mozilla/5.0'',
      session = cookie\<rparr>"

definition detail_bot :: "string option \<Rightarrow> BotProfile" where
  "detail_bot cookie =
     \<lparr>bot_id = 2, username = ''reader'', purpose = SCRAPE_POST,
      tor_proxy = Some ''socks5h://127.0.0.1:9051'', user_agent = Some ''Mozilla/5.0'',
      session = cookie\<rparr>"

definition pages_scan :: MarketplacePaginationScan where
  "pages_scan =
     \<lparr>pagination_scan_id = 1, pagination_scan_scan_name = ''pages-1'',
      pagination_url = ''http://forum.onion/market?page={page}'', stored_max_page = 2,
      stored_batches =
        Some [(''1'', [''http://forum.onion/market?page=2'', ''http://forum.onion/market?page=1''])]\<rparr>"

definition listing_scan :: "ScanStatus \<Rightarrow> datetime option \<Rightarrow> MarketplacePostScan" where
  "listing_scan st done =
     \<lparr>post_scan_id = 1, post_scan_name = ''sellers-1'', pagination_scan_name = ''pages-1'',
      post_scan_start_date = Some 100, post_scan_completion_date = done, post_scan_status = st\<rparr>"

definition detail_scan :: "ScanStatus \<Rightarrow> datetime option \<Rightarrow> PostDetailScan" where
  "detail_scan st done =
     \<lparr>detail_scan_id = 7, detail_scan_name = ''details-1'', source_scan_name = ''sellers-1'',
      detail_start_date = Some 300, detail_completion_date = done, detail_status = st,
      detail_batch_size = 5, site_url = ''http://forum.onion/''\<rparr>"

definition vpn_post :: MarketplacePost where
  "vpn_post =
     \<lparr>post_scan_ref = 1, post_timestamp = ''2025-07-01 10:00'', post_title = ''VPN access'',
      post_author = ''alice'', post_link = ''/post/marketplace/1''\<rparr>"

definition service_apis :: "APIs list" where
  "service_apis =
     [\<lparr>api_name = ''deepl'', api_type = ''translation_api'', api_key = ''k1'', api_model = '''',
       api_prompt = '''', api_max_tokens = 0, is_active = True\<rparr>,
      \<lparr>api_name = ''claude'', api_type = ''iab_api'', api_key = ''k2'', api_model = ''m'',
       api_prompt = ''Classify: TARGET-POST-PLACEHOLDER'', api_max_tokens = 100, is_active = True\<rparr>]"

definition listing_db :: "BotProfile list \<Rightarrow> MarketplacePostScan \<Rightarrow> MarketplacePost list \<Rightarrow> database" where
  "listing_db bots scan posts =
     \<lparr>bot_profiles = bots, apis = service_apis, marketplace_pagination_scans = [pages_scan],
      marketplace_post_scans = [scan], marketplace_posts = posts,
      post_detail_scans = [], marketplace_post_details = []\<rparr>"

definition detail_db :: "BotProfile list \<Rightarrow> PostDetailScan \<Rightarrow> database" where
  "detail_db bots scan =
     \<lparr>bot_profiles = bots, apis = service_apis, marketplace_pagination_scans = [pages_scan],
      marketplace_post_scans = [listing_scan COMPLETED (Some 200)], marketplace_posts = [vpn_post],
      post_detail_scans = [scan], marketplace_post_details = []\<rparr>"

text \<open>Rows of a listing page: two posts of the same minute, and a row without a link.\<close>

definition vpn_row :: table_row where
  "vpn_row =
     \<lparr>td1_text = Some ''VPN access'', td2_a_text = Some ''alice'',
      td3_text = Some ''2025-07-01 10:00'', td5_a_href = Some (Some ''/post/marketplace/1'')\<rparr>"

definition rdp_row :: table_row where
  "rdp_row =
     \<lparr>td1_text = Some ''RDP access'', td2_a_text = Some ''bob'',
      td3_text = Some ''2025-07-01 10:00'', td5_a_href = Some (Some ''/post/marketplace/2'')\<rparr>"

definition unlinked_row :: table_row where
  "unlinked_row =
     \<lparr>td1_text = Some ''Logs'', td2_a_text = Some ''carol'',
      td3_text = Some ''2025-07-01 10:05'', td5_a_href = None\<rparr>"








text \<open>
  Services for the worked runs: every post page reads as the object \<open>scraped\<close>,
  the detector is \<open>detector\<close>, the translation service answers in English and
  the classification service answers with a label and three scores.
\<close>

definition run_services :: "(string \<times> string) list \<Rightarrow> (string \<Rightarrow> error + string) \<Rightarrow> services" where
  "run_services scraped detector =
     \<lparr>open_session = (\<lambda>b. None),
      scrape_post_details = (\<lambda>w u. ''<post json>''),
      loads_scraped = (\<lambda>s. if s = ''<post json>'' then Inr scraped else Inl JSONDecodeError),
      normalize_nfkc = (\<lambda>s. s),
      detect = detector,
      translate_string =
        (\<lambda>s. Inr \<lparr>original_text_of = s, original_language_of = Some ''DE'',
                   translated_text_of = Some (''EN: '' @ s), translated_language_of = Some ''EN'',
                   translated_flag = True\<rparr>),
      iab_classify =
        (\<lambda>p. Inr \<lparr>iab_classification = Some ''Positive'', iab_sentiment = None,
                   iab_positive = Some ''0.7'', iab_negative = Some ''0.1'',
                   iab_neutral = Some ''0.2''\<rparr>)\<rparr>"

definition scraped_vpn :: "string \<Rightarrow> (string \<times> string) list" where
  "scraped_vpn ts =
     [(''title'', ''VPN access''), (''timestamp'', ts), (''author'', ''alice''),
      (''content'', ''Selling VPN access'')]"


text \<open>
  Services in an outage: the language detector raises on every text and the
  call of the translation service raises inside \<^verbatim>\<open>translate_string\<close>, which
  answers without a translation.
\<close>

definition outage_services :: "(string \<times> string) list \<Rightarrow> services" where
  "outage_services scraped =
     (run_services scraped (\<lambda>s. Inl OtherError))
       \<lparr>translate_string := (\<lambda>s. Inr (translate_string_answer s ''EN'' (Inl RequestException)))\<rparr>"

text \<open>A stored row of scan 7 for the post of \<open>vpn_post\<close> in the first batch.\<close>

definition vpn_details :: MarketplacePostDetails where
  "vpn_details =
     \<lparr>details_scan_ref = 7, details_batch_name = ''batch_001'', details_title = ''VPN access'',
      details_content = ''Selling VPN access'', details_timestamp = ''2025-07-01 10:00'',
      details_author = ''alice'', details_link = ''http://forum.onion/post/marketplace/1'',
      original_language = Some ''en'', original_text = Some ''Selling VPN access'',
      translated_language = Some ''en'', translated_text = Some ''Selling VPN access'',
      is_translated = False, sentiment = None, positive_score = Some ''0.7'',
      negative_score = Some ''0.1'', neutral_score = Some ''0.2''\<rparr>"
section \<open>Properties\<close>

subsection \<open>Strings\<close>

lemma is_space_not_code_char: "is_space c \<Longrightarrow> \<not> is_code_char c"
  by (auto simp: is_space_def is_code_char_def Let_def)

subsection \<open>The extraction rule of the credential activator\<close>

lemma code_window_Cons_Suc: "code_window (c # cs) (Suc i) = code_window cs i"
  by (simp add: code_window_def add.commute)

lemma code_window_Nil: "\<not> code_window [] i"
  by (simp add: code_window_def)

lemma re_search_code_head:
  "re_search_code (c # cs) =
     (if code_window (c # cs) 0 then Some (take 6 (c # cs)) else re_search_code cs)"
  by (simp add: code_window_def)

lemma re_search_code_None: "re_search_code s = None \<longleftrightarrow> (\<forall>i. \<not> code_window s i)"
proof (induction s)
  case Nil
  show ?case by (simp add: code_window_Nil)
next
  case (Cons c cs)
  show ?case
  proof (cases "code_window (c # cs) 0")
    case True
    then show ?thesis by (auto simp: re_search_code_head simp del: re_search_code.simps)
  next
    case False
    have "(\<forall>i. \<not> code_window (c # cs) i) \<longleftrightarrow> (\<forall>i. \<not> code_window cs i)"
    proof
      assume a: "\<forall>i. \<not> code_window (c # cs) i"
      show "\<forall>i. \<not> code_window cs i"
      proof
        fix i
        from a have "\<not> code_window (c # cs) (Suc i)" by blast
        then show "\<not> code_window cs i" by (simp add: code_window_Cons_Suc)
      qed
    next
      assume a: "\<forall>i. \<not> code_window cs i"
      show "\<forall>i. \<not> code_window (c # cs) i"
      proof
        fix i
        show "\<not> code_window (c # cs) i"
          using a False by (cases i) (simp_all add: code_window_Cons_Suc)
      qed
    qed
    with False Cons.IH show ?thesis
      by (simp add: re_search_code_head del: re_search_code.simps)
  qed
qed

lemma re_search_code_Some:
  "re_search_code s = Some m \<longleftrightarrow>
     (\<exists>i. code_window s i \<and> m = take 6 (drop i s) \<and> (\<forall>j<i. \<not> code_window s j))"
proof (induction s)
  case Nil
  show ?case by (simp add: code_window_Nil)
next
  case (Cons c cs)
  show ?case
  proof (cases "code_window (c # cs) 0")
    case True
    have "(\<exists>i. code_window (c # cs) i \<and> m = take 6 (drop i (c # cs))
               \<and> (\<forall>j<i. \<not> code_window (c # cs) j))
          \<longleftrightarrow> m = take 6 (c # cs)"
    proof
      assume "\<exists>i. code_window (c # cs) i \<and> m = take 6 (drop i (c # cs))
                 \<and> (\<forall>j<i. \<not> code_window (c # cs) j)"
      then obtain i where i: "m = take 6 (drop i (c # cs))"
        "\<forall>j<i. \<not> code_window (c # cs) j" by blast
      from i(2) True have "i = 0" by (cases i) auto
      with i(1) show "m = take 6 (c # cs)" by simp
    next
      assume "m = take 6 (c # cs)"
      with True show "\<exists>i. code_window (c # cs) i \<and> m = take 6 (drop i (c # cs))
                 \<and> (\<forall>j<i. \<not> code_window (c # cs) j)"
        by (intro exI[of _ 0]) simp
    qed
    with True show ?thesis by (auto simp: re_search_code_head simp del: re_search_code.simps)
  next
    case False
    have "(\<exists>i. code_window (c # cs) i \<and> m = take 6 (drop i (c # cs))
               \<and> (\<forall>j<i. \<not> code_window (c # cs) j))
          \<longleftrightarrow> (\<exists>i. code_window cs i \<and> m = take 6 (drop i cs) \<and> (\<forall>j<i. \<not> code_window cs j))"
      (is "?L \<longleftrightarrow> ?R")
    proof
      assume ?L
      then obtain i where i: "code_window (c # cs) i" "m = take 6 (drop i (c # cs))"
        "\<forall>j<i. \<not> code_window (c # cs) j" by blast
      from i(1) False obtain k where k: "i = Suc k" by (cases i) auto
      have "\<forall>j<k. \<not> code_window cs j"
      proof (intro allI impI)
        fix j
        assume "j < k"
        then have "Suc j < i" using k by simp
        with i(3) have "\<not> code_window (c # cs) (Suc j)" by blast
        then show "\<not> code_window cs j" by (simp add: code_window_Cons_Suc)
      qed
      with i(1,2) k show ?R by (auto simp: code_window_Cons_Suc)
    next
      assume ?R
      then obtain i where i: "code_window cs i" "m = take 6 (drop i cs)"
        "\<forall>j<i. \<not> code_window cs j" by blast
      have "\<forall>j<Suc i. \<not> code_window (c # cs) j"
      proof (intro allI impI)
        fix j
        assume "j < Suc i"
        then show "\<not> code_window (c # cs) j"
          using False i(3) by (cases j) (simp_all add: code_window_Cons_Suc)
      qed
      with i(1,2) show ?L
        by (intro exI[of _ "Suc i"]) (simp add: code_window_Cons_Suc)
    qed
    with False Cons.IH show ?thesis
      by (simp add: re_search_code_head del: re_search_code.simps)
  qed
qed

text \<open>Whitespace around the answer, which \<^verbatim>\<open>solve_captcha\<close> strips, changes nothing.\<close>

lemma re_search_code_skip_head: "\<not> is_code_char c \<Longrightarrow> re_search_code (c # cs) = re_search_code cs"
  by simp

lemma re_search_code_dropWhile: "re_search_code (dropWhile is_space s) = re_search_code s"
  by (induction s) (simp_all add: is_space_not_code_char del: re_search_code.simps add: re_search_code_skip_head)

lemma re_search_code_snoc: "\<not> is_code_char c \<Longrightarrow> re_search_code (s @ [c]) = re_search_code s"
proof (induction s)
  case Nil
  then show ?case by simp
next
  case (Cons a s)
  have "list_all is_code_char (take 6 (a # s @ [c])) \<and> 5 \<le> length (s @ [c])
        \<longleftrightarrow> list_all is_code_char (take 6 (a # s)) \<and> 5 \<le> length s"
  proof (cases "5 \<le> length s")
    case True
    then show ?thesis by simp
  next
    case False
    then have "take 5 (s @ [c]) = s @ take (5 - length s) [c]" by simp
    moreover from False have "take (5 - length s) [c] = [c]" by (cases "5 - length s") simp_all
    ultimately show ?thesis using False Cons.prems by simp
  qed
  then show ?case using Cons by auto
qed

lemma re_search_code_strip: "re_search_code (strip s) = re_search_code s"
proof -
  have "re_search_code (rev (dropWhile is_space (rev t))) = re_search_code t" for t
  proof (induction t rule: rev_induct)
    case Nil
    show ?case by simp
  next
    case (snoc x xs)
    then show ?case by (simp add: re_search_code_snoc is_space_not_code_char)
  qed
  then show ?thesis by (simp add: strip_def re_search_code_dropWhile)
qed

lemma clean_captcha_text_eq: "clean_captcha_text s = re_search_code s"
  by (simp add: clean_captcha_text_def split: option.split)

lemma solve_captcha_no_window:
  assumes "vision_answer cenv = Inr answer" and "\<forall>i. \<not> code_window answer i"
  shows "solve_captcha cenv = None"
proof -
  from assms(2) have "re_search_code (strip answer) = None"
    by (simp add: re_search_code_strip re_search_code_None)
  with assms(1) show ?thesis
    by (simp add: solve_captcha_def clean_captcha_text_eq split: option.split)
qed

lemma login_attempt_unsolved:
  "solve_captcha (captcha env) = None \<Longrightarrow> login_attempt n env = count_failure n"
  by (simp add: login_attempt_def split: sum.split option.split)

lemma login_loop_unsolved:
  "solve_captcha (captcha env) = None \<Longrightarrow>
   login_loop n (env # envs) = login_loop (if 9 \<le> n + 1 then 0 else n + 1) envs"
  by (simp add: login_attempt_unsolved count_failure_def max_attempts_def)

text \<open>
  Claim C6, as the code has it.  The answer is accepted when it has at least one
  window of six characters of the class \<^verbatim>\<open>[A-Z0-9]\<close>, and the leftmost window is
  the challenge code; other windows and longer runs do not matter.  When the answer
  has no window, \<^verbatim>\<open>clean_captcha_text\<close> gives nothing, \<^verbatim>\<open>solve_captcha\<close> gives
  nothing, and the pass of the login loop counts one failure and goes on: the
  counter goes up by one, or back to zero after the sleep when it reaches nine.
\<close>

theorem clean_captcha_text_leftmost_window:
  "(clean_captcha_text answer = None \<longleftrightarrow> (\<forall>i. \<not> code_window answer i)) \<and>
   (\<forall>code. clean_captcha_text answer = Some code \<longleftrightarrow>
      (\<exists>i. code_window answer i \<and> code = take 6 (drop i answer)
           \<and> (\<forall>j<i. \<not> code_window answer j))) \<and>
   (\<forall>env n. vision_answer (captcha env) = Inr answer \<and> (\<forall>i. \<not> code_window answer i) \<longrightarrow>
      solve_captcha (captcha env) = None \<and>
      login_attempt n env = count_failure n \<and>
      count_failure n = (if 9 \<le> n + 1 then Continue 0 True else Continue (n + 1) False))"
proof (intro conjI allI impI)
  show "clean_captcha_text answer = None \<longleftrightarrow> (\<forall>i. \<not> code_window answer i)"
    by (simp add: clean_captcha_text_eq re_search_code_None)
next
  fix code
  show "clean_captcha_text answer = Some code \<longleftrightarrow>
      (\<exists>i. code_window answer i \<and> code = take 6 (drop i answer)
           \<and> (\<forall>j<i. \<not> code_window answer j))"
    by (simp only: clean_captcha_text_eq re_search_code_Some)
next
  fix env :: attempt_env and n
  assume a: "vision_answer (captcha env) = Inr answer \<and> (\<forall>i. \<not> code_window answer i)"
  then show s: "solve_captcha (captcha env) = None"
    by (simp add: solve_captcha_no_window)
  then show "login_attempt n env = count_failure n"
    by (rule login_attempt_unsolved)
  show "count_failure n = (if 9 \<le> n + 1 then Continue 0 True else Continue (n + 1) False)"
    by (simp add: count_failure_def max_attempts_def)
qed

theorem clean_captcha_text_leftmost_window_witness:
  "clean_captcha_text ''I cannot read it'' = None \<and>
   clean_captcha_text ''Code: AB12F9.'' = Some ''AB12F9'' \<and>
   login_attempt 8
     \<lparr>login_page = Inr (Some (Some ''/captcha.png'')), captcha_download = Inr (),
      captcha = \<lparr>resize_image_ok = True, image_to_base64_result = Some ''iVBORw0KGgo='',
                 vision_answer = Inr ''I cannot read it''\<rparr>,
      post_login = (\<lambda>code. Inl RequestException)\<rparr> = Continue 0 True"
proof -
  have nw: "\<forall>i. \<not> code_window ''I cannot read it'' i"
    by (simp add: re_search_code_None [symmetric] is_code_char_def)
  have w: "code_window ''Code: AB12F9.'' 6 \<and> ''AB12F9'' = take 6 (drop 6 ''Code: AB12F9.'')
       \<and> (\<forall>j<6. \<not> code_window ''Code: AB12F9.'' j)"
    by (simp add: code_window_def is_code_char_def All_less_Suc numeral_eq_Suc)
  show ?thesis
    using nw w clean_captcha_text_leftmost_window [of "''I cannot read it''"]
      clean_captcha_text_leftmost_window [of "''Code: AB12F9.''"]
    by (simp add: exI [of _ 6] count_failure_def max_attempts_def)
qed

text \<open>
  Claim C6 as the spec words it (an answer is accepted only when it contains exactly
  one run of six characters of the class) fails: an answer with two such runs is
  accepted, and so is an answer whose only run is longer than six.
\<close>

theorem clean_captcha_text_exactly_one_run_counterexample:
  "clean_captcha_text ''AB12F9 XY34Z7'' = Some ''AB12F9'' \<and>
   code_runs ''AB12F9 XY34Z7'' = [''AB12F9'', ''XY34Z7''] \<and>
   clean_captcha_text ''ABCDEFGH'' = Some ''ABCDEF'' \<and>
   code_runs ''ABCDEFGH'' = [''ABCDEFGH'']"
  by (simp add: clean_captcha_text_def code_runs_def is_code_char_def)

subsection \<open>Pagination batches\<close>

lemma str_nat_nonempty: "str_nat n \<noteq> []"
  by (subst str_nat.simps) simp

lemma digit_char_inj: "a < 10 \<Longrightarrow> b < 10 \<Longrightarrow> digit_char a = digit_char b \<Longrightarrow> a = b"
proof -
  assume a: "a < 10" "b < 10" "digit_char a = digit_char b"
  then have "(of_char (digit_char a) :: nat) = of_char (digit_char b)" by simp
  with a(1,2) show "a = b" by (simp add: digit_char_def)
qed

lemma str_nat_inj: "str_nat n = str_nat m \<Longrightarrow> n = m"
proof (induction n arbitrary: m rule: str_nat.induct)
  case (1 n)
  show ?case
  proof (cases "n < 10")
    case True
    show ?thesis
    proof (cases "m < 10")
      case mt: True
      with True 1(2) show ?thesis
        by (simp add: str_nat.simps [of n] str_nat.simps [of m] digit_char_inj)
    next
      case False
      with True 1(2) show ?thesis
        using str_nat_nonempty [of "m div 10"]
        by (simp add: str_nat.simps [of n] str_nat.simps [of m])
    qed
  next
    case False
    show ?thesis
    proof (cases "m < 10")
      case True
      with False 1(2) show ?thesis
        using str_nat_nonempty [of "n div 10"]
        by (simp add: str_nat.simps [of n] str_nat.simps [of m])
    next
      case mf: False
      with False 1(2) have "str_nat (n div 10) = str_nat (m div 10)"
        and "digit_char (n mod 10) = digit_char (m mod 10)"
        by (simp_all add: str_nat.simps [of n] str_nat.simps [of m])
      with 1(1) [OF False] have "n div 10 = m div 10" and "n mod 10 = m mod 10"
        by (auto intro: digit_char_inj)
      then show ?thesis by (metis div_mult_mod_eq)
    qed
  qed
qed

lemma dict_set_fresh: "k \<notin> fst ` set d \<Longrightarrow> dict_set d k v = d @ [(k, v)]"
  by (induction d) auto

lemma foldl_dict_set_distinct:
  "distinct (map fst (d @ kvs)) \<Longrightarrow> foldl (\<lambda>d (k, v). dict_set d k v) d kvs = d @ kvs"
proof (induction kvs arbitrary: d)
  case Nil
  show ?case by simp
next
  case (Cons kv kvs)
  obtain k v where kv: "kv = (k, v)" by (cases kv)
  from Cons.prems kv have fresh: "k \<notin> fst ` set d" by auto
  from Cons.prems kv have "distinct (map fst ((d @ [(k, v)]) @ kvs))" by simp
  from Cons.IH [OF this] show ?case by (simp add: kv dict_set_fresh [OF fresh])
qed

lemma dict_of_distinct: "distinct (map fst kvs) \<Longrightarrow> dict_of kvs = kvs"
  using foldl_dict_set_distinct [of "[]" kvs] by (simp add: dict_of_def)

lemma format_all_ok: "\<forall>p\<in>set ps. f p = Inr (u p) \<Longrightarrow> format_all f ps = Inr (map u ps)"
  by (induction ps) simp_all

lemma format_all_error: "format_all f ps = Inr us \<Longrightarrow> \<forall>p\<in>set ps. \<exists>s. f p = Inr s"
  by (induction ps arbitrary: us) (auto split: sum.splits)

lemma rev_upto_map: "rev [1..M] = map (\<lambda>j. M - int j) [0..<nat M]"
proof (rule nth_equalityI)
  show "length (rev [1..M]) = length (map (\<lambda>j. M - int j) [0..<nat M])" by simp
next
  fix i
  assume "i < length (rev [1..M])"
  then have i: "i < nat M" by simp
  then have "rev [1..M] ! i = [1..M] ! (nat M - Suc i)" by (simp add: rev_nth)
  also have "\<dots> = 1 + int (nat M - Suc i)"
    by (rule nth_upto) (use i in arith)
  also from i have "\<dots> = M - int i" by simp
  finally show "rev [1..M] ! i = map (\<lambda>j. M - int j) [0..<nat M] ! i" using i by auto
qed

lemma take_drop_upt: "take a (drop b [0..<n]) = [b..<min n (b + a)]"
proof (cases "b + a \<le> n")
  case True
  then show ?thesis by (simp add: min_def take_upt)
next
  case False
  then show ?thesis by (simp add: min_def)
qed

lemma chunks_concat:
  "0 < s \<Longrightarrow> concat (map (\<lambda>k. take s (drop (k * s) xs)) [0..<(length xs + s - 1) div s]) = xs"
proof (induction "length xs" arbitrary: xs rule: less_induct)
  case less
  show ?case
  proof (cases "xs = []")
    case True
    with less.prems show ?thesis by simp
  next
    case False
    let ?ys = "drop s xs"
    from False less.prems have shorter: "length ?ys < length xs" by simp
    have count: "(length xs + s - 1) div s = Suc ((length ?ys + s - 1) div s)"
    proof (cases "s \<le> length xs")
      case True
      then have "length xs + s - 1 = (length xs - s + s - 1) + s" using less.prems by simp
      then have "(length xs + s - 1) div s = (length xs - s + s - 1) div s + 1"
        using less.prems by (simp only: div_add_self2) 
      then show ?thesis by simp
    next
      case False
      with \<open>xs \<noteq> []\<close> have "s \<le> length xs + s - 1" "length xs + s - 1 < 2 * s"
        by (cases xs; simp)+
      then have "(length xs + s - 1) div s = 1"
        using less.prems by (metis One_nat_def Suc_1 div_nat_eqI mult.commute mult_1)
      with False less.prems show ?thesis by simp
    qed
    have upt: "[0..<Suc q] = 0 # map Suc [0..<q]" for q
      by (simp only: upt_conv_Cons [OF zero_less_Suc] map_Suc_upt)
    have "concat (map (\<lambda>k. take s (drop (k * s) xs)) [0..<Suc ((length ?ys + s - 1) div s)])
          = take s xs @ concat (map (\<lambda>k. take s (drop (k * s) ?ys)) [0..<(length ?ys + s - 1) div s])"
      unfolding upt by (simp add: o_def add.commute)
    also have "\<dots> = take s xs @ ?ys"
      using less.hyps [OF shorter less.prems] by simp
    finally show ?thesis by (simp only: count append_take_drop_id)
  qed
qed

lemma create_pagination_batches_raises:
  "1 \<le> max_page \<Longrightarrow> format url_template max_page = Inl e \<Longrightarrow>
   create_pagination_batches format url_template max_page = Inl e"
  by (simp add: create_pagination_batches_def range_down_def upto_rec2)

text \<open>
  Claim C5.  For \<open>max_page\<close> below 1 the result is the empty dict, not an error.
  For \<open>max_page\<close> at least 1 and a template that the formatter fills for every
  page from 1 to \<open>max_page\<close> (\<open>url page\<close> being the URL of that page), the result
  has \<open>ceil(max_page / 10)\<close> batches; the batch at position \<open>k\<close> (from 0) has the
  key \<open>str(k + 1)\<close> and holds the URLs of the pages \<open>max_page - 10 k\<close>,
  \<open>max_page - 10 k - 1\<close>, ... in this descending order, at most ten of them and at
  least one; the keys are distinct; the batches in order enumerate the pages from
  \<open>max_page\<close> down to 1; and the batch under the key \<^verbatim>\<open>"1"\<close> holds the highest
  pages.
\<close>

theorem create_pagination_batches_partition:
  "(max_page < 1 \<longrightarrow> create_pagination_batches format url_template max_page = Inr []) \<and>
   (1 \<le> max_page \<and> (\<forall>page\<in>{1..max_page}. format url_template page = Inr (url page)) \<longrightarrow>
      (\<exists>batches. create_pagination_batches format url_template max_page = Inr batches \<and>
         length batches = nat ((max_page + 9) div 10) \<and>
         (\<forall>k<length batches. batches ! k =
            (str_nat (k + 1),
             map (\<lambda>j. url (max_page - int j)) [10 * k..<min (nat max_page) (10 * k + 10)])) \<and>
         (\<forall>b\<in>set batches. 1 \<le> length (snd b) \<and> length (snd b) \<le> 10) \<and>
         distinct (map fst batches) \<and>
         concat (map snd batches) = map url (rev [1..max_page]) \<and>
         map_of batches ''1'' = Some (map url (rev [max 1 (max_page - 9)..max_page]))))"
proof (intro conjI impI)
  assume "max_page < 1"
  then show "create_pagination_batches format url_template max_page = Inr []"
    by (simp add: create_pagination_batches_def)
next
  assume a: "1 \<le> max_page \<and> (\<forall>page\<in>{1..max_page}. format url_template page = Inr (url page))"
  define n where "n = nat max_page"
  define m where "m = (n + 9) div 10"
  define g where "g = (\<lambda>j. url (max_page - int j))"
  define all_urls where "all_urls = map url (rev [1..max_page])"
  define items where "items = map (\<lambda>k. (str_nat (k + 1), take 10 (drop (k * 10) all_urls))) [0..<m]"
  have len: "length all_urls = n" by (simp add: all_urls_def n_def)
  have all_g: "all_urls = map g [0..<n]"
    by (simp add: all_urls_def rev_upto_map g_def n_def o_def)
  have fa: "format_all (format url_template) (range_down max_page) = Inr all_urls"
    unfolding range_down_def all_urls_def using a by (intro format_all_ok) simp
  have keys: "map fst items = map (\<lambda>k. str_nat (k + 1)) [0..<m]"
    by (simp add: items_def o_def)
  have "inj_on (\<lambda>k. str_nat (k + 1)) (set [0..<m])"
    by (rule inj_onI) (auto dest: str_nat_inj)
  then have dist: "distinct (map fst items)"
    by (simp add: keys distinct_map)
  have "create_pagination_batches format url_template max_page = Inr (dict_of items)"
    using a by (simp add: create_pagination_batches_def fa len range_step_def batch_size_def
        o_def items_def m_def add.commute)
  then have res: "create_pagination_batches format url_template max_page = Inr items"
    by (simp only: dict_of_distinct [OF dist])
  have slice: "take 10 (drop (k * 10) all_urls) = map g [10 * k..<min n (10 * k + 10)]" for k
    by (simp only: all_g take_map drop_map take_drop_upt mult.commute)
  have nth: "items ! k = (str_nat (k + 1), map g [10 * k..<min n (10 * k + 10)])" if "k < m" for k
    using that by (simp add: items_def slice)
  have mlen: "length items = m" by (simp add: items_def)
  have m_eq: "m = nat ((max_page + 9) div 10)"
    using a by (simp add: m_def n_def nat_div_distrib nat_add_distrib)
  have sizes: "1 \<le> length (snd b) \<and> length (snd b) \<le> 10" if "b \<in> set items" for b
  proof -
    from that obtain k where k: "k < m" "b = items ! k"
      by (auto simp: in_set_conv_nth mlen)
    from k(1) have "10 * k < n" by (simp add: m_def)
    with k nth [OF k(1)] show ?thesis by (auto simp: min_def)
  qed
  have cc: "concat (map snd items) = all_urls"
    using chunks_concat [of 10 all_urls] by (simp add: items_def o_def len m_def add.commute)
  have m_pos: "0 < m" using a by (simp add: m_def n_def) arith
  have first: "map_of items ''1'' = Some (map url (rev [max 1 (max_page - 9)..max_page]))"
  proof -
    have s1: "str_nat (Suc 0) = ''1''" by code_simp
    from m_pos have "items ! 0 \<in> set items" by (simp add: mlen)
    with nth [OF m_pos] have "(''1'', map g [0..<min n 10]) \<in> set items" by (simp add: s1)
    with dist have "map_of items ''1'' = Some (map g [0..<min n 10])" by simp
    moreover have "map g [0..<min n 10] = map url (rev [max 1 (max_page - 9)..max_page])"
    proof (rule nth_equalityI)
      show "length (map g [0..<min n 10]) = length (map url (rev [max 1 (max_page - 9)..max_page]))"
        using a by (simp add: n_def)
    next
      fix i
      assume "i < length (map g [0..<min n 10])"
      then have i: "i < n" "i < 10" by simp_all
      let ?lo = "max 1 (max_page - 9)"
      from a have a1: "1 \<le> max_page" by simp
      then have nn: "int n = max_page" by (simp add: n_def)
      have l: "length [?lo..max_page] = min n 10" using a1 nn by auto
      from i l have "rev [?lo..max_page] ! i = [?lo..max_page] ! (min n 10 - Suc i)"
        by (simp add: rev_nth)
      also have "\<dots> = ?lo + int (min n 10 - Suc i)"
      proof (rule nth_upto)
        show "?lo + int (min n 10 - Suc i) \<le> max_page" using i a1 nn by arith
      qed
      also have "\<dots> = max_page - int i" using i a1 nn by arith
      finally show "map g [0..<min n 10] ! i = map url (rev [?lo..max_page]) ! i"
        using i l by (simp add: g_def)
    qed
    ultimately show ?thesis by simp
  qed
  show "\<exists>batches. create_pagination_batches format url_template max_page = Inr batches \<and>
         length batches = nat ((max_page + 9) div 10) \<and>
         (\<forall>k<length batches. batches ! k =
            (str_nat (k + 1),
             map (\<lambda>j. url (max_page - int j)) [10 * k..<min (nat max_page) (10 * k + 10)])) \<and>
         (\<forall>b\<in>set batches. 1 \<le> length (snd b) \<and> length (snd b) \<le> 10) \<and>
         distinct (map fst batches) \<and>
         concat (map snd batches) = map url (rev [1..max_page]) \<and>
         map_of batches ''1'' = Some (map url (rev [max 1 (max_page - 9)..max_page]))"
  proof (intro exI [of _ items] conjI)
    show "create_pagination_batches format url_template max_page = Inr items" by (rule res)
    show "length items = nat ((max_page + 9) div 10)" by (simp add: mlen m_eq)
    show "\<forall>k<length items. items ! k =
            (str_nat (k + 1),
             map (\<lambda>j. url (max_page - int j)) [10 * k..<min (nat max_page) (10 * k + 10)])"
      using nth by (simp add: mlen g_def n_def)
    show "\<forall>b\<in>set items. 1 \<le> length (snd b) \<and> length (snd b) \<le> 10" using sizes by blast
    show "distinct (map fst items)" by (rule dist)
    show "concat (map snd items) = map url (rev [1..max_page])" by (simp add: cc all_urls_def)
    show "map_of items ''1'' = Some (map url (rev [max 1 (max_page - 9)..max_page]))" by (rule first)
  qed
qed

theorem create_pagination_batches_partition_witness:
  "(1::int) \<le> 12 \<and>
   (\<exists>batches.
      create_pagination_batches (\<lambda>template page. Inr (''http://x/?page='' @ str_int page))
        ''http://x/?page={page}'' 12 = Inr batches \<and>
      length batches = 2 \<and>
      map_of batches ''1'' = Some (map (\<lambda>page. ''http://x/?page='' @ str_int page) (rev [3..12]))) \<and>
   create_pagination_batches (\<lambda>template page. Inr (''http://x/?page='' @ str_int page))
     ''http://x/?page={page}'' 0 = Inr []"
proof -
  let ?format = "\<lambda>(template :: string) page. (Inr (''http://x/?page='' @ str_int page) :: error + string)"
  have h: "\<forall>page\<in>{1..12}. ?format ''http://x/?page={page}'' page
        = Inr (''http://x/?page='' @ str_int page)"
    by simp
  from create_pagination_batches_partition
    [of 12 ?format "''http://x/?page={page}''" "\<lambda>page. ''http://x/?page='' @ str_int page"] h
  have "\<exists>batches. create_pagination_batches ?format ''http://x/?page={page}'' 12 = Inr batches \<and>
      length batches = 2 \<and>
      map_of batches ''1'' = Some (map (\<lambda>page. ''http://x/?page='' @ str_int page) (rev [3..12]))"
    by auto
  moreover from create_pagination_batches_partition [of 0 ?format "''http://x/?page={page}''"]
  have "create_pagination_batches ?format ''http://x/?page={page}'' 0 = Inr []"
    by simp
  ultimately show ?thesis by simp
qed

subsection \<open>Reading and updating a scan\<close>

lemma first_Nil: "first p [] = None"
  by (simp add: first_def)

lemma first_Cons: "first p (x # xs) = (if p x then Some x else first p xs)"
  by (simp add: first_def)

lemma first_None_iff: "first p xs = None \<longleftrightarrow> (\<forall>x\<in>set xs. \<not> p x)"
  by (induction xs) (simp_all add: first_Nil first_Cons)

lemma first_Some_holds: "first p xs = Some x \<Longrightarrow> x \<in> set xs \<and> p x"
  by (induction xs) (auto simp: first_Nil first_Cons split: if_splits)

lemma first_map_update:
  assumes "\<And>s. key (f s) = key s"
  shows "first (\<lambda>s. key s = k) (map (\<lambda>s. if key s = k then f s else s) xs)
           = map_option f (first (\<lambda>s. key s = k) xs)"
  by (induction xs) (simp_all add: first_Nil first_Cons assms)

lemma post_scan_of_set_post_scan:
  assumes "\<And>s. post_scan_id (f s) = post_scan_id s"
  shows "post_scan_of (set_post_scan scan_id f db) scan_id = map_option f (post_scan_of db scan_id)"
  using first_map_update [of post_scan_id f scan_id "marketplace_post_scans db"] assms
  by (simp add: post_scan_of_def set_post_scan_def)

lemma detail_scan_of_set_detail_scan:
  assumes "\<And>s. detail_scan_id (f s) = detail_scan_id s"
  shows "detail_scan_of (set_detail_scan scan_id f db) scan_id = map_option f (detail_scan_of db scan_id)"
  using first_map_update [of detail_scan_id f scan_id "post_detail_scans db"] assms
  by (simp add: detail_scan_of_def set_detail_scan_def)

subsection \<open>Finalisation of a scan\<close>

text \<open>
  The listing scan: whatever the batches did, a scan with at least one bot ends
  \<open>COMPLETED\<close>.
\<close>

lemma scrape_batches_always_completed:
  assumes "active_bots \<noteq> []"
  shows "post_scan_of (fst (scrape_batches lib site now scan_id active_bots batches_dict db)) scan_id
           = map_option (\<lambda>s. s\<lparr>post_scan_status := COMPLETED, post_scan_completion_date := Some now\<rparr>)
               (post_scan_of db scan_id)"
proof -
  obtain table results where r:
    "run_batches lib site active_bots scan_id 0 batches_dict (marketplace_posts db) = (table, results)"
    by (cases "run_batches lib site active_bots scan_id 0 batches_dict (marketplace_posts db)")
  have "post_scan_of (db\<lparr>marketplace_posts := table\<rparr>) scan_id = post_scan_of db scan_id"
    by (simp add: post_scan_of_def)
  with assms r show ?thesis
    by (simp add: scrape_batches_def post_scan_of_set_post_scan)
qed

text \<open>
  The post-detail scan: it ends \<open>STOPPED\<close> when \<^verbatim>\<open>scan_errors\<close> has an entry and
  \<open>COMPLETED\<close> when it has none, with the completion date set in both cases.
\<close>

lemma scrape_post_batches_status:
  assumes "active_bots \<noteq> []"
    and "scrape_post_batches srv tmpl now scan_id url active_bots post_batches db = (db', scan_errors)"
  shows "detail_scan_of db' scan_id
           = map_option (\<lambda>s. s\<lparr>detail_status := (if scan_errors \<noteq> [] then STOPPED else COMPLETED),
                                 detail_completion_date := Some now\<rparr>)
               (detail_scan_of db scan_id)"
proof -
  obtain table errs where r:
    "run_post_batches srv tmpl active_bots scan_id url 0 post_batches (marketplace_post_details db, []) []
       = (table, errs)"
    by (cases "run_post_batches srv tmpl active_bots scan_id url 0 post_batches
                 (marketplace_post_details db, []) []")
  have same: "detail_scan_of (db\<lparr>marketplace_post_details := table\<rparr>) scan_id = detail_scan_of db scan_id"
    by (simp add: detail_scan_of_def)
  show ?thesis
  proof (cases "errs = []")
    case True
    with assms r have "scan_errors = []" and
      "db' = set_detail_scan scan_id
               (\<lambda>s. s\<lparr>detail_status := COMPLETED, detail_completion_date := Some now\<rparr>)
               (db\<lparr>marketplace_post_details := table\<rparr>)"
      by (simp_all add: scrape_post_batches_def)
    with same show ?thesis by (simp add: detail_scan_of_set_detail_scan)
  next
    case False
    with assms r have "scan_errors \<noteq> []" and
      "db' = set_detail_scan scan_id
               (\<lambda>s. s\<lparr>detail_status := STOPPED, detail_completion_date := Some now\<rparr>)
               (db\<lparr>marketplace_post_details := table\<rparr>)"
      by (simp_all add: scrape_post_batches_def)
    with same show ?thesis by (simp add: detail_scan_of_set_detail_scan)
  qed
qed

lemma scrape_posts_unlinked_row: "scrape_posts (\<lambda>u. Table [unlinked_row]) [u] = Inl TypeError"
  by (simp add: scrape_posts_def parse_row_def unlinked_row_def)

text \<open>
  Claim C1 on the listing scan, at a failing batch.  The only batch of the scan
  meets a row without a link; \<^verbatim>\<open>scrape_posts\<close> raises \<^verbatim>\<open>TypeError\<close>, the batch
  is rolled back and its task ends with the exception, which \<^verbatim>\<open>gather\<close>
  collects.  The scan is then marked \<open>COMPLETED\<close>, not \<open>STOPPED\<close>.
\<close>

theorem scrape_batches_failed_batch_completed:
  "scrape_batches lib (\<lambda>b u. Table [unlinked_row]) now 1 [listing_bot (Some ''session=abc'')]
     [(''1'', [''http://forum.onion/market?page=1''])]
     (listing_db [listing_bot (Some ''session=abc'')] (listing_scan RUNNING None) [])
   = (listing_db [listing_bot (Some ''session=abc'')] (listing_scan COMPLETED (Some now)) [],
      [Inl TypeError])"
  by (simp add: scrape_batches_def sync_scrape_batch_def scrape_posts_unlinked_row
      set_post_scan_def listing_db_def listing_scan_def)

subsection \<open>Starting a scan\<close>

text \<open>
  Claim C2 on the listing scan, at a bot whose session token is the empty string.
  The filter of \<^verbatim>\<open>marketplace.py\<close> asks only that the session is not null, so
  the bot counts as active and the scan goes to \<open>RUNNING\<close>.
\<close>

theorem marketplace_start_empty_session_running:
  "marketplace_start_post_scan now 1 (listing_db [listing_bot (Some '''')] (listing_scan STOPPED None) [])
   = Inr (listing_db [listing_bot (Some '''')]
            ((listing_scan RUNNING None)\<lparr>post_scan_start_date := Some now\<rparr>) [],
          [listing_bot (Some '''')],
          [(''1'', [''http://forum.onion/market?page=2'', ''http://forum.onion/market?page=1''])])"
  by (simp add: marketplace_start_post_scan_def first_Cons first_Nil listing_db_def
      listing_scan_def listing_bot_def pages_scan_def set_post_scan_def Let_def)

text \<open>
  The post-detail scan does what the claim says: it starts only with a bot of
  the purpose \<^verbatim>\<open>scrape_post\<close> whose session token is neither null nor empty.
\<close>

lemma posts_start_needs_session:
  assumes "posts_start_post_scan now scan_id db = Inr started"
  shows "\<exists>b\<in>set (bot_profiles db). purpose b = SCRAPE_POST \<and> (\<exists>t. session b = Some t \<and> t \<noteq> [])"
proof -
  let ?bots = "filter (\<lambda>b. purpose b = SCRAPE_POST \<and> session b \<noteq> None \<and> session b \<noteq> Some [])
                 (bot_profiles db)"
  from assms have "?bots \<noteq> []"
    by (auto simp: posts_start_post_scan_def Let_def split: option.splits if_splits sum.splits)
  then obtain b where "b \<in> set (bot_profiles db)"
    "purpose b = SCRAPE_POST \<and> session b \<noteq> None \<and> session b \<noteq> Some []"
    unfolding filter_empty_conv by blast
  then show ?thesis by (intro bexI [of _ b]) auto
qed

lemma posts_start_without_session_rejected:
  assumes "\<forall>b\<in>set (bot_profiles db). purpose b = SCRAPE_POST \<longrightarrow> session b = None \<or> session b = Some []"
  shows "\<exists>e. posts_start_post_scan now scan_id db = Inl e"
proof (cases "posts_start_post_scan now scan_id db")
  case (Inl e)
  then show ?thesis by blast
next
  case (Inr started)
  from posts_start_needs_session [OF this] assms show ?thesis by auto
qed

lemma marketplace_start_running_rejected:
  assumes "post_scan_of db scan_id = Some s" and "post_scan_status s = RUNNING"
  shows "marketplace_start_post_scan now scan_id db = Inl (HTTPException 400 ''Scan is already running'')"
  using assms by (simp add: marketplace_start_post_scan_def post_scan_of_def)

lemma marketplace_start_started:
  assumes "marketplace_start_post_scan now scan_id db = Inr (db', bots, bs)"
  shows "\<exists>s. post_scan_of db scan_id = Some s \<and> post_scan_status s \<noteq> RUNNING \<and>
             post_scan_of db' scan_id
               = Some (s\<lparr>post_scan_status := RUNNING, post_scan_start_date := Some now,
                         post_scan_completion_date := None\<rparr>)"
proof (cases "post_scan_of db scan_id")
  case None
  with assms show ?thesis by (simp add: marketplace_start_post_scan_def post_scan_of_def)
next
  case (Some s)
  with assms have nr: "post_scan_status s \<noteq> RUNNING"
    by (auto simp: marketplace_start_post_scan_def post_scan_of_def)
  from assms Some nr have
    "db' = set_post_scan scan_id
             (\<lambda>s. s\<lparr>post_scan_status := RUNNING, post_scan_start_date := Some now,
                     post_scan_completion_date := None\<rparr>) db"
    by (auto simp: marketplace_start_post_scan_def post_scan_of_def Let_def
        split: option.splits if_splits)
  with Some nr show ?thesis by (simp add: post_scan_of_set_post_scan)
qed

lemma marketplace_start_not_running:
  assumes "post_scan_of db scan_id = Some s" and "post_scan_status s \<noteq> RUNNING"
    and "filter (\<lambda>b. purpose b = SCRAPE_MARKETPLACE \<and> session b \<noteq> None) (bot_profiles db) \<noteq> []"
    and "first (\<lambda>p. pagination_scan_scan_name p = pagination_scan_name s)
           (marketplace_pagination_scans db) = Some p"
    and "stored_batches p = Some bs" and "bs \<noteq> []"
  shows "marketplace_start_post_scan now scan_id db
         = Inr (set_post_scan scan_id
                  (\<lambda>s. s\<lparr>post_scan_status := RUNNING, post_scan_start_date := Some now,
                          post_scan_completion_date := None\<rparr>) db,
                filter (\<lambda>b. purpose b = SCRAPE_MARKETPLACE \<and> session b \<noteq> None) (bot_profiles db),
                bs)"
  using assms by (simp add: marketplace_start_post_scan_def post_scan_of_def Let_def)

lemma posts_start_running_rejected:
  assumes "detail_scan_of db scan_id = Some s" and "detail_status s = RUNNING"
  shows "posts_start_post_scan now scan_id db = Inl (HTTPException 400 ''Scan is already running'')"
  using assms by (simp add: posts_start_post_scan_def detail_scan_of_def)

lemma posts_start_started:
  assumes "posts_start_post_scan now scan_id db = Inr started"
  shows "\<exists>s. detail_scan_of db scan_id = Some s \<and> detail_status s \<noteq> RUNNING \<and>
             detail_scan_of (started_db started) scan_id
               = Some (s\<lparr>detail_status := RUNNING, detail_start_date := Some now,
                         detail_completion_date := None\<rparr>)"
proof (cases "detail_scan_of db scan_id")
  case None
  with assms show ?thesis by (simp add: posts_start_post_scan_def detail_scan_of_def)
next
  case (Some s)
  with assms have nr: "detail_status s \<noteq> RUNNING"
    by (auto simp: posts_start_post_scan_def detail_scan_of_def)
  from assms Some nr have
    "started_db started = set_detail_scan scan_id
             (\<lambda>s. s\<lparr>detail_status := RUNNING, detail_start_date := Some now,
                     detail_completion_date := None\<rparr>) db"
    by (auto simp: posts_start_post_scan_def detail_scan_of_def Let_def
        split: option.splits if_splits sum.splits)
  with Some nr show ?thesis by (simp add: detail_scan_of_set_detail_scan)
qed

lemma posts_start_not_running:
  assumes "detail_scan_of db scan_id = Some s" and "detail_status s \<noteq> RUNNING"
    and "first (\<lambda>a. api_type a = ''translation_api'' \<and> is_active a) (apis db) = Some translation_api"
    and "first (\<lambda>a. api_type a = ''iab_api'' \<and> is_active a) (apis db) = Some iab_api"
    and "filter (\<lambda>b. purpose b = SCRAPE_POST \<and> session b \<noteq> None \<and> session b \<noteq> Some [])
           (bot_profiles db) \<noteq> []"
    and "first (\<lambda>l. post_scan_name l = source_scan_name s \<and> post_scan_completion_date l \<noteq> None \<and>
                    post_scan_status l = COMPLETED) (marketplace_post_scans db) = Some source_scan"
    and "filter (\<lambda>p. post_scan_ref p = post_scan_id source_scan) (marketplace_posts db) \<noteq> []"
    and "site_url s \<noteq> []"
    and "make_post_batches
           (map (\<lambda>p. (post_link p, post_timestamp p))
              (filter (\<lambda>p. post_scan_ref p = post_scan_id source_scan) (marketplace_posts db)))
           (detail_batch_size s) = Inr post_batches"
  shows "\<exists>started. posts_start_post_scan now scan_id db = Inr started \<and>
           started_db started
             = set_detail_scan scan_id
                 (\<lambda>s. s\<lparr>detail_status := RUNNING, detail_start_date := Some now,
                         detail_completion_date := None\<rparr>) db"
  using assms by (simp add: posts_start_post_scan_def detail_scan_of_def Let_def)

text \<open>
  Claim C3, as the code has it.  Both start operations refuse only a scan that
  is \<open>RUNNING\<close>.  A start that succeeds found the scan in a status other than
  \<open>RUNNING\<close> and leaves it \<open>RUNNING\<close> with the start date set and the completion
  date cleared; and a scan in any status other than \<open>RUNNING\<close>, \<open>COMPLETED\<close>
  included, is started in place when the other conditions of the operation hold.
\<close>

theorem start_refuses_only_running:
  "(post_scan_of db scan_id = Some l \<and> post_scan_status l = RUNNING \<longrightarrow>
      marketplace_start_post_scan now scan_id db = Inl (HTTPException 400 ''Scan is already running'')) \<and>
   (detail_scan_of db scan_id = Some d \<and> detail_status d = RUNNING \<longrightarrow>
      posts_start_post_scan now scan_id db = Inl (HTTPException 400 ''Scan is already running'')) \<and>
   (marketplace_start_post_scan now scan_id db = Inr (db', bots, bs) \<longrightarrow>
      (\<exists>s. post_scan_of db scan_id = Some s \<and> post_scan_status s \<noteq> RUNNING \<and>
           post_scan_of db' scan_id
             = Some (s\<lparr>post_scan_status := RUNNING, post_scan_start_date := Some now,
                       post_scan_completion_date := None\<rparr>))) \<and>
   (posts_start_post_scan now scan_id db = Inr started \<longrightarrow>
      (\<exists>s. detail_scan_of db scan_id = Some s \<and> detail_status s \<noteq> RUNNING \<and>
           detail_scan_of (started_db started) scan_id
             = Some (s\<lparr>detail_status := RUNNING, detail_start_date := Some now,
                       detail_completion_date := None\<rparr>))) \<and>
   (post_scan_of db scan_id = Some l \<and> post_scan_status l = COMPLETED \<and>
    filter (\<lambda>b. purpose b = SCRAPE_MARKETPLACE \<and> session b \<noteq> None) (bot_profiles db) \<noteq> [] \<and>
    first (\<lambda>p. pagination_scan_scan_name p = pagination_scan_name l)
      (marketplace_pagination_scans db) = Some p \<and>
    stored_batches p = Some bs \<and> bs \<noteq> [] \<longrightarrow>
      marketplace_start_post_scan now scan_id db
        = Inr (set_post_scan scan_id
                 (\<lambda>s. s\<lparr>post_scan_status := RUNNING, post_scan_start_date := Some now,
                         post_scan_completion_date := None\<rparr>) db,
               filter (\<lambda>b. purpose b = SCRAPE_MARKETPLACE \<and> session b \<noteq> None) (bot_profiles db),
               bs)) \<and>
   (detail_scan_of db scan_id = Some d \<and> detail_status d = COMPLETED \<and>
    first (\<lambda>a. api_type a = ''translation_api'' \<and> is_active a) (apis db) = Some translation_api \<and>
    first (\<lambda>a. api_type a = ''iab_api'' \<and> is_active a) (apis db) = Some iab_api \<and>
    filter (\<lambda>b. purpose b = SCRAPE_POST \<and> session b \<noteq> None \<and> session b \<noteq> Some [])
      (bot_profiles db) \<noteq> [] \<and>
    first (\<lambda>l. post_scan_name l = source_scan_name d \<and> post_scan_completion_date l \<noteq> None \<and>
               post_scan_status l = COMPLETED) (marketplace_post_scans db) = Some source_scan \<and>
    filter (\<lambda>p. post_scan_ref p = post_scan_id source_scan) (marketplace_posts db) \<noteq> [] \<and>
    site_url d \<noteq> [] \<and>
    make_post_batches
      (map (\<lambda>p. (post_link p, post_timestamp p))
         (filter (\<lambda>p. post_scan_ref p = post_scan_id source_scan) (marketplace_posts db)))
      (detail_batch_size d) = Inr post_batches \<longrightarrow>
      (\<exists>started. posts_start_post_scan now scan_id db = Inr started \<and>
         started_db started
           = set_detail_scan scan_id
               (\<lambda>s. s\<lparr>detail_status := RUNNING, detail_start_date := Some now,
                       detail_completion_date := None\<rparr>) db))"
proof (intro conjI impI)
  assume "post_scan_of db scan_id = Some l \<and> post_scan_status l = RUNNING"
  then show "marketplace_start_post_scan now scan_id db
      = Inl (HTTPException 400 ''Scan is already running'')"
    by (simp add: marketplace_start_running_rejected)
next
  assume "detail_scan_of db scan_id = Some d \<and> detail_status d = RUNNING"
  then show "posts_start_post_scan now scan_id db
      = Inl (HTTPException 400 ''Scan is already running'')"
    by (simp add: posts_start_running_rejected)
next
  assume "marketplace_start_post_scan now scan_id db = Inr (db', bots, bs)"
  then show "\<exists>s. post_scan_of db scan_id = Some s \<and> post_scan_status s \<noteq> RUNNING \<and>
           post_scan_of db' scan_id
             = Some (s\<lparr>post_scan_status := RUNNING, post_scan_start_date := Some now,
                       post_scan_completion_date := None\<rparr>)"
    by (rule marketplace_start_started)
next
  assume "posts_start_post_scan now scan_id db = Inr started"
  then show "\<exists>s. detail_scan_of db scan_id = Some s \<and> detail_status s \<noteq> RUNNING \<and>
           detail_scan_of (started_db started) scan_id
             = Some (s\<lparr>detail_status := RUNNING, detail_start_date := Some now,
                       detail_completion_date := None\<rparr>)"
    by (rule posts_start_started)
next
  assume a: "post_scan_of db scan_id = Some l \<and> post_scan_status l = COMPLETED \<and>
    filter (\<lambda>b. purpose b = SCRAPE_MARKETPLACE \<and> session b \<noteq> None) (bot_profiles db) \<noteq> [] \<and>
    first (\<lambda>p. pagination_scan_scan_name p = pagination_scan_name l)
      (marketplace_pagination_scans db) = Some p \<and>
    stored_batches p = Some bs \<and> bs \<noteq> []"
  then have "post_scan_status l \<noteq> RUNNING" by simp
  with a show "marketplace_start_post_scan now scan_id db
        = Inr (set_post_scan scan_id
                 (\<lambda>s. s\<lparr>post_scan_status := RUNNING, post_scan_start_date := Some now,
                         post_scan_completion_date := None\<rparr>) db,
               filter (\<lambda>b. purpose b = SCRAPE_MARKETPLACE \<and> session b \<noteq> None) (bot_profiles db),
               bs)"
    by (intro marketplace_start_not_running [of db scan_id l p bs now]) simp_all
next
  assume a: "detail_scan_of db scan_id = Some d \<and> detail_status d = COMPLETED \<and>
    first (\<lambda>a. api_type a = ''translation_api'' \<and> is_active a) (apis db) = Some translation_api \<and>
    first (\<lambda>a. api_type a = ''iab_api'' \<and> is_active a) (apis db) = Some iab_api \<and>
    filter (\<lambda>b. purpose b = SCRAPE_POST \<and> session b \<noteq> None \<and> session b \<noteq> Some [])
      (bot_profiles db) \<noteq> [] \<and>
    first (\<lambda>l. post_scan_name l = source_scan_name d \<and> post_scan_completion_date l \<noteq> None \<and>
               post_scan_status l = COMPLETED) (marketplace_post_scans db) = Some source_scan \<and>
    filter (\<lambda>p. post_scan_ref p = post_scan_id source_scan) (marketplace_posts db) \<noteq> [] \<and>
    site_url d \<noteq> [] \<and>
    make_post_batches
      (map (\<lambda>p. (post_link p, post_timestamp p))
         (filter (\<lambda>p. post_scan_ref p = post_scan_id source_scan) (marketplace_posts db)))
      (detail_batch_size d) = Inr post_batches"
  then have "detail_status d \<noteq> RUNNING" by simp
  with a show "\<exists>started. posts_start_post_scan now scan_id db = Inr started \<and>
         started_db started
           = set_detail_scan scan_id
               (\<lambda>s. s\<lparr>detail_status := RUNNING, detail_start_date := Some now,
                       detail_completion_date := None\<rparr>) db"
    by (intro posts_start_not_running
          [of db scan_id d translation_api iab_api source_scan post_batches now]) simp_all
qed

lemma detail_start_completed:
  "map_sum id (\<lambda>st. map_option detail_status (detail_scan_of (started_db st) 7))
     (posts_start_post_scan 400 7 (detail_db [detail_bot (Some ''session=def'')] (detail_scan COMPLETED (Some 350))))
   = Inr (Some RUNNING)"
  by (simp add: posts_start_post_scan_def detail_db_def detail_scan_def detail_bot_def
      service_apis_def listing_scan_def vpn_post_def first_Cons first_Nil Let_def
      make_post_batches_def range_step_def set_detail_scan_def detail_scan_of_def)

theorem start_refuses_only_running_witness:
  "marketplace_start_post_scan 400 1
     (listing_db [listing_bot (Some ''session=abc'')] (listing_scan RUNNING None) [])
     = Inl (HTTPException 400 ''Scan is already running'') \<and>
   posts_start_post_scan 400 7 (detail_db [detail_bot (Some ''session=def'')] (detail_scan RUNNING None))
     = Inl (HTTPException 400 ''Scan is already running'') \<and>
   marketplace_start_post_scan 400 1
     (listing_db [listing_bot (Some ''session=abc'')] (listing_scan COMPLETED (Some 200)) [])
     = Inr (set_post_scan 1
              (\<lambda>s. s\<lparr>post_scan_status := RUNNING, post_scan_start_date := Some 400,
                      post_scan_completion_date := None\<rparr>)
              (listing_db [listing_bot (Some ''session=abc'')] (listing_scan COMPLETED (Some 200)) []),
            [listing_bot (Some ''session=abc'')],
            [(''1'', [''http://forum.onion/market?page=2'', ''http://forum.onion/market?page=1''])]) \<and>
   post_scan_of
     (set_post_scan 1
        (\<lambda>s. s\<lparr>post_scan_status := RUNNING, post_scan_start_date := Some 400,
                post_scan_completion_date := None\<rparr>)
        (listing_db [listing_bot (Some ''session=abc'')] (listing_scan COMPLETED (Some 200)) [])) 1
     = Some ((listing_scan RUNNING None)\<lparr>post_scan_start_date := Some 400\<rparr>) \<and>
   (\<exists>started. posts_start_post_scan 400 7
        (detail_db [detail_bot (Some ''session=def'')] (detail_scan COMPLETED (Some 350))) = Inr started \<and>
      detail_scan_of (started_db started) 7
        = Some ((detail_scan RUNNING None)\<lparr>detail_start_date := Some 400\<rparr>))"
proof -
  let ?L = "\<lambda>st done. listing_db [listing_bot (Some ''session=abc'')] (listing_scan st done) []"
  let ?D = "\<lambda>st done. detail_db [detail_bot (Some ''session=def'')] (detail_scan st done)"
  have l: "post_scan_of (?L st fin) 1 = Some (listing_scan st fin)" for st fin
    by (simp add: post_scan_of_def listing_db_def listing_scan_def first_Cons)
  have d: "detail_scan_of (?D st fin) 7 = Some (detail_scan st fin)" for st fin
    by (simp add: detail_scan_of_def detail_db_def detail_scan_def first_Cons)
  have c1: "marketplace_start_post_scan 400 1 (?L RUNNING None)
     = Inl (HTTPException 400 ''Scan is already running'')"
    using start_refuses_only_running
      [where db = "?L RUNNING None" and scan_id = 1 and l = "listing_scan RUNNING None" and now = 400]
      l [of RUNNING None]
    by (simp add: listing_scan_def)
  have c2: "posts_start_post_scan 400 7 (?D RUNNING None)
     = Inl (HTTPException 400 ''Scan is already running'')"
    using start_refuses_only_running
      [where db = "?D RUNNING None" and scan_id = 7 and d = "detail_scan RUNNING None" and now = 400]
      d [of RUNNING None]
    by (simp add: detail_scan_def)
  have c3: "marketplace_start_post_scan 400 1 (?L COMPLETED (Some 200))
     = Inr (set_post_scan 1
              (\<lambda>s. s\<lparr>post_scan_status := RUNNING, post_scan_start_date := Some 400,
                      post_scan_completion_date := None\<rparr>) (?L COMPLETED (Some 200)),
            [listing_bot (Some ''session=abc'')],
            [(''1'', [''http://forum.onion/market?page=2'', ''http://forum.onion/market?page=1''])])"
    using start_refuses_only_running
      [where db = "?L COMPLETED (Some 200)" and scan_id = 1
         and l = "listing_scan COMPLETED (Some 200)" and now = 400 and p = pages_scan
         and bs = "[(''1'', [''http://forum.onion/market?page=2'', ''http://forum.onion/market?page=1''])]"]
      l [of COMPLETED "Some 200"]
    by (simp add: listing_scan_def listing_db_def listing_bot_def pages_scan_def first_Cons)
  have h: "detail_status (detail_scan COMPLETED (Some 350)) = COMPLETED \<and>
    first (\<lambda>a. api_type a = ''translation_api'' \<and> is_active a) (apis (?D COMPLETED (Some 350)))
      = Some (service_apis ! 0) \<and>
    first (\<lambda>a. api_type a = ''iab_api'' \<and> is_active a) (apis (?D COMPLETED (Some 350)))
      = Some (service_apis ! 1) \<and>
    filter (\<lambda>b. purpose b = SCRAPE_POST \<and> session b \<noteq> None \<and> session b \<noteq> Some [])
      (bot_profiles (?D COMPLETED (Some 350))) \<noteq> [] \<and>
    first (\<lambda>l. post_scan_name l = source_scan_name (detail_scan COMPLETED (Some 350)) \<and>
               post_scan_completion_date l \<noteq> None \<and> post_scan_status l = COMPLETED)
      (marketplace_post_scans (?D COMPLETED (Some 350))) = Some (listing_scan COMPLETED (Some 200)) \<and>
    filter (\<lambda>p. post_scan_ref p = post_scan_id (listing_scan COMPLETED (Some 200)))
      (marketplace_posts (?D COMPLETED (Some 350))) \<noteq> [] \<and>
    site_url (detail_scan COMPLETED (Some 350)) \<noteq> [] \<and>
    make_post_batches
      (map (\<lambda>p. (post_link p, post_timestamp p))
         (filter (\<lambda>p. post_scan_ref p = post_scan_id (listing_scan COMPLETED (Some 200)))
            (marketplace_posts (?D COMPLETED (Some 350)))))
      (detail_batch_size (detail_scan COMPLETED (Some 350)))
      = Inr [(batch_name_of 1, [(''/post/marketplace/1'', ''2025-07-01 10:00'')])]"
    by (simp add: detail_db_def detail_scan_def detail_bot_def service_apis_def listing_scan_def
        vpn_post_def first_Cons make_post_batches_def range_step_def)
  have "\<exists>started. posts_start_post_scan 400 7 (?D COMPLETED (Some 350)) = Inr started"
    using d [of COMPLETED "Some 350"] h start_refuses_only_running
      [where db = "?D COMPLETED (Some 350)" and scan_id = 7
         and d = "detail_scan COMPLETED (Some 350)" and now = 400
         and translation_api = "service_apis ! 0" and iab_api = "service_apis ! 1"
         and source_scan = "listing_scan COMPLETED (Some 200)"
         and post_batches = "[(batch_name_of 1, [(''/post/marketplace/1'', ''2025-07-01 10:00'')])]"]
    by blast
  then obtain started where s: "posts_start_post_scan 400 7 (?D COMPLETED (Some 350)) = Inr started"
    by blast
  have c4: "detail_scan_of (started_db started) 7
        = Some ((detail_scan RUNNING None)\<lparr>detail_start_date := Some 400\<rparr>)"
    using start_refuses_only_running
      [where db = "?D COMPLETED (Some 350)" and scan_id = 7 and now = 400 and started = started]
      s d [of COMPLETED "Some 350"]
    by (auto simp: detail_scan_def)
  have c5: "post_scan_of
     (set_post_scan 1
        (\<lambda>s. s\<lparr>post_scan_status := RUNNING, post_scan_start_date := Some 400,
                post_scan_completion_date := None\<rparr>) (?L COMPLETED (Some 200))) 1
     = Some ((listing_scan RUNNING None)\<lparr>post_scan_start_date := Some 400\<rparr>)"
    using start_refuses_only_running
      [where db = "?L COMPLETED (Some 200)" and scan_id = 1 and now = 400
         and db' = "set_post_scan 1
            (\<lambda>s. s\<lparr>post_scan_status := RUNNING, post_scan_start_date := Some 400,
                    post_scan_completion_date := None\<rparr>) (?L COMPLETED (Some 200))"
         and bots = "[listing_bot (Some ''session=abc'')]"
         and bs = "[(''1'', [''http://forum.onion/market?page=2'', ''http://forum.onion/market?page=1''])]"]
      c3 l [of COMPLETED "Some 200"]
    by (auto simp: listing_scan_def)
  from c1 c2 c3 c5 s c4 show ?thesis by blast
qed

text \<open>
  Claim C3 as the spec words it (the start operation never moves a \<open>COMPLETED\<close>
  scan back to \<open>RUNNING\<close>) fails on both paths: a completed listing scan and a
  completed post-detail scan are started in place.
\<close>

theorem start_completed_scan_restarted_counterexample:
  "post_scan_status (listing_scan COMPLETED (Some 200)) = COMPLETED \<and>
   marketplace_start_post_scan 400 1
     (listing_db [listing_bot (Some ''session=abc'')] (listing_scan COMPLETED (Some 200)) [])
   = Inr (listing_db [listing_bot (Some ''session=abc'')]
            ((listing_scan RUNNING None)\<lparr>post_scan_start_date := Some 400\<rparr>) [],
          [listing_bot (Some ''session=abc'')],
          [(''1'', [''http://forum.onion/market?page=2'', ''http://forum.onion/market?page=1''])]) \<and>
   detail_status (detail_scan COMPLETED (Some 350)) = COMPLETED \<and>
   map_sum id (\<lambda>st. map_option detail_status (detail_scan_of (started_db st) 7))
     (posts_start_post_scan 400 7
        (detail_db [detail_bot (Some ''session=def'')] (detail_scan COMPLETED (Some 350))))
   = Inr (Some RUNNING)"
  by (simp add: marketplace_start_post_scan_def first_Cons first_Nil listing_db_def
      listing_scan_def listing_bot_def pages_scan_def set_post_scan_def Let_def
      posts_start_post_scan_def detail_db_def detail_scan_def detail_bot_def
      service_apis_def vpn_post_def
      make_post_batches_def range_step_def set_detail_scan_def detail_scan_of_def)


subsection \<open>Dicts, listing pages and the unique constraint\<close>

lemma map_of_dict_set: "map_of (dict_set d k v) = (map_of d)(k \<mapsto> v)"
  by (induction d) (auto simp: fun_eq_iff)

lemma keys_dict_set: "fst ` set (dict_set d k v) = insert k (fst ` set d)"
  by (simp add: dom_map_of_conv_image_fst [symmetric] map_of_dict_set)

lemma distinct_dict_set: "distinct (map fst d) \<Longrightarrow> distinct (map fst (dict_set d k v))"
proof (induction d)
  case Nil
  show ?case by simp
next
  case (Cons kv d)
  obtain k' v' where kv: "kv = (k', v')" by (cases kv)
  show ?case
  proof (cases "k' = k")
    case True
    with Cons.prems kv show ?thesis by simp
  next
    case False
    have "set (map fst (dict_set d k v)) = insert k (fst ` set d)"
      using keys_dict_set [of d k v] by simp
    with False Cons kv show ?thesis by auto
  qed
qed

lemma foldl_dict_set_map_of:
  "map_of (foldl (\<lambda>d (k, v). dict_set d k v) d kvs) = map_of (rev kvs @ d)"
proof (induction kvs arbitrary: d)
  case Nil
  show ?case by simp
next
  case (Cons kv kvs)
  obtain k v where kv: "kv = (k, v)" by (cases kv)
  have "map_of (foldl (\<lambda>d (k, v). dict_set d k v) d (kv # kvs))
        = map_of (rev kvs @ dict_set d k v)"
    by (simp add: kv Cons.IH)
  also have "\<dots> = map_of (rev kvs @ (k, v) # d)"
    by (simp add: map_of_append map_of_dict_set)
  finally show ?case by (simp add: kv)
qed

lemma foldl_dict_set_distinct_keys:
  "distinct (map fst d) \<Longrightarrow> distinct (map fst (foldl (\<lambda>d (k, v). dict_set d k v) d kvs))"
  by (induction kvs arbitrary: d) (auto simp: distinct_dict_set)

lemma scrape_rows_fold:
  "scrape_rows posts rows = Inr posts' \<Longrightarrow>
   posts' = foldl (\<lambda>d (k, v). dict_set d k v) posts
              (concat (map (\<lambda>row. case parse_row row of Inl e \<Rightarrow> [] | Inr kv \<Rightarrow> [kv]) rows))"
proof (induction rows arbitrary: posts)
  case Nil
  then show ?case by simp
next
  case (Cons row rows)
  show ?case
  proof (cases "parse_row row")
    case (Inl e)
    with Cons.prems have "scrape_rows posts rows = Inr posts'" by (simp split: if_splits)
    from Cons.IH [OF this] Inl show ?thesis by simp
  next
    case (Inr kv)
    obtain k v where kv: "kv = (k, v)" by (cases kv)
    with Cons.prems Inr have "scrape_rows (dict_set posts k v) rows = Inr posts'" by simp
    from Cons.IH [OF this] Inr kv show ?thesis by simp
  qed
qed

lemma scrape_pages_fold:
  "scrape_pages posts pages = Inr posts' \<Longrightarrow>
   posts' = foldl (\<lambda>d (k, v). dict_set d k v) posts (scraped_rows pages)"
proof (induction posts pages rule: scrape_pages.induct)
  case (1 posts)
  then show ?case by (simp add: scraped_rows_def)
next
  case (2 posts pages)
  then show ?case by (simp add: scraped_rows_def)
next
  case (3 posts pages)
  then show ?case by (simp add: scraped_rows_def)
next
  case (4 posts table_rows pages)
  from "4.prems" obtain mid where mid: "scrape_rows posts (take 10 table_rows) = Inr mid"
    and rest: "scrape_pages mid pages = Inr posts'"
    by (auto split: sum.splits)
  from scrape_rows_fold [OF mid]
  have "mid = foldl (\<lambda>d (k, v). dict_set d k v) posts (parsed_rows table_rows)"
    by (simp add: parsed_rows_def)
  with "4.IH" [OF mid rest] show ?case by (simp add: scraped_rows_def)
qed

lemma scrape_posts_last_wins:
  assumes "scrape_posts fetch urls = Inr posts"
  shows "distinct (map fst posts)"
    and "map_of posts = map_of (rev (scraped_rows (map fetch urls)))"
proof -
  from assms have p: "posts = foldl (\<lambda>d (k, v). dict_set d k v) [] (scraped_rows (map fetch urls))"
    by (simp add: scrape_posts_def scrape_pages_fold)
  show "distinct (map fst posts)"
    unfolding p by (rule foldl_dict_set_distinct_keys) simp
  show "map_of posts = map_of (rev (scraped_rows (map fetch urls)))"
    unfolding p by (simp add: foldl_dict_set_map_of)
qed

lemma post_exists_iff:
  "post_exists table scan_id ts post \<longleftrightarrow>
     (\<exists>r\<in>set table. post_scan_ref r = scan_id \<and> post_timestamp r = ts \<and>
        post_title r = title post \<and> post_link r = link post)"
  by (auto simp: post_exists_def first_None_iff)

lemma commit_posts_Inr:
  "commit_posts table pending = Inr table' \<longleftrightarrow>
     uix_scan_timestamp (table @ pending) \<and> table' = table @ pending"
  by (auto simp: commit_posts_def)

lemma uix_same_key:
  assumes "uix_scan_timestamp rows" and "r1 \<in> set rows" and "r2 \<in> set rows"
    and "post_scan_ref r1 = post_scan_ref r2" and "post_timestamp r1 = post_timestamp r2"
  shows "r1 = r2"
proof -
  from assms(1) have "inj_on (\<lambda>r. (post_scan_ref r, post_timestamp r)) (set rows)"
    by (simp add: uix_scan_timestamp_def distinct_map)
  with assms(2-5) show ?thesis by (auto dest: inj_onD)
qed

lemma commit_conflicting_title:
  assumes "uix_scan_timestamp table" and "r \<in> set table"
    and "post_scan_ref r = scan_id" and "post_timestamp r = ts" and "post_title r \<noteq> title post"
  shows "commit_posts table (add_posts table scan_id [(ts, post)]) = Inl IntegrityError"
proof -
  have "\<not> post_exists table scan_id ts post"
  proof
    assume "post_exists table scan_id ts post"
    then obtain r' where r': "r' \<in> set table" "post_scan_ref r' = scan_id" "post_timestamp r' = ts"
      "post_title r' = title post" by (auto simp: post_exists_iff)
    with assms uix_same_key [of table r r'] show False by auto
  qed
  then have "add_posts table scan_id [(ts, post)]
      = [\<lparr>post_scan_ref = scan_id, post_timestamp = ts, post_title = title post,
          post_author = author post, post_link = link post\<rparr>]" by simp
  moreover have "\<not> uix_scan_timestamp (table @ [\<lparr>post_scan_ref = scan_id, post_timestamp = ts,
          post_title = title post, post_author = author post, post_link = link post\<rparr>])"
    using assms(2-4) by (force simp: uix_scan_timestamp_def)
  ultimately show ?thesis by (simp add: commit_posts_def)
qed

lemma scrape_rows_strip:
  "strip ''VPN access'' = ''VPN access'' \<and> strip ''RDP access'' = ''RDP access'' \<and>
   strip ''alice'' = ''alice'' \<and> strip ''bob'' = ''bob'' \<and>
   strip ''2025-07-01 10:00'' = ''2025-07-01 10:00''"
  by (simp add: strip_def is_space_def)

lemma parse_vpn_row:
  "parse_row vpn_row = Inr (''2025-07-01 10:00'',
     \<lparr>title = ''VPN access'', author = ''alice'', link = ''/post/marketplace/1''\<rparr>)"
  by (simp add: parse_row_def vpn_row_def scrape_rows_strip)

lemma parse_rdp_row:
  "parse_row rdp_row = Inr (''2025-07-01 10:00'',
     \<lparr>title = ''RDP access'', author = ''bob'', link = ''/post/marketplace/2''\<rparr>)"
  by (simp add: parse_row_def rdp_row_def scrape_rows_strip)

lemma scrape_pages_first_ten:
  "scrape_pages posts (map (\<lambda>u. Table (rows u)) urls)
   = scrape_pages posts (map (\<lambda>u. Table (take 10 (rows u))) urls)"
  by (induction urls arbitrary: posts) (simp_all split: sum.split)

text \<open>
  Claim C10.  When \<^verbatim>\<open>scrape_posts\<close> returns, its dict has one entry for each
  timestamp, and the entry of a timestamp is the last row with that timestamp
  among the rows scraped (the first ten rows of each page, in the order of the
  pages); rows after the tenth of a page play no part.  A committed table of
  listing posts has at most one row for a scan and a timestamp; and on a table
  that has a row for a scan and a timestamp, saving a post of the same scan and
  timestamp with another title is refused by the database.
\<close>

theorem scrape_posts_keyed_by_timestamp:
  "(scrape_posts fetch urls = Inr posts \<longrightarrow>
      distinct (map fst posts) \<and> map_of posts = map_of (rev (scraped_rows (map fetch urls)))) \<and>
   scrape_posts (\<lambda>u. Table (rows u)) urls = scrape_posts (\<lambda>u. Table (take 10 (rows u))) urls \<and>
   (commit_posts table pending = Inr table' \<longrightarrow>
      (\<forall>r1\<in>set table'. \<forall>r2\<in>set table'.
         post_scan_ref r1 = post_scan_ref r2 \<and> post_timestamp r1 = post_timestamp r2 \<longrightarrow> r1 = r2)) \<and>
   (uix_scan_timestamp table \<and> r \<in> set table \<and> post_scan_ref r = scan_id \<and>
    post_timestamp r = ts \<and> post_title r \<noteq> title post \<longrightarrow>
      commit_posts table (add_posts table scan_id [(ts, post)]) = Inl IntegrityError)"
proof (intro conjI impI ballI)
  assume "scrape_posts fetch urls = Inr posts"
  then show "distinct (map fst posts)"
    and "map_of posts = map_of (rev (scraped_rows (map fetch urls)))"
    by (rule scrape_posts_last_wins)+
next
  show "scrape_posts (\<lambda>u. Table (rows u)) urls = scrape_posts (\<lambda>u. Table (take 10 (rows u))) urls"
    using scrape_pages_first_ten [of "[]" rows urls] by (simp add: scrape_posts_def o_def)
next
  fix r1 r2
  assume "commit_posts table pending = Inr table'" and "r1 \<in> set table'" and "r2 \<in> set table'"
    and "post_scan_ref r1 = post_scan_ref r2 \<and> post_timestamp r1 = post_timestamp r2"
  then show "r1 = r2"
    using uix_same_key [of table' r1 r2] by (simp add: commit_posts_Inr)
next
  assume "uix_scan_timestamp table \<and> r \<in> set table \<and> post_scan_ref r = scan_id \<and>
    post_timestamp r = ts \<and> post_title r \<noteq> title post"
  then show "commit_posts table (add_posts table scan_id [(ts, post)]) = Inl IntegrityError"
    using commit_conflicting_title [of table r scan_id ts post] by simp
qed

theorem scrape_posts_keyed_by_timestamp_witness:
  "scrape_posts (\<lambda>u. Table [vpn_row, rdp_row]) [''http://forum.onion/market?page=1'']
     = Inr [(''2025-07-01 10:00'',
             \<lparr>title = ''RDP access'', author = ''bob'', link = ''/post/marketplace/2''\<rparr>)] \<and>
   scraped_rows [Table [vpn_row, rdp_row]]
     = [(''2025-07-01 10:00'',
         \<lparr>title = ''VPN access'', author = ''alice'', link = ''/post/marketplace/1''\<rparr>),
        (''2025-07-01 10:00'',
         \<lparr>title = ''RDP access'', author = ''bob'', link = ''/post/marketplace/2''\<rparr>)] \<and>
   commit_posts [] [vpn_post] = Inr [vpn_post] \<and>
   commit_posts [vpn_post]
     (add_posts [vpn_post] 1
        [(''2025-07-01 10:00'',
          \<lparr>title = ''RDP access'', author = ''bob'', link = ''/post/marketplace/2''\<rparr>)])
     = Inl IntegrityError"
proof -
  let ?rdp = "\<lparr>title = ''RDP access'', author = ''bob'', link = ''/post/marketplace/2''\<rparr>"
  let ?u = "[''http://forum.onion/market?page=1'']"
  have sr: "scraped_rows [Table [vpn_row, rdp_row]]
     = [(''2025-07-01 10:00'',
         \<lparr>title = ''VPN access'', author = ''alice'', link = ''/post/marketplace/1''\<rparr>),
        (''2025-07-01 10:00'', ?rdp)]"
    by (simp add: scraped_rows_def parsed_rows_def parse_vpn_row parse_rdp_row)
  have sp: "scrape_posts (\<lambda>u. Table [vpn_row, rdp_row]) ?u = Inr [(''2025-07-01 10:00'', ?rdp)]"
    by (simp add: scrape_posts_def parse_vpn_row parse_rdp_row)
  have c0: "commit_posts [] [vpn_post] = Inr [vpn_post]"
    by (simp add: commit_posts_def uix_scan_timestamp_def)
  have u: "uix_scan_timestamp [vpn_post]" by (simp add: uix_scan_timestamp_def)
  have "commit_posts [vpn_post] (add_posts [vpn_post] 1 [(''2025-07-01 10:00'', ?rdp)])
     = Inl IntegrityError"
    using u scrape_posts_keyed_by_timestamp
      [where table = "[vpn_post]" and r = vpn_post and scan_id = 1 and ts = "''2025-07-01 10:00''"
         and post = ?rdp]
    by (simp add: vpn_post_def)
  moreover have "distinct (map fst [(''2025-07-01 10:00'', ?rdp)])"
    using sp scrape_posts_keyed_by_timestamp
      [where fetch = "\<lambda>u. Table [vpn_row, rdp_row]" and urls = ?u
         and posts = "[(''2025-07-01 10:00'', ?rdp)]"]
    by blast
  moreover have "\<forall>r1\<in>set [vpn_post]. \<forall>r2\<in>set [vpn_post].
         post_scan_ref r1 = post_scan_ref r2 \<and> post_timestamp r1 = post_timestamp r2 \<longrightarrow> r1 = r2"
    using c0 scrape_posts_keyed_by_timestamp
      [where table = "[]" and pending = "[vpn_post]" and table' = "[vpn_post]"]
    by blast
  ultimately show ?thesis using sr sp c0 by simp
qed

subsection \<open>The fallback of the listing batch\<close>

lemma read_posts_data_fallback:
  assumes "json_loads lib posts_data_raw = Inl JSONDecodeError" and "posts_data_raw \<noteq> []"
  shows "read_posts_data lib posts_data_raw
         = (case eval lib posts_data_raw of
              Inl se \<Rightarrow> Inl se
            | Inr raw_dict \<Rightarrow>
                Inr (dict_of (map (\<lambda>(timestamp, post). (timestamp, sanitize_post lib post)) raw_dict)))"
  using assms by (simp add: read_posts_data_def)














subsection \<open>Idempotent insertion of listing posts\<close>

lemma add_posts_covers:
  "(ts, p) \<in> set items \<Longrightarrow> post_exists (table @ add_posts table scan_id items) scan_id ts p"
proof (induction items)
  case Nil
  then show ?case by simp
next
  case (Cons item items)
  obtain t q where item: "item = (t, q)" by (cases item)
  show ?case
  proof (cases "(ts, p) = (t, q)")
    case True
    then show ?thesis by (auto simp: item post_exists_iff)
  next
    case False
    with Cons.prems item have "(ts, p) \<in> set items" by auto
    from Cons.IH [OF this] show ?thesis by (auto simp: item post_exists_iff)
  qed
qed

lemma add_posts_nothing_new:
  "(\<forall>(ts, p)\<in>set items. post_exists table scan_id ts p) \<Longrightarrow> add_posts table scan_id items = []"
  by (induction items) auto

lemma length_filter_key_le_1:
  "distinct (map f xs) \<Longrightarrow> length (filter (\<lambda>x. f x = k) xs) \<le> 1"
proof (induction xs)
  case Nil
  show ?case by simp
next
  case (Cons x xs)
  show ?case
  proof (cases "f x = k")
    case True
    from Cons.prems have "f x \<notin> f ` set xs" by simp
    with True have "\<forall>y\<in>set xs. f y \<noteq> k" by blast
    then have "filter (\<lambda>x. f x = k) xs = []" by (simp add: filter_empty_conv)
    with True show ?thesis by simp
  next
    case False
    with Cons show ?thesis by simp
  qed
qed

lemma length_filter_mono:
  "(\<And>x. P x \<Longrightarrow> Q x) \<Longrightarrow> length (filter P xs) \<le> length (filter Q xs)"
  by (induction xs) auto

lemma listing_save_twice:
  assumes "commit_posts table (add_posts table scan_id items) = Inr table'"
  shows "add_posts table' scan_id items = []"
    and "commit_posts table' (add_posts table' scan_id items) = Inr table'"
    and "(ts, p) \<in> set items \<Longrightarrow>
         length (filter (\<lambda>r. post_scan_ref r = scan_id \<and> post_timestamp r = ts \<and>
                             post_title r = title p \<and> post_link r = link p) table') = 1"
proof -
  from assms have t': "table' = table @ add_posts table scan_id items"
    and u: "uix_scan_timestamp table'"
    by (simp_all add: commit_posts_Inr)
  have ex: "post_exists table' scan_id t q" if "(t, q) \<in> set items" for t q
    using that by (simp add: t' add_posts_covers)
  then show e: "add_posts table' scan_id items = []"
    by (intro add_posts_nothing_new) auto
  from u show "commit_posts table' (add_posts table' scan_id items) = Inr table'"
    by (simp add: e commit_posts_def)
  assume "(ts, p) \<in> set items"
  let ?match = "\<lambda>r. post_scan_ref r = scan_id \<and> post_timestamp r = ts \<and>
                     post_title r = title p \<and> post_link r = link p"
  from ex [OF \<open>(ts, p) \<in> set items\<close>] have "filter ?match table' \<noteq> []"
    by (auto simp: post_exists_iff filter_empty_conv)
  then have "1 \<le> length (filter ?match table')" by (cases "filter ?match table'") simp_all
  moreover have "length (filter ?match table')
      \<le> length (filter (\<lambda>r. (post_scan_ref r, post_timestamp r) = (scan_id, ts)) table')"
    by (rule length_filter_mono) simp
  moreover have "length (filter (\<lambda>r. (post_scan_ref r, post_timestamp r) = (scan_id, ts)) table') \<le> 1"
    using u unfolding uix_scan_timestamp_def by (rule length_filter_key_le_1)
  ultimately show "length (filter ?match table') = 1" by linarith
qed

text \<open>Running the same listing batch again stores nothing more and raises nothing.\<close>

lemma sync_scrape_batch_twice:
  assumes "sync_scrape_batch lib fetch table urls scan_id = Inr table'"
  shows "sync_scrape_batch lib fetch table' urls scan_id = Inr table'"
proof -
  from assms obtain posts posts_data where p: "scrape_posts fetch urls = Inr posts"
    and d: "read_posts_data lib (json_dumps lib posts) = Inr posts_data"
    and c: "commit_posts table (add_posts table scan_id posts_data) = Inr table'"
    by (auto simp: sync_scrape_batch_def split: sum.splits)
  from listing_save_twice(2) [OF c] p d show ?thesis
    by (simp add: sync_scrape_batch_def)
qed

subsection \<open>Insertion of post details\<close>

lemma details_constructor_raises:
  "declarative_constructor MarketplacePostDetails_columns details_keywords row = Inl TypeError"
  by (simp add: declarative_constructor_def MarketplacePostDetails_columns_def details_keywords_def)

lemma insert_details_outcome:
  "insert_details table full_url row =
     (if first (\<lambda>r. details_scan_ref r = details_scan_ref row \<and>
                    details_timestamp r = details_timestamp row \<and>
                    details_batch_name r = details_batch_name row) table \<noteq> None
      then Duplicate else Failed (ProcessingError full_url TypeError))"
  by (simp add: insert_details_def details_constructor_raises)

lemma enrich_post_not_saved:
  "enrich_post srv tmpl table batch_name scan_id full_url t c a ts \<noteq> Saved row"
  by (simp add: enrich_post_def insert_details_outcome Let_def split: sum.split prod.split)

lemma scrape_one_post_not_saved:
  "scrape_one_post srv tmpl table worker batch_name scan_id url post \<noteq> Saved row"
  by (simp add: scrape_one_post_def enrich_post_not_saved Let_def split: sum.split option.split)

lemma sync_scrape_post_table:
  "fst (sync_scrape_post srv tmpl worker batch_name scan_id url batch_posts (table, scan_errors)) = table"
proof (induction batch_posts arbitrary: scan_errors)
  case Nil
  show ?case by simp
next
  case (Cons post batch_posts)
  show ?case
    using scrape_one_post_not_saved [of srv tmpl table worker batch_name scan_id url post]
    by (cases "scrape_one_post srv tmpl table worker batch_name scan_id url post")
       (auto simp: Cons.IH)
qed

lemma full_url_example:
  "full_url_of ''http://forum.onion/'' ''/post/marketplace/1'' = ''http://forum.onion/post/marketplace/1''"
  by (simp add: full_url_of_def rstrip_slash_def lstrip_slash_def)

lemma scrape_one_post_example:
  "scrape_one_post (run_services (scraped_vpn ''2025-07-01 10:00'') (\<lambda>s. Inr ''en''))
     ''Classify: TARGET-POST-PLACEHOLDER'' [] (detail_bot (Some ''session=def'')) ''batch_001'' 7
     ''http://forum.onion/'' (''/post/marketplace/1'', ''2025-07-01 10:00'')
   = Failed (ProcessingError ''http://forum.onion/post/marketplace/1'' TypeError)"
  by (simp add: scrape_one_post_def full_url_example run_services_def scraped_vpn_def
      enrich_post_def insert_details_outcome detect_languages_def translate_post_def
      first_Nil Let_def)

text \<open>
  Claim C7 on the post-detail scan, at a post that is processed twice.  The call
  of the constructor of \<^verbatim>\<open>MarketplacePostDetails\<close> passes the keyword
  \<^verbatim>\<open>classification\<close>, which is not a column of the class, so the constructor
  raises \<^verbatim>\<open>TypeError\<close> for every post that is not a duplicate; the handler of
  the loop body records a processing error each time.  After the two passes no
  row is stored and \<^verbatim>\<open>scan_errors\<close> has two entries.
\<close>

theorem sync_scrape_post_twice_stores_nothing:
  "sync_scrape_post (run_services (scraped_vpn ''2025-07-01 10:00'') (\<lambda>s. Inr ''en''))
     ''Classify: TARGET-POST-PLACEHOLDER'' (detail_bot (Some ''session=def'')) ''batch_001'' 7
     ''http://forum.onion/''
     [(''/post/marketplace/1'', ''2025-07-01 10:00''), (''/post/marketplace/1'', ''2025-07-01 10:00'')]
     ([], [])
   = ([], [ProcessingError ''http://forum.onion/post/marketplace/1'' TypeError,
           ProcessingError ''http://forum.onion/post/marketplace/1'' TypeError])"
  by (simp add: scrape_one_post_example)

subsection \<open>Failures of single posts\<close>

lemma sync_scrape_post_errors_grow:
  "\<exists>more. snd (sync_scrape_post srv tmpl worker batch_name scan_id url batch_posts (table, scan_errors))
           = scan_errors @ more"
proof (induction batch_posts arbitrary: table scan_errors)
  case Nil
  show ?case by simp
next
  case (Cons post batch_posts)
  show ?case
  proof (cases "scrape_one_post srv tmpl table worker batch_name scan_id url post")
    case (Saved row)
    with Cons.IH [of "table @ [row]" scan_errors] show ?thesis by simp
  next
    case Duplicate
    with Cons.IH [of table scan_errors] show ?thesis by simp
  next
    case (Failed err)
    from Cons.IH [of table "scan_errors @ [err]"] obtain more where
      "snd (sync_scrape_post srv tmpl worker batch_name scan_id url batch_posts
              (table, scan_errors @ [err])) = (scan_errors @ [err]) @ more" by blast
    with Failed show ?thesis by simp
  qed
qed

lemma sync_scrape_post_records_failure:
  assumes "post \<in> set batch_posts"
    and "\<forall>table. \<exists>err. scrape_one_post srv tmpl table worker batch_name scan_id url post = Failed err"
  shows "snd (sync_scrape_post srv tmpl worker batch_name scan_id url batch_posts (table, scan_errors)) \<noteq> []"
  using assms(1)
proof (induction batch_posts arbitrary: table scan_errors)
  case Nil
  then show ?case by simp
next
  case (Cons p batch_posts)
  show ?case
  proof (cases "p = post")
    case True
    from assms(2) obtain err where
      "scrape_one_post srv tmpl table worker batch_name scan_id url post = Failed err" by blast
    with True show ?thesis
      using sync_scrape_post_errors_grow
        [of srv tmpl worker batch_name scan_id url batch_posts table "scan_errors @ [err]"]
      by auto
  next
    case False
    with Cons.prems have "post \<in> set batch_posts" by simp
    note ih = Cons.IH [OF this]
    show ?thesis
      by (cases "scrape_one_post srv tmpl table worker batch_name scan_id url p") (simp_all add: ih)
  qed
qed

lemma run_post_batches_keeps_errors:
  "snd state \<noteq> [] \<or> failed \<noteq> [] \<Longrightarrow>
   snd (run_post_batches srv tmpl active_bots scan_id url i post_batches state failed) \<noteq> []"
proof (induction post_batches arbitrary: i state failed)
  case Nil
  then show ?case by (cases state) auto
next
  case (Cons b post_batches)
  obtain batch_name batch_posts where b: "b = (batch_name, batch_posts)" by (cases b)
  obtain table errs where st: "state = (table, errs)" by (cases state)
  show ?case
  proof (cases "open_session srv batch_name")
    case None
    let ?w = "active_bots ! (i mod length active_bots)"
    from sync_scrape_post_errors_grow [of srv tmpl ?w batch_name scan_id url batch_posts table errs]
    obtain more where
      "snd (sync_scrape_post srv tmpl ?w batch_name scan_id url batch_posts (table, errs)) = errs @ more"
      by blast
    with Cons.prems st have
      "snd (sync_scrape_post srv tmpl ?w batch_name scan_id url batch_posts state) \<noteq> [] \<or> failed \<noteq> []"
      by auto
    from Cons.IH [OF this] None show ?thesis by (simp add: b Let_def)
  next
    case (Some e)
    have "snd state \<noteq> [] \<or> failed @ [BatchFailed batch_name e] \<noteq> []" by simp
    from Cons.IH [OF this] Some show ?thesis by (simp add: b Let_def)
  qed
qed

lemma run_post_batches_records_failure:
  assumes "active_bots \<noteq> []"
    and "(batch_name, batch_posts) \<in> set post_batches" and "post \<in> set batch_posts"
    and "\<forall>worker\<in>set active_bots. \<forall>table. \<exists>err.
           scrape_one_post srv tmpl table worker batch_name scan_id url post = Failed err"
  shows "snd (run_post_batches srv tmpl active_bots scan_id url i post_batches state failed) \<noteq> []"
  using assms(2)
proof (induction post_batches arbitrary: i state failed)
  case Nil
  then show ?case by simp
next
  case (Cons b post_batches)
  obtain bn bp where b: "b = (bn, bp)" by (cases b)
  obtain table errs where st: "state = (table, errs)" by (cases state)
  let ?w = "active_bots ! (i mod length active_bots)"
  from assms(1) have w: "?w \<in> set active_bots" by simp
  show ?case
  proof (cases "open_session srv bn")
    case (Some e)
    have "snd state \<noteq> [] \<or> failed @ [BatchFailed bn e] \<noteq> []" by simp
    from run_post_batches_keeps_errors [OF this] Some show ?thesis by (simp add: b Let_def)
  next
    case None
    show ?thesis
    proof (cases "b = (batch_name, batch_posts)")
      case True
      with b have eq: "bn = batch_name" "bp = batch_posts" by simp_all
      from assms(4) w have
        "\<forall>table. \<exists>err. scrape_one_post srv tmpl table ?w batch_name scan_id url post = Failed err"
        by blast
      from sync_scrape_post_records_failure [OF assms(3) this]
      have "snd (sync_scrape_post srv tmpl ?w batch_name scan_id url batch_posts (table, errs)) \<noteq> []" .
      then have "snd (sync_scrape_post srv tmpl ?w bn scan_id url bp state) \<noteq> [] \<or> failed \<noteq> []"
        by (simp add: eq st)
      from run_post_batches_keeps_errors [OF this] None show ?thesis by (simp add: b Let_def)
    next
      case False
      with Cons.prems have "(batch_name, batch_posts) \<in> set post_batches" by simp
      from Cons.IH [OF this] None show ?thesis by (simp add: b Let_def)
    qed
  qed
qed

lemma scrape_one_post_timestamp_mismatch:
  assumes "scrape_post_details srv worker (full_url_of url (fst post)) \<noteq> []"
    and "loads_scraped srv (scrape_post_details srv worker (full_url_of url (fst post))) = Inr scraped"
    and "map_of scraped ''error'' = None"
    and "map_of scraped ''title'' = Some t" and "map_of scraped ''content'' = Some c"
    and "map_of scraped ''author'' = Some a" and "map_of scraped ''timestamp'' = Some ts"
    and "ts \<noteq> snd post"
  shows "scrape_one_post srv tmpl table worker batch_name scan_id url post
         = Failed (TimestampMismatch (full_url_of url (fst post)) (snd post) ts)"
  using assms by (simp add: scrape_one_post_def Let_def)

lemma run_services_open_session: "open_session (run_services scraped detector) b = None"
  by (simp add: run_services_def)

lemma scrape_one_post_mismatch_example:
  "scrape_one_post (run_services (scraped_vpn ''2025-07-01 10:01'') (\<lambda>s. Inr ''en'')) tmpl table worker
     batch_name scan_id ''http://forum.onion/'' (''/post/marketplace/1'', ''2025-07-01 10:00'')
   = Failed (TimestampMismatch ''http://forum.onion/post/marketplace/1'' ''2025-07-01 10:00''
       ''2025-07-01 10:01'')"
  by (simp add: scrape_one_post_def full_url_example run_services_def scraped_vpn_def Let_def)

subsection \<open>Language detection and translation\<close>

lemma translate_post_english:
  "translate_post srv full_url (''en'', ''en'') title_text content_text
   = Inr (untranslated title_text, untranslated content_text)"
  by (simp add: translate_post_def)

lemma translate_post_other:
  assumes "langs \<noteq> (''en'', ''en'')"
  shows "translate_post srv full_url langs title_text content_text
   = (case translate_string srv title_text of
        Inl e \<Rightarrow>
          Inl (if e = JSONDecodeError then TranslationJSONError full_url ''title''
               else ProcessingError full_url e)
      | Inr title_trans \<Rightarrow>
          (case translate_string srv content_text of
             Inl e \<Rightarrow>
               Inl (if e = JSONDecodeError then TranslationJSONError full_url ''content''
                    else ProcessingError full_url e)
           | Inr content_trans \<Rightarrow> Inr (title_trans, content_trans)))"
proof -
  from assms have "\<not> (fst langs = ''en'' \<and> snd langs = ''en'')" by (cases langs) simp
  then show ?thesis unfolding translate_post_def by (simp only: if_False)
qed

text \<open>
  Claim C8, as the code has it.  A blank title or content is taken as \<^verbatim>\<open>'en'\<close>
  and the detector is not asked; a text that is not blank gets the language that
  the detector returns; when the detector raises for a text that is not blank,
  both languages are \<^verbatim>\<open>'unknown'\<close>.  Translation is skipped exactly when both
  languages are \<^verbatim>\<open>'en'\<close>: then the item is marked as not translated and its
  original text and translated text are the same text.  For any other pair of
  languages (\<^verbatim>\<open>'unknown'\<close> among them) the translation service is called for the
  title and then for the content.
\<close>

theorem detect_languages_blank_is_english:
  "(strip title_text = [] \<and> strip content_text = [] \<longrightarrow>
      detect_languages detector title_text content_text = (''en'', ''en'')) \<and>
   (strip title_text = [] \<and> strip content_text \<noteq> [] \<and> detector content_text = Inr content_lang \<longrightarrow>
      detect_languages detector title_text content_text = (''en'', content_lang)) \<and>
   (strip title_text \<noteq> [] \<and> detector title_text = Inr title_lang \<and> strip content_text = [] \<longrightarrow>
      detect_languages detector title_text content_text = (title_lang, ''en'')) \<and>
   (strip title_text \<noteq> [] \<and> detector title_text = Inr title_lang \<and>
    strip content_text \<noteq> [] \<and> detector content_text = Inr content_lang \<longrightarrow>
      detect_languages detector title_text content_text = (title_lang, content_lang)) \<and>
   (strip title_text \<noteq> [] \<and> detector title_text = Inl e1 \<longrightarrow>
      detect_languages detector title_text content_text = (''unknown'', ''unknown'')) \<and>
   (strip content_text \<noteq> [] \<and> detector content_text = Inl e2 \<longrightarrow>
      detect_languages detector title_text content_text = (''unknown'', ''unknown'')) \<and>
   translate_post srv full_url (''en'', ''en'') title_text content_text
     = Inr (untranslated title_text, untranslated content_text) \<and>
   translated_flag (untranslated content_text) = False \<and>
   original_text_of (untranslated content_text) = content_text \<and>
   translated_text_of (untranslated content_text) = Some content_text \<and>
   (langs \<noteq> (''en'', ''en'') \<longrightarrow>
      translate_post srv full_url langs title_text content_text
        = (case translate_string srv title_text of
             Inl e \<Rightarrow>
               Inl (if e = JSONDecodeError then TranslationJSONError full_url ''title''
                    else ProcessingError full_url e)
           | Inr title_trans \<Rightarrow>
               (case translate_string srv content_text of
                  Inl e \<Rightarrow>
                    Inl (if e = JSONDecodeError then TranslationJSONError full_url ''content''
                         else ProcessingError full_url e)
                | Inr content_trans \<Rightarrow> Inr (title_trans, content_trans))))"
proof (intro conjI impI)
  show "translate_post srv full_url (''en'', ''en'') title_text content_text
     = Inr (untranslated title_text, untranslated content_text)"
    by (rule translate_post_english)
next
  assume "langs \<noteq> (''en'', ''en'')"
  then show "translate_post srv full_url langs title_text content_text
        = (case translate_string srv title_text of
             Inl e \<Rightarrow>
               Inl (if e = JSONDecodeError then TranslationJSONError full_url ''title''
                    else ProcessingError full_url e)
           | Inr title_trans \<Rightarrow>
               (case translate_string srv content_text of
                  Inl e \<Rightarrow>
                    Inl (if e = JSONDecodeError then TranslationJSONError full_url ''content''
                         else ProcessingError full_url e)
                | Inr content_trans \<Rightarrow> Inr (title_trans, content_trans)))"
    by (rule translate_post_other)
next
  assume "strip content_text \<noteq> [] \<and> detector content_text = Inl e2"
  then show "detect_languages detector title_text content_text = (''unknown'', ''unknown'')"
    by (simp add: detect_languages_def split: sum.split)
qed (simp_all add: detect_languages_def untranslated_def)

theorem detect_languages_blank_is_english_witness:
  "detect_languages (\<lambda>s. Inl OtherError) ''Zugang'' ''Verkaufe Zugang'' = (''unknown'', ''unknown'') \<and>
   detect_languages (\<lambda>s. if s = ''Zugang'' then Inr ''de'' else Inl OtherError)
     ''Zugang'' ''Verkaufe Zugang'' = (''unknown'', ''unknown'') \<and>
   detect_languages (\<lambda>s. Inr ''de'') ''   '' ''Verkaufe Zugang'' = (''en'', ''de'') \<and>
   detect_languages (\<lambda>s. Inr ''de'') ''Zugang'' ''   '' = (''de'', ''en'') \<and>
   detect_languages (\<lambda>s. Inr ''en'') ''VPN access'' ''Selling VPN access'' = (''en'', ''en'') \<and>
   detect_languages (\<lambda>s. Inl OtherError) ''   '' '''' = (''en'', ''en'') \<and>
   translate_post (run_services [] (\<lambda>s. Inl OtherError)) ''http://forum.onion/post/marketplace/1''
     (''unknown'', ''unknown'') ''Zugang'' ''Verkaufe Zugang''
   = Inr (\<lparr>original_text_of = ''Zugang'', original_language_of = Some ''DE'',
           translated_text_of = Some ''EN: Zugang'', translated_language_of = Some ''EN'',
           translated_flag = True\<rparr>,
          \<lparr>original_text_of = ''Verkaufe Zugang'', original_language_of = Some ''DE'',
           translated_text_of = Some ''EN: Verkaufe Zugang'', translated_language_of = Some ''EN'',
           translated_flag = True\<rparr>)"
proof -
  have s: "strip ''Zugang'' \<noteq> []" "strip ''Verkaufe Zugang'' \<noteq> []" "strip ''   '' = []"
    "strip '''' = []" "strip ''VPN access'' \<noteq> []" "strip ''Selling VPN access'' \<noteq> []"
    by (simp_all add: strip_def is_space_def)
  have u: "(''unknown'', ''unknown'') \<noteq> (''en'', ''en'')" by simp
  note t = detect_languages_blank_is_english
  have "detect_languages (\<lambda>s. Inl OtherError) ''Zugang'' ''Verkaufe Zugang'' = (''unknown'', ''unknown'')"
    using s t [where detector = "\<lambda>s. Inl OtherError" and title_text = "''Zugang''"
        and content_text = "''Verkaufe Zugang''" and ?e1.0 = OtherError]
    by blast
  moreover have "detect_languages (\<lambda>s. if s = ''Zugang'' then Inr ''de'' else Inl OtherError)
     ''Zugang'' ''Verkaufe Zugang'' = (''unknown'', ''unknown'')"
    using s t [where detector = "\<lambda>s. if s = ''Zugang'' then Inr ''de'' else Inl OtherError"
        and title_text = "''Zugang''" and content_text = "''Verkaufe Zugang''" and ?e2.0 = OtherError]
    by simp
  moreover have "detect_languages (\<lambda>s. Inr ''de'') ''   '' ''Verkaufe Zugang'' = (''en'', ''de'')"
    using s t [where detector = "\<lambda>s. Inr ''de''" and title_text = "''   ''"
        and content_text = "''Verkaufe Zugang''" and content_lang = "''de''"]
    by blast
  moreover have "detect_languages (\<lambda>s. Inr ''de'') ''Zugang'' ''   '' = (''de'', ''en'')"
    using s t [where detector = "\<lambda>s. Inr ''de''" and title_text = "''Zugang''"
        and content_text = "''   ''" and title_lang = "''de''"]
    by blast
  moreover have "detect_languages (\<lambda>s. Inr ''en'') ''VPN access'' ''Selling VPN access'' = (''en'', ''en'')"
    using s t [where detector = "\<lambda>s. Inr ''en''" and title_text = "''VPN access''"
        and content_text = "''Selling VPN access''" and title_lang = "''en''" and content_lang = "''en''"]
    by blast
  moreover have "detect_languages (\<lambda>s. Inl OtherError) ''   '' '''' = (''en'', ''en'')"
    using s t [where detector = "\<lambda>s. Inl OtherError" and title_text = "''   ''"
        and content_text = "''''"]
    by blast
  moreover have "translate_post (run_services [] (\<lambda>s. Inl OtherError))
     ''http://forum.onion/post/marketplace/1'' (''unknown'', ''unknown'') ''Zugang'' ''Verkaufe Zugang''
   = Inr (\<lparr>original_text_of = ''Zugang'', original_language_of = Some ''DE'',
           translated_text_of = Some ''EN: Zugang'', translated_language_of = Some ''EN'',
           translated_flag = True\<rparr>,
          \<lparr>original_text_of = ''Verkaufe Zugang'', original_language_of = Some ''DE'',
           translated_text_of = Some ''EN: Verkaufe Zugang'', translated_language_of = Some ''EN'',
           translated_flag = True\<rparr>)"
    using u t [where langs = "(''unknown'', ''unknown'')"
        and srv = "run_services [] (\<lambda>s. Inl OtherError)"
        and full_url = "''http://forum.onion/post/marketplace/1''"
        and title_text = "''Zugang''" and content_text = "''Verkaufe Zugang''"]
    by (simp add: run_services_def)
  ultimately show ?thesis by blast
qed

text \<open>
  Claim C8 as the spec words it (a blank text gives the language
  \<^verbatim>\<open>'unknown'\<close>, which forces translation) fails: for a blank title and an empty
  content both languages are \<^verbatim>\<open>'en'\<close>, also with a detector that always raises,
  and the translation is skipped.
\<close>

theorem blank_text_is_english_counterexample:
  "detect_languages (\<lambda>s. Inl OtherError) ''   '' '''' = (''en'', ''en'') \<and>
   translate_post (run_services [] (\<lambda>s. Inl OtherError)) ''http://forum.onion/post/marketplace/1''
     (detect_languages (\<lambda>s. Inl OtherError) ''   '' '''') ''   '' ''''
   = Inr (untranslated ''   '', untranslated '''') \<and>
   translated_flag (untranslated '''') = False"
  by (simp add: detect_languages_def strip_def is_space_def translate_post_def untranslated_def)

subsection \<open>Failures of a post in a post-detail scan\<close>

lemma scrape_one_post_no_data:
  "scrape_post_details srv worker (full_url_of url (fst post)) = [] \<Longrightarrow>
   scrape_one_post srv tmpl table worker batch_name scan_id url post
     = Failed (NoData (full_url_of url (fst post)))"
  by (simp add: scrape_one_post_def Let_def)

lemma scrape_one_post_unreadable:
  "scrape_post_details srv worker (full_url_of url (fst post)) \<noteq> [] \<Longrightarrow>
   loads_scraped srv (scrape_post_details srv worker (full_url_of url (fst post))) = Inl e \<Longrightarrow>
   scrape_one_post srv tmpl table worker batch_name scan_id url post
     = Failed (if e = JSONDecodeError then JSONParseError (full_url_of url (fst post))
               else ProcessingError (full_url_of url (fst post)) e)"
  by (simp add: scrape_one_post_def Let_def)

lemma scrape_one_post_scraper_error:
  "scrape_post_details srv worker (full_url_of url (fst post)) \<noteq> [] \<Longrightarrow>
   loads_scraped srv (scrape_post_details srv worker (full_url_of url (fst post))) = Inr scraped \<Longrightarrow>
   map_of scraped ''error'' = Some msg \<Longrightarrow>
   scrape_one_post srv tmpl table worker batch_name scan_id url post
     = Failed (ScrapingError (full_url_of url (fst post)) msg)"
  by (simp add: scrape_one_post_def Let_def)

lemma scrape_one_post_incomplete:
  "scrape_post_details srv worker (full_url_of url (fst post)) \<noteq> [] \<Longrightarrow>
   loads_scraped srv (scrape_post_details srv worker (full_url_of url (fst post))) = Inr scraped \<Longrightarrow>
   map_of scraped ''error'' = None \<Longrightarrow>
   map_of scraped ''title'' = None \<or> map_of scraped ''content'' = None \<or>
   map_of scraped ''author'' = None \<or> map_of scraped ''timestamp'' = None \<Longrightarrow>
   scrape_one_post srv tmpl table worker batch_name scan_id url post
     = Failed (IncompleteData (full_url_of url (fst post)))"
  by (auto simp: scrape_one_post_def Let_def split: option.splits)

lemma scrape_one_post_enriches:
  "scrape_post_details srv worker (full_url_of url (fst post)) \<noteq> [] \<Longrightarrow>
   loads_scraped srv (scrape_post_details srv worker (full_url_of url (fst post))) = Inr scraped \<Longrightarrow>
   map_of scraped ''error'' = None \<Longrightarrow>
   map_of scraped ''title'' = Some t \<Longrightarrow> map_of scraped ''content'' = Some c \<Longrightarrow>
   map_of scraped ''author'' = Some a \<Longrightarrow> map_of scraped ''timestamp'' = Some (snd post) \<Longrightarrow>
   scrape_one_post srv tmpl table worker batch_name scan_id url post
     = enrich_post srv tmpl table batch_name scan_id (full_url_of url (fst post)) t c a (snd post)"
  by (simp add: scrape_one_post_def Let_def)

lemma enrich_post_translation_unreadable:
  "translate_post srv full_url
     (detect_languages (detect srv) (ascii_ignore (normalize_nfkc srv raw_title))
        (ascii_ignore (normalize_nfkc srv raw_content)))
     (ascii_ignore (normalize_nfkc srv raw_title)) (ascii_ignore (normalize_nfkc srv raw_content))
     = Inl terr \<Longrightarrow>
   enrich_post srv tmpl table batch_name scan_id full_url raw_title raw_content a ts = Failed terr"
  by (simp add: enrich_post_def Let_def)

lemma enrich_post_classification_unreadable:
  "translate_post srv full_url
     (detect_languages (detect srv) (ascii_ignore (normalize_nfkc srv raw_title))
        (ascii_ignore (normalize_nfkc srv raw_content)))
     (ascii_ignore (normalize_nfkc srv raw_title)) (ascii_ignore (normalize_nfkc srv raw_content))
     = Inr (title_trans, content_trans) \<Longrightarrow>
   iab_classify srv (replace_placeholder tmpl (prompt_text content_trans)) = Inl e \<Longrightarrow>
   enrich_post srv tmpl table batch_name scan_id full_url raw_title raw_content a ts
     = Failed (if e = JSONDecodeError then IABJSONError full_url else ProcessingError full_url e)"
  by (simp add: enrich_post_def Let_def)

lemma translate_post_langs:
  "langs \<noteq> (''en'', ''en'') \<Longrightarrow> langs' \<noteq> (''en'', ''en'') \<Longrightarrow>
   translate_post srv full_url langs title_text content_text
     = translate_post srv full_url langs' title_text content_text"
  by (simp add: translate_post_other)

lemma translate_post_detect_update:
  "translate_post (srv\<lparr>detect := d\<rparr>) full_url langs title_text content_text
     = translate_post srv full_url langs title_text content_text"
  by (simp add: translate_post_def split: sum.split)

lemma detect_languages_raised:
  assumes "(strip title_text \<noteq> [] \<and> detector title_text = Inl e1) \<or>
           (strip content_text \<noteq> [] \<and> detector content_text = Inl e2)"
  shows "detect_languages detector title_text content_text = (''unknown'', ''unknown'')"
  using assms by (auto simp: detect_languages_def split: sum.splits)

lemma detect_languages_unknown_detector:
  assumes "strip title_text \<noteq> [] \<or> strip content_text \<noteq> []"
  shows "detect_languages (\<lambda>s. Inr ''unknown'') title_text content_text \<noteq> (''en'', ''en'')"
  using assms by (auto simp: detect_languages_def)

text \<open>A detector that raises is not told apart from a detector that answers \<^verbatim>\<open>'unknown'\<close>.\<close>

lemma enrich_post_detector_raised:
  assumes "(strip (ascii_ignore (normalize_nfkc srv raw_title)) \<noteq> [] \<and>
            detect srv (ascii_ignore (normalize_nfkc srv raw_title)) = Inl e1) \<or>
           (strip (ascii_ignore (normalize_nfkc srv raw_content)) \<noteq> [] \<and>
            detect srv (ascii_ignore (normalize_nfkc srv raw_content)) = Inl e2)"
  shows "enrich_post srv tmpl table batch_name scan_id full_url raw_title raw_content a ts
         = enrich_post (srv\<lparr>detect := (\<lambda>s. Inr ''unknown'')\<rparr>) tmpl table batch_name scan_id full_url
             raw_title raw_content a ts"
proof -
  let ?T = "ascii_ignore (normalize_nfkc srv raw_title)"
  let ?C = "ascii_ignore (normalize_nfkc srv raw_content)"
  from assms have l: "detect_languages (detect srv) ?T ?C = (''unknown'', ''unknown'')"
    by (rule detect_languages_raised)
  from assms have "strip ?T \<noteq> [] \<or> strip ?C \<noteq> []" by blast
  then have l': "detect_languages (\<lambda>s. Inr ''unknown'') ?T ?C \<noteq> (''en'', ''en'')"
    by (rule detect_languages_unknown_detector)
  have u: "(''unknown'', ''unknown'') \<noteq> (''en'', ''en'')" by simp
  have "translate_post srv full_url (detect_languages (detect srv) ?T ?C) ?T ?C
      = translate_post srv full_url (detect_languages (\<lambda>s. Inr ''unknown'') ?T ?C) ?T ?C"
    unfolding l by (rule translate_post_langs [OF u l'])
  then show ?thesis
    by (simp add: enrich_post_def Let_def translate_post_detect_update split: sum.split prod.split)
qed

text \<open>
  The answer of \<^verbatim>\<open>translate_string\<close> after an exception of the translation
  service is taken like any other answer: the original text goes to the
  classification.
\<close>

lemma prompt_text_error_answer: "prompt_text (translate_string_answer s target (Inl e)) = s"
  by (simp add: prompt_text_def translate_string_answer_def)

lemma enrich_post_translation_error_answer:
  assumes "detect_languages (detect srv) (ascii_ignore (normalize_nfkc srv raw_title))
             (ascii_ignore (normalize_nfkc srv raw_content)) \<noteq> (''en'', ''en'')"
    and "translate_string srv (ascii_ignore (normalize_nfkc srv raw_title))
           = Inr (translate_string_answer (ascii_ignore (normalize_nfkc srv raw_title)) ''EN'' (Inl e1))"
    and "translate_string srv (ascii_ignore (normalize_nfkc srv raw_content))
           = Inr (translate_string_answer (ascii_ignore (normalize_nfkc srv raw_content)) ''EN'' (Inl e2))"
    and "iab_classify srv (replace_placeholder tmpl (ascii_ignore (normalize_nfkc srv raw_content)))
           = Inr iab"
  shows "enrich_post srv tmpl table batch_name scan_id full_url raw_title raw_content a ts
         = insert_details table full_url
             \<lparr>details_scan_ref = scan_id, details_batch_name = batch_name,
              details_title = ascii_ignore (normalize_nfkc srv raw_title),
              details_content = ascii_ignore (normalize_nfkc srv raw_content),
              details_timestamp = ts, details_author = a, details_link = full_url,
              original_language = None,
              original_text = Some (ascii_ignore (normalize_nfkc srv raw_content)),
              translated_language = None, translated_text = None, is_translated = False,
              sentiment = iab_sentiment iab, positive_score = iab_positive iab,
              negative_score = iab_negative iab, neutral_score = iab_neutral iab\<rparr>"
  using assms
  by (simp add: enrich_post_def Let_def translate_post_other prompt_text_error_answer)
     (simp add: translate_string_answer_def)

lemma insert_details_duplicate:
  "first (\<lambda>r. details_scan_ref r = details_scan_ref row \<and>
              details_timestamp r = details_timestamp row \<and>
              details_batch_name r = details_batch_name row) table \<noteq> None \<Longrightarrow>
   insert_details table full_url row = Duplicate"
  by (simp add: insert_details_def)

lemma sync_scrape_post_duplicate:
  "scrape_one_post srv tmpl table worker batch_name scan_id url post = Duplicate \<Longrightarrow>
   sync_scrape_post srv tmpl worker batch_name scan_id url (post # batch_posts) (table, scan_errors)
     = sync_scrape_post srv tmpl worker batch_name scan_id url batch_posts (table, scan_errors)"
  by simp

lemma ascii_vpn: "ascii_ignore ''VPN access'' = ''VPN access''"
  "ascii_ignore ''Selling VPN access'' = ''Selling VPN access''"
  by (simp_all add: ascii_ignore_def)

lemma strip_vpn: "strip ''VPN access'' \<noteq> []" "strip ''Selling VPN access'' \<noteq> []"
  by (simp_all add: strip_def is_space_def)

lemma outage_services_sel:
  "open_session (outage_services scraped) b = None"
  "scrape_post_details (outage_services scraped) w u = ''<post json>''"
  "loads_scraped (outage_services scraped) ''<post json>'' = Inr scraped"
  "normalize_nfkc (outage_services scraped) s = s"
  "detect (outage_services scraped) s = Inl OtherError"
  "translate_string (outage_services scraped) s
     = Inr (translate_string_answer s ''EN'' (Inl RequestException))"
  "iab_classify (outage_services scraped) p
     = Inr \<lparr>iab_classification = Some ''Positive'', iab_sentiment = None,
            iab_positive = Some ''0.7'', iab_negative = Some ''0.1'', iab_neutral = Some ''0.2''\<rparr>"
  by (simp_all add: outage_services_def run_services_def)

text \<open>
  Claim C4, as the code has it.  A failure that ends the processing of a post is
  appended to \<^verbatim>\<open>scan_errors\<close> and the loop goes to the next post: no data from
  the scraper, scraper output that cannot be read, an error reported by the
  scraper, a missing field, a timestamp that differs from the listed one, an
  answer of the translation or of the classification service that cannot be
  read.  Two failures do not end the processing and add no entry: when the
  language detector raises, the post is processed as with a detector that
  answers \<^verbatim>\<open>'unknown'\<close>; when the translation service fails inside
  \<^verbatim>\<open>translate_string\<close>, the original text is classified and goes to the
  insertion without a translation.  A post whose row is already stored is
  skipped and adds no entry.  The failure of one post surfaces to the terminal
  status: a scan in which some post of some batch fails ends \<open>STOPPED\<close> with
  the completion date set, and in general the scan ends \<open>STOPPED\<close> when
  \<^verbatim>\<open>scan_errors\<close> has an entry and \<open>COMPLETED\<close> when it has none.
\<close>

theorem post_failures_stop_the_scan:
  "(scrape_one_post srv tmpl table worker batch_name scan_id url post = Failed err \<longrightarrow>
      sync_scrape_post srv tmpl worker batch_name scan_id url (post # batch_posts) (table, scan_errors)
        = sync_scrape_post srv tmpl worker batch_name scan_id url batch_posts
            (table, scan_errors @ [err])) \<and>
   (scrape_post_details srv worker (full_url_of url (fst post)) = [] \<longrightarrow>
      scrape_one_post srv tmpl table worker batch_name scan_id url post
        = Failed (NoData (full_url_of url (fst post)))) \<and>
   (scrape_post_details srv worker (full_url_of url (fst post)) \<noteq> [] \<and>
    loads_scraped srv (scrape_post_details srv worker (full_url_of url (fst post))) = Inl e \<longrightarrow>
      scrape_one_post srv tmpl table worker batch_name scan_id url post
        = Failed (if e = JSONDecodeError then JSONParseError (full_url_of url (fst post))
                  else ProcessingError (full_url_of url (fst post)) e)) \<and>
   (scrape_post_details srv worker (full_url_of url (fst post)) \<noteq> [] \<and>
    loads_scraped srv (scrape_post_details srv worker (full_url_of url (fst post))) = Inr scraped \<and>
    map_of scraped ''error'' = Some msg \<longrightarrow>
      scrape_one_post srv tmpl table worker batch_name scan_id url post
        = Failed (ScrapingError (full_url_of url (fst post)) msg)) \<and>
   (scrape_post_details srv worker (full_url_of url (fst post)) \<noteq> [] \<and>
    loads_scraped srv (scrape_post_details srv worker (full_url_of url (fst post))) = Inr scraped \<and>
    map_of scraped ''error'' = None \<and>
    (map_of scraped ''title'' = None \<or> map_of scraped ''content'' = None \<or>
     map_of scraped ''author'' = None \<or> map_of scraped ''timestamp'' = None) \<longrightarrow>
      scrape_one_post srv tmpl table worker batch_name scan_id url post
        = Failed (IncompleteData (full_url_of url (fst post)))) \<and>
   (scrape_post_details srv worker (full_url_of url (fst post)) \<noteq> [] \<and>
    loads_scraped srv (scrape_post_details srv worker (full_url_of url (fst post))) = Inr scraped \<and>
    map_of scraped ''error'' = None \<and>
    map_of scraped ''title'' = Some t \<and> map_of scraped ''content'' = Some c \<and>
    map_of scraped ''author'' = Some a \<and> map_of scraped ''timestamp'' = Some ts \<and>
    ts \<noteq> snd post \<longrightarrow>
      scrape_one_post srv tmpl table worker batch_name scan_id url post
        = Failed (TimestampMismatch (full_url_of url (fst post)) (snd post) ts)) \<and>
   (translate_post srv page_url
      (detect_languages (detect srv) (ascii_ignore (normalize_nfkc srv raw_title))
         (ascii_ignore (normalize_nfkc srv raw_content)))
      (ascii_ignore (normalize_nfkc srv raw_title)) (ascii_ignore (normalize_nfkc srv raw_content))
      = Inl terr \<longrightarrow>
      enrich_post srv tmpl table batch_name scan_id page_url raw_title raw_content writer stamp
        = Failed terr) \<and>
   (translate_post srv page_url
      (detect_languages (detect srv) (ascii_ignore (normalize_nfkc srv raw_title))
         (ascii_ignore (normalize_nfkc srv raw_content)))
      (ascii_ignore (normalize_nfkc srv raw_title)) (ascii_ignore (normalize_nfkc srv raw_content))
      = Inr (title_trans, content_trans) \<and>
    iab_classify srv (replace_placeholder tmpl (prompt_text content_trans)) = Inl iab_exn \<longrightarrow>
      enrich_post srv tmpl table batch_name scan_id page_url raw_title raw_content writer stamp
        = Failed (if iab_exn = JSONDecodeError then IABJSONError page_url
                  else ProcessingError page_url iab_exn)) \<and>
   ((strip (ascii_ignore (normalize_nfkc srv raw_title)) \<noteq> [] \<and>
     detect srv (ascii_ignore (normalize_nfkc srv raw_title)) = Inl title_exn) \<or>
    (strip (ascii_ignore (normalize_nfkc srv raw_content)) \<noteq> [] \<and>
     detect srv (ascii_ignore (normalize_nfkc srv raw_content)) = Inl content_exn) \<longrightarrow>
      enrich_post srv tmpl table batch_name scan_id page_url raw_title raw_content writer stamp
        = enrich_post (srv\<lparr>detect := (\<lambda>s. Inr ''unknown'')\<rparr>) tmpl table batch_name scan_id page_url
            raw_title raw_content writer stamp) \<and>
   (detect_languages (detect srv) (ascii_ignore (normalize_nfkc srv raw_title))
      (ascii_ignore (normalize_nfkc srv raw_content)) \<noteq> (''en'', ''en'') \<and>
    translate_string srv (ascii_ignore (normalize_nfkc srv raw_title))
      = Inr (translate_string_answer (ascii_ignore (normalize_nfkc srv raw_title)) ''EN'' (Inl title_exn)) \<and>
    translate_string srv (ascii_ignore (normalize_nfkc srv raw_content))
      = Inr (translate_string_answer (ascii_ignore (normalize_nfkc srv raw_content)) ''EN'' (Inl content_exn)) \<and>
    iab_classify srv (replace_placeholder tmpl (ascii_ignore (normalize_nfkc srv raw_content)))
      = Inr iab \<longrightarrow>
      enrich_post srv tmpl table batch_name scan_id page_url raw_title raw_content writer stamp
        = insert_details table page_url
            \<lparr>details_scan_ref = scan_id, details_batch_name = batch_name,
             details_title = ascii_ignore (normalize_nfkc srv raw_title),
             details_content = ascii_ignore (normalize_nfkc srv raw_content),
             details_timestamp = stamp, details_author = writer, details_link = page_url,
             original_language = None,
             original_text = Some (ascii_ignore (normalize_nfkc srv raw_content)),
             translated_language = None, translated_text = None, is_translated = False,
             sentiment = iab_sentiment iab, positive_score = iab_positive iab,
             negative_score = iab_negative iab, neutral_score = iab_neutral iab\<rparr>) \<and>
   (first (\<lambda>r. details_scan_ref r = details_scan_ref row \<and>
               details_timestamp r = details_timestamp row \<and>
               details_batch_name r = details_batch_name row) table \<noteq> None \<longrightarrow>
      insert_details table page_url row = Duplicate) \<and>
   (scrape_one_post srv tmpl table worker batch_name scan_id url post = Duplicate \<longrightarrow>
      sync_scrape_post srv tmpl worker batch_name scan_id url (post # batch_posts) (table, scan_errors)
        = sync_scrape_post srv tmpl worker batch_name scan_id url batch_posts (table, scan_errors)) \<and>
   (active_bots \<noteq> [] \<and> (batch_name, batch_posts) \<in> set post_batches \<and> post \<in> set batch_posts \<and>
    (\<forall>w\<in>set active_bots. \<forall>tb. \<exists>e.
       scrape_one_post srv tmpl tb w batch_name scan_id url post = Failed e) \<longrightarrow>
      snd (scrape_post_batches srv tmpl now scan_id url active_bots post_batches db) \<noteq> [] \<and>
      detail_scan_of (fst (scrape_post_batches srv tmpl now scan_id url active_bots post_batches db))
        scan_id
        = map_option (\<lambda>s. s\<lparr>detail_status := STOPPED, detail_completion_date := Some now\<rparr>)
            (detail_scan_of db scan_id)) \<and>
   (active_bots \<noteq> [] \<and>
    scrape_post_batches srv tmpl now scan_id url active_bots post_batches db = (db', errs) \<longrightarrow>
      detail_scan_of db' scan_id
        = map_option (\<lambda>s. s\<lparr>detail_status := (if errs \<noteq> [] then STOPPED else COMPLETED),
                              detail_completion_date := Some now\<rparr>)
            (detail_scan_of db scan_id))"
proof -
  have surfaces: "snd (scrape_post_batches srv tmpl now scan_id url active_bots post_batches db) \<noteq> [] \<and>
      detail_scan_of (fst (scrape_post_batches srv tmpl now scan_id url active_bots post_batches db))
        scan_id
        = map_option (\<lambda>s. s\<lparr>detail_status := STOPPED, detail_completion_date := Some now\<rparr>)
            (detail_scan_of db scan_id)"
    if a: "active_bots \<noteq> [] \<and> (batch_name, batch_posts) \<in> set post_batches \<and>
      post \<in> set batch_posts \<and>
      (\<forall>w\<in>set active_bots. \<forall>tb. \<exists>e.
         scrape_one_post srv tmpl tb w batch_name scan_id url post = Failed e)"
  proof -
    obtain db1 errs1 where r:
      "scrape_post_batches srv tmpl now scan_id url active_bots post_batches db = (db1, errs1)"
      by (cases "scrape_post_batches srv tmpl now scan_id url active_bots post_batches db")
    obtain tb1 es1 where rb:
      "run_post_batches srv tmpl active_bots scan_id url 0 post_batches
         (marketplace_post_details db, []) [] = (tb1, es1)"
      by (cases "run_post_batches srv tmpl active_bots scan_id url 0 post_batches
                   (marketplace_post_details db, []) []")
    from a have "snd (run_post_batches srv tmpl active_bots scan_id url 0 post_batches
                   (marketplace_post_details db, []) []) \<noteq> []"
      by (intro run_post_batches_records_failure
            [of active_bots batch_name batch_posts post_batches post]) simp_all
    with rb have "es1 \<noteq> []" by simp
    with a r rb have ne: "errs1 \<noteq> []" by (auto simp: scrape_post_batches_def)
    from a have "active_bots \<noteq> []" by simp
    from scrape_post_batches_status [OF this r] ne
    have "detail_scan_of db1 scan_id
          = map_option (\<lambda>s. s\<lparr>detail_status := STOPPED, detail_completion_date := Some now\<rparr>)
              (detail_scan_of db scan_id)" by simp
    with ne r show ?thesis by simp
  qed
  have status: "detail_scan_of db' scan_id
        = map_option (\<lambda>s. s\<lparr>detail_status := (if errs \<noteq> [] then STOPPED else COMPLETED),
                              detail_completion_date := Some now\<rparr>)
            (detail_scan_of db scan_id)"
    if "active_bots \<noteq> [] \<and>
      scrape_post_batches srv tmpl now scan_id url active_bots post_batches db = (db', errs)"
    using that
      scrape_post_batches_status [of active_bots srv tmpl now scan_id url post_batches db db' errs]
    by simp
  show ?thesis
    using surfaces status
    by (intro conjI impI)
       (simp_all add: scrape_one_post_no_data scrape_one_post_unreadable
          scrape_one_post_scraper_error scrape_one_post_incomplete
          scrape_one_post_timestamp_mismatch enrich_post_translation_unreadable
          enrich_post_classification_unreadable insert_details_duplicate
          enrich_post_detector_raised enrich_post_translation_error_answer)
qed

theorem post_failures_stop_the_scan_witness:
  "scrape_one_post (run_services (scraped_vpn ''2025-07-01 10:01'') (\<lambda>s. Inr ''en''))
     ''Classify: TARGET-POST-PLACEHOLDER'' [] (detail_bot (Some ''session=def'')) ''batch_001'' 7
     ''http://forum.onion/'' (''/post/marketplace/1'', ''2025-07-01 10:00'')
   = Failed (TimestampMismatch ''http://forum.onion/post/marketplace/1'' ''2025-07-01 10:00''
       ''2025-07-01 10:01'') \<and>
   sync_scrape_post (run_services (scraped_vpn ''2025-07-01 10:01'') (\<lambda>s. Inr ''en''))
     ''Classify: TARGET-POST-PLACEHOLDER'' (detail_bot (Some ''session=def'')) ''batch_001'' 7
     ''http://forum.onion/'' [(''/post/marketplace/1'', ''2025-07-01 10:00'')] ([], [])
   = ([], [TimestampMismatch ''http://forum.onion/post/marketplace/1'' ''2025-07-01 10:00''
             ''2025-07-01 10:01'']) \<and>
   detail_scan_of
     (fst (scrape_post_batches (run_services (scraped_vpn ''2025-07-01 10:01'') (\<lambda>s. Inr ''en''))
        ''Classify: TARGET-POST-PLACEHOLDER'' 500 7 ''http://forum.onion/''
        [detail_bot (Some ''session=def'')]
        [(''batch_001'', [(''/post/marketplace/1'', ''2025-07-01 10:00'')])]
        (detail_db [detail_bot (Some ''session=def'')] (detail_scan RUNNING None)))) 7
   = Some ((detail_scan STOPPED (Some 500))) \<and>
   scrape_one_post ((run_services (scraped_vpn ''2025-07-01 10:00'') (\<lambda>s. Inr ''en''))
       \<lparr>scrape_post_details := (\<lambda>w u. [])\<rparr>)
     ''Classify: TARGET-POST-PLACEHOLDER'' [] (detail_bot (Some ''session=def'')) ''batch_001'' 7
     ''http://forum.onion/'' (''/post/marketplace/1'', ''2025-07-01 10:00'')
   = Failed (NoData ''http://forum.onion/post/marketplace/1'') \<and>
   scrape_one_post ((run_services (scraped_vpn ''2025-07-01 10:00'') (\<lambda>s. Inr ''en''))
       \<lparr>loads_scraped := (\<lambda>s. Inl JSONDecodeError)\<rparr>)
     ''Classify: TARGET-POST-PLACEHOLDER'' [] (detail_bot (Some ''session=def'')) ''batch_001'' 7
     ''http://forum.onion/'' (''/post/marketplace/1'', ''2025-07-01 10:00'')
   = Failed (JSONParseError ''http://forum.onion/post/marketplace/1'') \<and>
   scrape_one_post (run_services [(''error'', ''Request failed'')] (\<lambda>s. Inr ''en''))
     ''Classify: TARGET-POST-PLACEHOLDER'' [] (detail_bot (Some ''session=def'')) ''batch_001'' 7
     ''http://forum.onion/'' (''/post/marketplace/1'', ''2025-07-01 10:00'')
   = Failed (ScrapingError ''http://forum.onion/post/marketplace/1'' ''Request failed'') \<and>
   scrape_one_post (run_services [(''title'', ''VPN access'')] (\<lambda>s. Inr ''en''))
     ''Classify: TARGET-POST-PLACEHOLDER'' [] (detail_bot (Some ''session=def'')) ''batch_001'' 7
     ''http://forum.onion/'' (''/post/marketplace/1'', ''2025-07-01 10:00'')
   = Failed (IncompleteData ''http://forum.onion/post/marketplace/1'') \<and>
   enrich_post ((run_services (scraped_vpn ''2025-07-01 10:00'') (\<lambda>s. Inr ''de''))
       \<lparr>translate_string := (\<lambda>s. Inl JSONDecodeError)\<rparr>)
     ''Classify: TARGET-POST-PLACEHOLDER'' [] ''batch_001'' 7 ''http://forum.onion/post/marketplace/1''
     ''VPN access'' ''Selling VPN access'' ''alice'' ''2025-07-01 10:00''
   = Failed (TranslationJSONError ''http://forum.onion/post/marketplace/1'' ''title'') \<and>
   enrich_post ((run_services (scraped_vpn ''2025-07-01 10:00'') (\<lambda>s. Inr ''en''))
       \<lparr>iab_classify := (\<lambda>p. Inl JSONDecodeError)\<rparr>)
     ''Classify: TARGET-POST-PLACEHOLDER'' [] ''batch_001'' 7 ''http://forum.onion/post/marketplace/1''
     ''VPN access'' ''Selling VPN access'' ''alice'' ''2025-07-01 10:00''
   = Failed (IABJSONError ''http://forum.onion/post/marketplace/1'') \<and>
   enrich_post (outage_services (scraped_vpn ''2025-07-01 10:00''))
     ''Classify: TARGET-POST-PLACEHOLDER'' [vpn_details] ''batch_001'' 7
     ''http://forum.onion/post/marketplace/1''
     ''VPN access'' ''Selling VPN access'' ''alice'' ''2025-07-01 10:00''
   = Duplicate \<and>
   enrich_post ((outage_services (scraped_vpn ''2025-07-01 10:00''))\<lparr>detect := (\<lambda>s. Inr ''unknown'')\<rparr>)
     ''Classify: TARGET-POST-PLACEHOLDER'' [vpn_details] ''batch_001'' 7
     ''http://forum.onion/post/marketplace/1''
     ''VPN access'' ''Selling VPN access'' ''alice'' ''2025-07-01 10:00''
   = Duplicate \<and>
   sync_scrape_post (outage_services (scraped_vpn ''2025-07-01 10:00''))
     ''Classify: TARGET-POST-PLACEHOLDER'' (detail_bot (Some ''session=def'')) ''batch_001'' 7
     ''http://forum.onion/'' [(''/post/marketplace/1'', ''2025-07-01 10:00'')] ([vpn_details], [])
   = ([vpn_details], []) \<and>
   snd (scrape_post_batches (outage_services (scraped_vpn ''2025-07-01 10:00''))
        ''Classify: TARGET-POST-PLACEHOLDER'' 500 7 ''http://forum.onion/''
        [detail_bot (Some ''session=def'')]
        [(''batch_001'', [(''/post/marketplace/1'', ''2025-07-01 10:00'')])]
        ((detail_db [detail_bot (Some ''session=def'')] (detail_scan RUNNING None))
           \<lparr>marketplace_post_details := [vpn_details]\<rparr>)) = [] \<and>
   detail_scan_of
     (fst (scrape_post_batches (outage_services (scraped_vpn ''2025-07-01 10:00''))
        ''Classify: TARGET-POST-PLACEHOLDER'' 500 7 ''http://forum.onion/''
        [detail_bot (Some ''session=def'')]
        [(''batch_001'', [(''/post/marketplace/1'', ''2025-07-01 10:00'')])]
        ((detail_db [detail_bot (Some ''session=def'')] (detail_scan RUNNING None))
           \<lparr>marketplace_post_details := [vpn_details]\<rparr>))) 7
   = Some (detail_scan COMPLETED (Some 500))"
proof -
  note t = post_failures_stop_the_scan
  have mismatch:
      "scrape_one_post (run_services (scraped_vpn ''2025-07-01 10:01'') (\<lambda>s. Inr ''en''))
         ''Classify: TARGET-POST-PLACEHOLDER'' [] (detail_bot (Some ''session=def'')) ''batch_001'' 7
         ''http://forum.onion/'' (''/post/marketplace/1'', ''2025-07-01 10:00'')
       = Failed (TimestampMismatch ''http://forum.onion/post/marketplace/1'' ''2025-07-01 10:00''
           ''2025-07-01 10:01'') \<and>
       sync_scrape_post (run_services (scraped_vpn ''2025-07-01 10:01'') (\<lambda>s. Inr ''en''))
         ''Classify: TARGET-POST-PLACEHOLDER'' (detail_bot (Some ''session=def'')) ''batch_001'' 7
         ''http://forum.onion/'' [(''/post/marketplace/1'', ''2025-07-01 10:00'')] ([], [])
       = ([], [TimestampMismatch ''http://forum.onion/post/marketplace/1'' ''2025-07-01 10:00''
                 ''2025-07-01 10:01'']) \<and>
       detail_scan_of
         (fst (scrape_post_batches (run_services (scraped_vpn ''2025-07-01 10:01'') (\<lambda>s. Inr ''en''))
            ''Classify: TARGET-POST-PLACEHOLDER'' 500 7 ''http://forum.onion/''
            [detail_bot (Some ''session=def'')]
            [(''batch_001'', [(''/post/marketplace/1'', ''2025-07-01 10:00'')])]
            (detail_db [detail_bot (Some ''session=def'')] (detail_scan RUNNING None)))) 7
       = Some ((detail_scan STOPPED (Some 500)))"
  proof -
    let ?srv = "run_services (scraped_vpn ''2025-07-01 10:01'') (\<lambda>s. Inr ''en'')"
    let ?tmpl = "''Classify: TARGET-POST-PLACEHOLDER''"
    let ?bot = "detail_bot (Some ''session=def'')"
    let ?post = "(''/post/marketplace/1'', ''2025-07-01 10:00'')"
    let ?db = "detail_db [?bot] (detail_scan RUNNING None)"
    let ?err = "TimestampMismatch ''http://forum.onion/post/marketplace/1'' ''2025-07-01 10:00''
         ''2025-07-01 10:01''"
    have m: "scrape_post_details ?srv ?bot (full_url_of ''http://forum.onion/'' (fst ?post)) \<noteq> [] \<and>
      loads_scraped ?srv (scrape_post_details ?srv ?bot (full_url_of ''http://forum.onion/'' (fst ?post)))
        = Inr (scraped_vpn ''2025-07-01 10:01'') \<and>
      map_of (scraped_vpn ''2025-07-01 10:01'') ''error'' = None \<and>
      map_of (scraped_vpn ''2025-07-01 10:01'') ''title'' = Some ''VPN access'' \<and>
      map_of (scraped_vpn ''2025-07-01 10:01'') ''content'' = Some ''Selling VPN access'' \<and>
      map_of (scraped_vpn ''2025-07-01 10:01'') ''author'' = Some ''alice'' \<and>
      map_of (scraped_vpn ''2025-07-01 10:01'') ''timestamp'' = Some ''2025-07-01 10:01'' \<and>
      ''2025-07-01 10:01'' \<noteq> snd ?post"
      by (simp add: run_services_def scraped_vpn_def)
    have one: "scrape_one_post ?srv ?tmpl [] ?bot ''batch_001'' 7 ''http://forum.onion/'' ?post
        = Failed ?err"
      using m t [where srv = ?srv and worker = ?bot and url = "''http://forum.onion/''" and post = ?post
          and scraped = "scraped_vpn ''2025-07-01 10:01''" and t = "''VPN access''"
          and c = "''Selling VPN access''" and a = "''alice''" and ts = "''2025-07-01 10:01''"
          and tmpl = ?tmpl and table = "[]" and batch_name = "''batch_001''" and scan_id = 7]
      by (simp add: full_url_example)
    have loop: "sync_scrape_post ?srv ?tmpl ?bot ''batch_001'' 7 ''http://forum.onion/'' [?post] ([], [])
        = ([], [?err])"
      using one t [where srv = ?srv and tmpl = ?tmpl and table = "[]" and worker = ?bot
          and batch_name = "''batch_001''" and scan_id = 7 and url = "''http://forum.onion/''"
          and post = ?post and err = ?err and batch_posts = "[]" and scan_errors = "[]"]
      by simp
    have h: "\<forall>w\<in>set [?bot]. \<forall>tb. \<exists>e.
         scrape_one_post ?srv ?tmpl tb w ''batch_001'' 7 ''http://forum.onion/'' ?post = Failed e"
      by (simp add: scrape_one_post_mismatch_example)
    have d: "detail_scan_of ?db 7 = Some (detail_scan RUNNING None)"
      by (simp add: detail_scan_of_def detail_db_def detail_scan_def first_Cons)
    have "detail_scan_of
       (fst (scrape_post_batches ?srv ?tmpl 500 7 ''http://forum.onion/'' [?bot]
          [(''batch_001'', [?post])] ?db)) 7
       = map_option (\<lambda>s. s\<lparr>detail_status := STOPPED, detail_completion_date := Some 500\<rparr>)
           (detail_scan_of ?db 7)"
      using h t [where srv = ?srv and tmpl = ?tmpl and active_bots = "[?bot]"
          and batch_name = "''batch_001''" and batch_posts = "[?post]"
          and post_batches = "[(''batch_001'', [?post])]" and post = ?post and scan_id = 7
          and url = "''http://forum.onion/''" and now = 500 and db = ?db]
      by simp
    then have x: "detail_scan_of
       (fst (scrape_post_batches ?srv ?tmpl 500 7 ''http://forum.onion/'' [?bot]
          [(''batch_001'', [?post])] ?db)) 7
       = map_option (\<lambda>s. s\<lparr>detail_status := STOPPED, detail_completion_date := Some 500\<rparr>)
           (Some (detail_scan RUNNING None))"
      by (simp only: d)
    have e: "map_option (\<lambda>s. s\<lparr>detail_status := STOPPED, detail_completion_date := Some 500\<rparr>)
           (Some (detail_scan RUNNING None)) = Some (detail_scan STOPPED (Some 500))"
      by (simp add: detail_scan_def)
    show ?thesis
      using x e one loop by simp
  qed
  have skipped:
      "scrape_one_post ((run_services (scraped_vpn ''2025-07-01 10:00'') (\<lambda>s. Inr ''en''))
           \<lparr>scrape_post_details := (\<lambda>w u. [])\<rparr>)
         ''Classify: TARGET-POST-PLACEHOLDER'' [] (detail_bot (Some ''session=def'')) ''batch_001'' 7
         ''http://forum.onion/'' (''/post/marketplace/1'', ''2025-07-01 10:00'')
       = Failed (NoData ''http://forum.onion/post/marketplace/1'') \<and>
       scrape_one_post ((run_services (scraped_vpn ''2025-07-01 10:00'') (\<lambda>s. Inr ''en''))
           \<lparr>loads_scraped := (\<lambda>s. Inl JSONDecodeError)\<rparr>)
         ''Classify: TARGET-POST-PLACEHOLDER'' [] (detail_bot (Some ''session=def'')) ''batch_001'' 7
         ''http://forum.onion/'' (''/post/marketplace/1'', ''2025-07-01 10:00'')
       = Failed (JSONParseError ''http://forum.onion/post/marketplace/1'') \<and>
       scrape_one_post (run_services [(''error'', ''Request failed'')] (\<lambda>s. Inr ''en''))
         ''Classify: TARGET-POST-PLACEHOLDER'' [] (detail_bot (Some ''session=def'')) ''batch_001'' 7
         ''http://forum.onion/'' (''/post/marketplace/1'', ''2025-07-01 10:00'')
       = Failed (ScrapingError ''http://forum.onion/post/marketplace/1'' ''Request failed'') \<and>
       scrape_one_post (run_services [(''title'', ''VPN access'')] (\<lambda>s. Inr ''en''))
         ''Classify: TARGET-POST-PLACEHOLDER'' [] (detail_bot (Some ''session=def'')) ''batch_001'' 7
         ''http://forum.onion/'' (''/post/marketplace/1'', ''2025-07-01 10:00'')
       = Failed (IncompleteData ''http://forum.onion/post/marketplace/1'')"
  proof -
    let ?ok = "run_services (scraped_vpn ''2025-07-01 10:00'') (\<lambda>s. Inr ''en'')"
    let ?tmpl = "''Classify: TARGET-POST-PLACEHOLDER''"
    let ?bot = "detail_bot (Some ''session=def'')"
    let ?post = "(''/post/marketplace/1'', ''2025-07-01 10:00'')"
    let ?url = "''http://forum.onion/''"
    have a: "scrape_one_post (?ok\<lparr>scrape_post_details := (\<lambda>w u. [])\<rparr>) ?tmpl [] ?bot ''batch_001'' 7
        ?url ?post = Failed (NoData ''http://forum.onion/post/marketplace/1'')"
      using t [where srv = "?ok\<lparr>scrape_post_details := (\<lambda>w u. [])\<rparr>" and worker = ?bot and url = ?url
          and post = ?post and tmpl = ?tmpl and table = "[]" and batch_name = "''batch_001''"
          and scan_id = 7]
      by (simp add: full_url_example)
    have b: "scrape_one_post (?ok\<lparr>loads_scraped := (\<lambda>s. Inl JSONDecodeError)\<rparr>) ?tmpl [] ?bot
        ''batch_001'' 7 ?url ?post = Failed (JSONParseError ''http://forum.onion/post/marketplace/1'')"
      using t [where srv = "?ok\<lparr>loads_scraped := (\<lambda>s. Inl JSONDecodeError)\<rparr>" and worker = ?bot
          and url = ?url and post = ?post and tmpl = ?tmpl and table = "[]"
          and batch_name = "''batch_001''" and scan_id = 7 and e = JSONDecodeError]
      by (simp add: full_url_example run_services_def)
    have c: "scrape_one_post (run_services [(''error'', ''Request failed'')] (\<lambda>s. Inr ''en'')) ?tmpl []
        ?bot ''batch_001'' 7 ?url ?post
        = Failed (ScrapingError ''http://forum.onion/post/marketplace/1'' ''Request failed'')"
      using t [where srv = "run_services [(''error'', ''Request failed'')] (\<lambda>s. Inr ''en'')"
          and worker = ?bot and url = ?url and post = ?post and tmpl = ?tmpl and table = "[]"
          and batch_name = "''batch_001''" and scan_id = 7
          and scraped = "[(''error'', ''Request failed'')]" and msg = "''Request failed''"]
      by (simp add: full_url_example run_services_def)
    have d: "scrape_one_post (run_services [(''title'', ''VPN access'')] (\<lambda>s. Inr ''en'')) ?tmpl []
        ?bot ''batch_001'' 7 ?url ?post
        = Failed (IncompleteData ''http://forum.onion/post/marketplace/1'')"
      using t [where srv = "run_services [(''title'', ''VPN access'')] (\<lambda>s. Inr ''en'')"
          and worker = ?bot and url = ?url and post = ?post and tmpl = ?tmpl and table = "[]"
          and batch_name = "''batch_001''" and scan_id = 7
          and scraped = "[(''title'', ''VPN access'')]"]
      by (simp add: full_url_example run_services_def)
    show ?thesis using a b c d by simp
  qed
  have unreadable_answer:
      "enrich_post ((run_services (scraped_vpn ''2025-07-01 10:00'') (\<lambda>s. Inr ''de''))
           \<lparr>translate_string := (\<lambda>s. Inl JSONDecodeError)\<rparr>)
         ''Classify: TARGET-POST-PLACEHOLDER'' [] ''batch_001'' 7 ''http://forum.onion/post/marketplace/1''
         ''VPN access'' ''Selling VPN access'' ''alice'' ''2025-07-01 10:00''
       = Failed (TranslationJSONError ''http://forum.onion/post/marketplace/1'' ''title'') \<and>
       enrich_post ((run_services (scraped_vpn ''2025-07-01 10:00'') (\<lambda>s. Inr ''en''))
           \<lparr>iab_classify := (\<lambda>p. Inl JSONDecodeError)\<rparr>)
         ''Classify: TARGET-POST-PLACEHOLDER'' [] ''batch_001'' 7 ''http://forum.onion/post/marketplace/1''
         ''VPN access'' ''Selling VPN access'' ''alice'' ''2025-07-01 10:00''
       = Failed (IABJSONError ''http://forum.onion/post/marketplace/1'')"
  proof -
    let ?tmpl = "''Classify: TARGET-POST-PLACEHOLDER''"
    let ?U = "''http://forum.onion/post/marketplace/1''"
    let ?de = "(run_services (scraped_vpn ''2025-07-01 10:00'') (\<lambda>s. Inr ''de''))
         \<lparr>translate_string := (\<lambda>s. Inl JSONDecodeError)\<rparr>"
    let ?en = "(run_services (scraped_vpn ''2025-07-01 10:00'') (\<lambda>s. Inr ''en''))
         \<lparr>iab_classify := (\<lambda>p. Inl JSONDecodeError)\<rparr>"
    have a: "enrich_post ?de ?tmpl [] ''batch_001'' 7 ?U ''VPN access'' ''Selling VPN access'' ''alice''
        ''2025-07-01 10:00'' = Failed (TranslationJSONError ?U ''title'')"
      using t [where srv = ?de and tmpl = ?tmpl and table = "[]" and batch_name = "''batch_001''"
          and scan_id = 7 and page_url = ?U and raw_title = "''VPN access''"
          and raw_content = "''Selling VPN access''" and writer = "''alice''"
          and stamp = "''2025-07-01 10:00''" and terr = "TranslationJSONError ?U ''title''"]
      by (simp add: run_services_def ascii_vpn strip_vpn detect_languages_def translate_post_def)
    have b: "enrich_post ?en ?tmpl [] ''batch_001'' 7 ?U ''VPN access'' ''Selling VPN access'' ''alice''
        ''2025-07-01 10:00'' = Failed (IABJSONError ?U)"
      using t [where srv = ?en and tmpl = ?tmpl and table = "[]" and batch_name = "''batch_001''"
          and scan_id = 7 and page_url = ?U and raw_title = "''VPN access''"
          and raw_content = "''Selling VPN access''" and writer = "''alice''"
          and stamp = "''2025-07-01 10:00''" and iab_exn = JSONDecodeError
          and title_trans = "untranslated ''VPN access''"
          and content_trans = "untranslated ''Selling VPN access''"]
      by (simp add: run_services_def ascii_vpn strip_vpn detect_languages_def translate_post_def)
    show ?thesis using a b by simp
  qed
  have absorbed:
      "enrich_post (outage_services (scraped_vpn ''2025-07-01 10:00''))
         ''Classify: TARGET-POST-PLACEHOLDER'' [vpn_details] ''batch_001'' 7
         ''http://forum.onion/post/marketplace/1''
         ''VPN access'' ''Selling VPN access'' ''alice'' ''2025-07-01 10:00''
       = Duplicate \<and>
       enrich_post ((outage_services (scraped_vpn ''2025-07-01 10:00''))\<lparr>detect := (\<lambda>s. Inr ''unknown'')\<rparr>)
         ''Classify: TARGET-POST-PLACEHOLDER'' [vpn_details] ''batch_001'' 7
         ''http://forum.onion/post/marketplace/1''
         ''VPN access'' ''Selling VPN access'' ''alice'' ''2025-07-01 10:00''
       = Duplicate \<and>
       sync_scrape_post (outage_services (scraped_vpn ''2025-07-01 10:00''))
         ''Classify: TARGET-POST-PLACEHOLDER'' (detail_bot (Some ''session=def'')) ''batch_001'' 7
         ''http://forum.onion/'' [(''/post/marketplace/1'', ''2025-07-01 10:00'')] ([vpn_details], [])
       = ([vpn_details], []) \<and>
       snd (scrape_post_batches (outage_services (scraped_vpn ''2025-07-01 10:00''))
            ''Classify: TARGET-POST-PLACEHOLDER'' 500 7 ''http://forum.onion/''
            [detail_bot (Some ''session=def'')]
            [(''batch_001'', [(''/post/marketplace/1'', ''2025-07-01 10:00'')])]
            ((detail_db [detail_bot (Some ''session=def'')] (detail_scan RUNNING None))
               \<lparr>marketplace_post_details := [vpn_details]\<rparr>)) = [] \<and>
       detail_scan_of
         (fst (scrape_post_batches (outage_services (scraped_vpn ''2025-07-01 10:00''))
            ''Classify: TARGET-POST-PLACEHOLDER'' 500 7 ''http://forum.onion/''
            [detail_bot (Some ''session=def'')]
            [(''batch_001'', [(''/post/marketplace/1'', ''2025-07-01 10:00'')])]
            ((detail_db [detail_bot (Some ''session=def'')] (detail_scan RUNNING None))
               \<lparr>marketplace_post_details := [vpn_details]\<rparr>))) 7
       = Some (detail_scan COMPLETED (Some 500))"
  proof -
    let ?out = "outage_services (scraped_vpn ''2025-07-01 10:00'')"
    let ?tmpl = "''Classify: TARGET-POST-PLACEHOLDER''"
    let ?bot = "detail_bot (Some ''session=def'')"
    let ?post = "(''/post/marketplace/1'', ''2025-07-01 10:00'')"
    let ?url = "''http://forum.onion/''"
    let ?U = "''http://forum.onion/post/marketplace/1''"
    let ?db = "(detail_db [?bot] (detail_scan RUNNING None))\<lparr>marketplace_post_details := [vpn_details]\<rparr>"
    let ?iab = "\<lparr>iab_classification = Some ''Positive'', iab_sentiment = None,
              iab_positive = Some ''0.7'', iab_negative = Some ''0.1'', iab_neutral = Some ''0.2''\<rparr>"
    let ?row = "\<lparr>details_scan_ref = 7, details_batch_name = ''batch_001'',
               details_title = ''VPN access'', details_content = ''Selling VPN access'',
               details_timestamp = ''2025-07-01 10:00'', details_author = ''alice'', details_link = ?U,
               original_language = None, original_text = Some ''Selling VPN access'',
               translated_language = None, translated_text = None, is_translated = False,
               sentiment = None, positive_score = Some ''0.7'',
               negative_score = Some ''0.1'', neutral_score = Some ''0.2''\<rparr>"
    have langs: "detect_languages (detect ?out) ''VPN access'' ''Selling VPN access''
        \<noteq> (''en'', ''en'')"
      by (simp add: detect_languages_def outage_services_sel strip_vpn)
    have ins: "enrich_post ?out ?tmpl [vpn_details] ''batch_001'' 7 ?U ''VPN access''
        ''Selling VPN access'' ''alice'' ''2025-07-01 10:00'' = insert_details [vpn_details] ?U ?row"
      using langs t [where srv = ?out and tmpl = ?tmpl and table = "[vpn_details]"
          and batch_name = "''batch_001''" and scan_id = 7 and page_url = ?U
          and raw_title = "''VPN access''" and raw_content = "''Selling VPN access''"
          and writer = "''alice''" and stamp = "''2025-07-01 10:00''"
          and title_exn = RequestException and content_exn = RequestException and iab = ?iab]
      by (simp add: outage_services_sel ascii_vpn)
    have dup: "insert_details [vpn_details] ?U ?row = Duplicate"
      using t [where table = "[vpn_details]" and row = ?row and page_url = ?U]
      by (simp add: first_Cons vpn_details_def)
    have a: "enrich_post ?out ?tmpl [vpn_details] ''batch_001'' 7 ?U ''VPN access''
        ''Selling VPN access'' ''alice'' ''2025-07-01 10:00'' = Duplicate"
      using ins dup by simp
    have b: "enrich_post (?out\<lparr>detect := (\<lambda>s. Inr ''unknown'')\<rparr>) ?tmpl [vpn_details] ''batch_001'' 7
        ?U ''VPN access'' ''Selling VPN access'' ''alice'' ''2025-07-01 10:00'' = Duplicate"
      using a t [where srv = ?out and tmpl = ?tmpl and table = "[vpn_details]"
          and batch_name = "''batch_001''" and scan_id = 7 and page_url = ?U
          and raw_title = "''VPN access''" and raw_content = "''Selling VPN access''"
          and writer = "''alice''" and stamp = "''2025-07-01 10:00''"
          and title_exn = OtherError and content_exn = OtherError]
      by (simp add: outage_services_sel ascii_vpn strip_vpn)
    have one: "scrape_one_post ?out ?tmpl [vpn_details] ?bot ''batch_001'' 7 ?url ?post = Duplicate"
      using a
      by (simp add: scrape_one_post_def full_url_example outage_services_sel scraped_vpn_def Let_def)
    have c: "sync_scrape_post ?out ?tmpl ?bot ''batch_001'' 7 ?url [?post] ([vpn_details], [])
        = ([vpn_details], [])"
      using one t [where srv = ?out and tmpl = ?tmpl and table = "[vpn_details]" and worker = ?bot
          and batch_name = "''batch_001''" and scan_id = 7 and url = ?url and post = ?post
          and batch_posts = "[]" and scan_errors = "[]"]
      by simp
    have run: "run_post_batches ?out ?tmpl [?bot] 7 ?url 0 [(''batch_001'', [?post])]
        ([vpn_details], []) [] = ([vpn_details], [])"
      using c by (simp add: outage_services_sel Let_def)
    have mpd: "marketplace_post_details ?db = [vpn_details]" by simp
    have d: "snd (scrape_post_batches ?out ?tmpl 500 7 ?url [?bot] [(''batch_001'', [?post])] ?db) = []"
      unfolding scrape_post_batches_def mpd run by simp
    have s0: "detail_scan_of ?db 7 = Some (detail_scan RUNNING None)"
      by (simp add: detail_scan_of_def detail_db_def detail_scan_def first_Cons)
    have "detail_scan_of
        (fst (scrape_post_batches ?out ?tmpl 500 7 ?url [?bot] [(''batch_001'', [?post])] ?db)) 7
        = map_option (\<lambda>s. s\<lparr>detail_status :=
              (if snd (scrape_post_batches ?out ?tmpl 500 7 ?url [?bot] [(''batch_001'', [?post])] ?db)
                  \<noteq> [] then STOPPED else COMPLETED),
            detail_completion_date := Some 500\<rparr>) (detail_scan_of ?db 7)"
      using t [where active_bots = "[?bot]" and srv = ?out and tmpl = ?tmpl and now = 500
          and scan_id = 7 and url = ?url and post_batches = "[(''batch_001'', [?post])]" and db = ?db
          and db' = "fst (scrape_post_batches ?out ?tmpl 500 7 ?url [?bot] [(''batch_001'', [?post])] ?db)"
          and errs = "snd (scrape_post_batches ?out ?tmpl 500 7 ?url [?bot] [(''batch_001'', [?post])] ?db)"]
      by simp
    then have e: "detail_scan_of
        (fst (scrape_post_batches ?out ?tmpl 500 7 ?url [?bot] [(''batch_001'', [?post])] ?db)) 7
        = Some (detail_scan COMPLETED (Some 500))"
      unfolding d s0 by (simp add: detail_scan_def)
    show ?thesis using a b c d e by simp
  qed
  show ?thesis
    using mismatch skipped unreadable_answer absorbed by simp
qed

text \<open>
  Claim C4 as the spec words it (a failure below the level of the batch, such as
  a timestamp mismatch, does not surface to the terminal status) fails: a scan
  whose only post has a timestamp that differs from the listed one ends
  \<open>STOPPED\<close>, with the mismatch as the only entry of \<^verbatim>\<open>scan_errors\<close> and no
  batch-level failure.
\<close>

theorem timestamp_mismatch_stops_scan_counterexample:
  "scrape_post_batches (run_services (scraped_vpn ''2025-07-01 10:01'') (\<lambda>s. Inr ''en''))
     ''Classify: TARGET-POST-PLACEHOLDER'' 500 7 ''http://forum.onion/''
     [detail_bot (Some ''session=def'')]
     [(''batch_001'', [(''/post/marketplace/1'', ''2025-07-01 10:00'')])]
     (detail_db [detail_bot (Some ''session=def'')] (detail_scan RUNNING None))
   = (detail_db [detail_bot (Some ''session=def'')] (detail_scan STOPPED (Some 500)),
      [TimestampMismatch ''http://forum.onion/post/marketplace/1'' ''2025-07-01 10:00''
         ''2025-07-01 10:01''])"
  by (simp add: scrape_post_batches_def scrape_one_post_mismatch_example set_detail_scan_def
      detail_db_def detail_scan_def run_services_open_session Let_def)

end
